theory Spec2Isabelle
  imports Complex_Main
begin

section \<open>The random source\<close>

text \<open>
  The script draws every sampled value from Python's module-level generator
  (\<^verbatim>\<open>import random\<close>), which the script never seeds. The generator's state is
  modelled as the sequence of raw draws still to come (\<open>g 0\<close> is the next one);
  every primitive consumes one raw draw and maps it into its range. Floats are
  modelled as exact rationals.
\<close>

type_synonym rng = "nat \<Rightarrow> int"

text \<open>A uniform integer below \<open>n\<close>, for positive \<open>n\<close>.\<close>

definition randbelow :: "int \<Rightarrow> rng \<Rightarrow> int \<times> rng" where
  "randbelow n g = (g 0 mod n, (\<lambda>i. g (Suc i)))"

text \<open>
  \<^verbatim>\<open>random.randint(a, b)\<close>: an integer of \<open>[a, b]\<close>, both ends included. Every call of
  the script has \<open>a \<le> b\<close> (the library raises otherwise).
\<close>

definition randint :: "int \<Rightarrow> int \<Rightarrow> rng \<Rightarrow> int \<times> rng" where
  "randint a b g = (case randbelow (b - a + 1) g of (k, g') \<Rightarrow> (a + k, g'))"

text \<open>\<^verbatim>\<open>random.random()\<close>: 53 random bits scaled into \<open>[0, 1)\<close>.\<close>

definition random :: "rng \<Rightarrow> rat \<times> rng" where
  "random g = (case randbelow (2 ^ 53) g of (k, g') \<Rightarrow> (of_int k / 2 ^ 53, g'))"

text \<open>\<^verbatim>\<open>random.uniform(a, b)\<close> is \<^verbatim>\<open>a + (b - a) * random()\<close>.\<close>

definition uniform :: "rat \<Rightarrow> rat \<Rightarrow> rng \<Rightarrow> rat \<times> rng" where
  "uniform a b g = (case random g of (u, g') \<Rightarrow> (a + (b - a) * u, g'))"

text \<open>
  \<^verbatim>\<open>random.choice(seq)\<close> raises on an empty sequence; every call of the script
  passes a non-empty list literal, given here as its first element and the rest.
\<close>

definition choice :: "'a \<Rightarrow> 'a list \<Rightarrow> rng \<Rightarrow> 'a \<times> rng" where
  "choice x xs g =
     (case randbelow (int (length (x # xs))) g of (k, g') \<Rightarrow> ((x # xs) ! nat k, g'))"

text \<open>
  \<^verbatim>\<open>random.sample(population, k)\<close> for a population of at most 21 elements: the
  pool algorithm of the standard library (pick index \<open>j\<close> below the number of
  elements left, move the last element of the pool into the hole). The library
  raises \<^verbatim>\<open>ValueError\<close> for \<open>k\<close> larger than the population; the script asks
  for 2 or 3 of the 8 organizations. On an exhausted pool the model stops.
\<close>

fun sample_pool :: "'a list \<Rightarrow> nat \<Rightarrow> rng \<Rightarrow> 'a list \<times> rng" where
  "sample_pool pool 0 g = ([], g)"
| "sample_pool [] (Suc k) g = ([], g)"
| "sample_pool (p # ps) (Suc k) g =
     (case randbelow (int (length (p # ps))) g of (j, g') \<Rightarrow>
        (case sample_pool (butlast ((p # ps)[nat j := last (p # ps)])) k g' of (rest, g'') \<Rightarrow>
           ((p # ps) ! nat j # rest, g'')))"

definition sample :: "'a list \<Rightarrow> int \<Rightarrow> rng \<Rightarrow> 'a list \<times> rng" where
  "sample population k g = sample_pool population (nat k) g"

section \<open>Images as recorded Pillow operations\<close>

text \<open>
  An image is the canvas \<^verbatim>\<open>Image.new\<close> created together with the Pillow
  operations applied to it since, in order. What Pillow computes from them
  (rasterised glyphs, the pixel values \<^verbatim>\<open>img.load()\<close> exposes, the size of a
  rotated image) is the library's, and enters through the environment.
\<close>

type_synonym pixel = "int \<times> int \<times> int"

datatype color = Named string | RGB int int int | RGBA int int int int

datatype font = TrueType string int | LoadDefault

datatype op =
    Rectangle "(int \<times> int) \<times> (int \<times> int)" "color option" "color option" int
  | Text "int \<times> int" string color font "string option"
  | Line "(int \<times> int) \<times> (int \<times> int)" color int
  | GaussianBlur rat
  | PutPixel int int pixel
  | Rotate int color bool

record image =
  mode :: string
  width :: int
  height :: int
  background :: color
  ops :: "op list"

record env =
  img_load :: "image \<Rightarrow> int \<Rightarrow> int \<Rightarrow> pixel"
  rotated_size :: "int \<Rightarrow> int \<times> int \<Rightarrow> int \<times> int"
  dejavu_installed :: bool
  base_dir :: string
  utcnow_isoformat :: string

definition Image_new :: "string \<Rightarrow> int \<times> int \<Rightarrow> color \<Rightarrow> image" where
  "Image_new m sz c = \<lparr>mode = m, width = fst sz, height = snd sz, background = c, ops = []\<rparr>"

definition draw_rectangle ::
  "image \<Rightarrow> (int \<times> int) \<times> (int \<times> int) \<Rightarrow> color option \<Rightarrow> color option \<Rightarrow> int \<Rightarrow> image" where
  "draw_rectangle img xy fill outline w = img\<lparr>ops := ops img @ [Rectangle xy fill outline w]\<rparr>"

definition draw_text ::
  "image \<Rightarrow> int \<times> int \<Rightarrow> string \<Rightarrow> color \<Rightarrow> font \<Rightarrow> string option \<Rightarrow> image" where
  "draw_text img xy s fill f anchor = img\<lparr>ops := ops img @ [Text xy s fill f anchor]\<rparr>"

definition draw_line :: "image \<Rightarrow> (int \<times> int) \<times> (int \<times> int) \<Rightarrow> color \<Rightarrow> int \<Rightarrow> image" where
  "draw_line img xy fill w = img\<lparr>ops := ops img @ [Line xy fill w]\<rparr>"

definition img_filter_GaussianBlur :: "image \<Rightarrow> rat \<Rightarrow> image" where
  "img_filter_GaussianBlur img radius = img\<lparr>ops := ops img @ [GaussianBlur radius]\<rparr>"

definition putpixel :: "image \<Rightarrow> int \<Rightarrow> int \<Rightarrow> pixel \<Rightarrow> image" where
  "putpixel img i j p = img\<lparr>ops := ops img @ [PutPixel i j p]\<rparr>"

definition img_rotate :: "env \<Rightarrow> image \<Rightarrow> int \<Rightarrow> color \<Rightarrow> bool \<Rightarrow> image" where
  "img_rotate E img angle fillcolor expand =
     (let sz' = (if expand then rotated_size E angle (width img, height img)
                   else (width img, height img))
      in img\<lparr>width := fst sz', height := snd sz',
              ops := ops img @ [Rotate angle fillcolor expand]\<rparr>)"

section \<open>Degradation profiles\<close>

record settings =
  blur :: rat
  noise :: int
  rotation :: int

datatype error = KeyError string | ZeroDivisionError

text \<open>
  \<^verbatim>\<open>QUALITY_SETTINGS\<close> is built once, when the module is loaded; the rotation of
  its \<^verbatim>\<open>"edge"\<close> entry is the value \<^verbatim>\<open>random.randint(5, 15)\<close> returned then.
\<close>

definition QUALITY_SETTINGS :: "int \<Rightarrow> (string \<times> settings) list" where
  "QUALITY_SETTINGS edge_rotation =
     [(''high'', \<lparr>blur = 0, noise = 0, rotation = 0\<rparr>),
      (''medium'', \<lparr>blur = 1 / 2, noise = 10, rotation = 0\<rparr>),
      (''low'', \<lparr>blur = 3 / 2, noise = 25, rotation = 0\<rparr>),
      (''edge'', \<lparr>blur = 4 / 5, noise = 15, rotation = edge_rotation\<rparr>)]"

definition module_load :: "rng \<Rightarrow> (string \<times> settings) list \<times> rng" where
  "module_load g = (case randint 5 15 g of (r, g') \<Rightarrow> (QUALITY_SETTINGS r, g'))"

definition get_font :: "env \<Rightarrow> int \<Rightarrow> bool \<Rightarrow> font" where
  "get_font E sz bold =
     (if dejavu_installed E then
        (if bold then TrueType ''/usr/share/fonts/truetype/dejavu/DejaVuSans-Bold.ttf'' sz
         else TrueType ''/usr/share/fonts/truetype/dejavu/DejaVuSans.ttf'' sz)
      else LoadDefault)"

definition add_watermark :: "env \<Rightarrow> image \<Rightarrow> image" where
  "add_watermark E img =
     (let font = get_font E 24 False;
          watermark = ''SAMPLE - FOR TESTING ONLY''
      in draw_text img (width img div 4, height img div 2) watermark
           (RGBA 200 200 200 128) font None)"

text \<open>The assignment to \<^verbatim>\<open>pixels[i, j]\<close> in the noise loop.\<close>

definition noise_pixel :: "int \<Rightarrow> pixel \<Rightarrow> pixel" where
  "noise_pixel n p =
     (case p of (r, g, b) \<Rightarrow>
        (max 0 (min 255 (r + n)), max 0 (min 255 (g + n)), max 0 (min 255 (b + n))))"

text \<open>
  The body of the two nested loops. Each pixel is visited once and only its
  own value is written, so the value read at \<open>(i, j)\<close> is the one \<^verbatim>\<open>img.load()\<close>
  exposed before the loops.
\<close>

definition noise_step ::
  "(int \<Rightarrow> int \<Rightarrow> pixel) \<Rightarrow> int \<Rightarrow> int \<Rightarrow> int \<Rightarrow> image \<times> rng \<Rightarrow> image \<times> rng" where
  "noise_step pixels amount i j s =
     (case s of (img, g) \<Rightarrow>
        (case random g of (u, g1) \<Rightarrow>
           if u < 1 / 10 then
             (case randint (- amount) amount g1 of (n, g2) \<Rightarrow>
                (putpixel img i j (noise_pixel n (pixels i j)), g2))
           else (img, g1)))"

definition apply_noise :: "env \<Rightarrow> int \<Rightarrow> image \<Rightarrow> rng \<Rightarrow> image \<times> rng" where
  "apply_noise E amount img g =
     (let pixels = img_load E img
      in fold (\<lambda>i. fold (\<lambda>j. noise_step pixels amount i j) [0..height img - 1])
           [0..width img - 1] (img, g))"

definition apply_quality ::
  "env \<Rightarrow> (string \<times> settings) list \<Rightarrow> image \<Rightarrow> string \<Rightarrow> rng \<Rightarrow> error + image \<times> rng" where
  "apply_quality E qs img quality g =
     (case map_of qs ''high'' of
        None \<Rightarrow> Inl (KeyError ''high'')
      | Some high \<Rightarrow>
          (let settings = (case map_of qs quality of Some s \<Rightarrow> s | None \<Rightarrow> high);
               img1 = (if blur settings > 0 then img_filter_GaussianBlur img (blur settings)
                       else img);
               (img2, g2) = (if noise settings > 0 then apply_noise E (noise settings) img1 g
                             else (img1, g));
               (img3, g3) = (if rotation settings > 0 then
                               (case choice (- 1 :: int) [1] g2 of (sign, g') \<Rightarrow>
                                  (img_rotate E img2 (sign * rotation settings)
                                     (RGB 255 255 255) True, g'))
                             else (img2, g2))
           in Inr (img3, g3)))"

section \<open>Strings, numbers and dates of the standard library\<close>

text \<open>
  The pieces of Python's \<^verbatim>\<open>str\<close>, \<^verbatim>\<open>format\<close>, \<^verbatim>\<open>datetime\<close>, \<^verbatim>\<open>textwrap\<close> and
  \<^verbatim>\<open>os.path\<close> the script calls, on the inputs the script gives them.
\<close>

definition str_digit :: "int \<Rightarrow> char" where
  "str_digit d = ''0123456789'' ! nat (d mod 10)"

function str_digits :: "int \<Rightarrow> string" where
  "str_digits n = (if n < 10 then [str_digit n] else str_digits (n div 10) @ [str_digit n])"
  by pat_completeness auto
termination
  by (relation "measure nat") auto

definition str_int :: "int \<Rightarrow> string" where
  "str_int i = (if i < 0 then ''-'' @ str_digits (- i) else str_digits i)"

definition zfill :: "nat \<Rightarrow> string \<Rightarrow> string" where
  "zfill w s = replicate (w - length s) CHR ''0'' @ s"

text \<open>The format specification \<^verbatim>\<open>0wd\<close>: sign-aware zero padding to width \<open>w\<close>.\<close>

definition format_0d :: "nat \<Rightarrow> int \<Rightarrow> string" where
  "format_0d w i =
     (if i < 0 then ''-'' @ zfill (w - 1) (str_digits (- i)) else zfill w (str_digits i))"

definition upper_char :: "char \<Rightarrow> char" where
  "upper_char c =
     (case map_of (zip ''abcdefghijklmnopqrstuvwxyz'' ''ABCDEFGHIJKLMNOPQRSTUVWXYZ'') c of
        Some C \<Rightarrow> C
      | None \<Rightarrow> c)"

definition upper :: "string \<Rightarrow> string" where
  "upper s = map upper_char s"

text \<open>
  Floats are exact rationals here; \<^verbatim>\<open>round(x, 2)\<close> and the format \<^verbatim>\<open>.2f\<close> round
  to the nearest hundredth, a tie to the even one.
\<close>

definition round_half_even :: "rat \<Rightarrow> int" where
  "round_half_even x =
     (let f = \<lfloor>x\<rfloor>; r = x - of_int f
      in if r < 1 / 2 then f else if 1 / 2 < r then f + 1 else if even f then f else f + 1)"

definition round2 :: "rat \<Rightarrow> rat" where
  "round2 x = of_int (round_half_even (x * 100)) / 100"

fun chunk3 :: "string \<Rightarrow> string" where
  "chunk3 (a # b # c # d # rest) = a # b # c # CHR '','' # chunk3 (d # rest)"
| "chunk3 xs = xs"

definition group_thousands :: "string \<Rightarrow> string" where
  "group_thousands digits = rev (chunk3 (rev digits))"

text \<open>The format specification \<^verbatim>\<open>,.2f\<close>.\<close>

definition format_money :: "rat \<Rightarrow> string" where
  "format_money x =
     (let c = round_half_even (\<bar>x\<bar> * 100)
      in (if x < 0 then ''-'' else []) @ group_thousands (str_digits (c div 100)) @ ''.'' @
         zfill 2 (str_digits (c mod 100)))"

text \<open>
  Every \<^verbatim>\<open>datetime\<close> of the script is a midnight and every \<^verbatim>\<open>timedelta\<close> a whole
  number of days: a \<^verbatim>\<open>datetime\<close> is its proleptic Gregorian ordinal, and adding a
  \<^verbatim>\<open>timedelta(days=k)\<close> adds \<open>k\<close>.
\<close>

type_synonym datetime = int

definition is_leap :: "int \<Rightarrow> bool" where
  "is_leap year = (year mod 4 = 0 \<and> (year mod 100 \<noteq> 0 \<or> year mod 400 = 0))"

definition days_before_year :: "int \<Rightarrow> int" where
  "days_before_year year = (let y = year - 1 in y * 365 + y div 4 - y div 100 + y div 400)"

definition DAYS_IN_MONTH :: "int list" where
  "DAYS_IN_MONTH = [31, 28, 31, 30, 31, 30, 31, 31, 30, 31, 30, 31]"

definition DAYS_BEFORE_MONTH :: "int list" where
  "DAYS_BEFORE_MONTH = [0, 31, 59, 90, 120, 151, 181, 212, 243, 273, 304, 334]"

definition days_before_month :: "bool \<Rightarrow> int \<Rightarrow> int" where
  "days_before_month leapyear month =
     DAYS_BEFORE_MONTH ! nat (month - 1) + (if 2 < month \<and> leapyear then 1 else 0)"

definition ymd2ord :: "int \<Rightarrow> int \<Rightarrow> int \<Rightarrow> datetime" where
  "ymd2ord year month day =
     days_before_year year + days_before_month (is_leap year) month + day"

definition ord2ymd :: "datetime \<Rightarrow> int \<times> int \<times> int" where
  "ord2ymd ordinal =
     (let n = ordinal - 1;
          n400 = n div 146097; n = n mod 146097;
          n100 = n div 36524; n = n mod 36524;
          n4 = n div 1461; n = n mod 1461;
          n1 = n div 365; n = n mod 365;
          year = n400 * 400 + 1 + n100 * 100 + n4 * 4 + n1
      in if n1 = 4 \<or> n100 = 4 then (year - 1, 12, 31)
         else
           (let leapyear = (n1 = 3 \<and> (n4 \<noteq> 24 \<or> n100 = 3));
                month = (n + 50) div 32;
                preceding = days_before_month leapyear month
            in if n < preceding then
                 (let month = month - 1;
                      preceding = preceding - (DAYS_IN_MONTH ! nat (month - 1) +
                                    (if month = 2 \<and> leapyear then 1 else 0))
                  in (year, month, n - preceding + 1))
               else (year, month, n - preceding + 1)))"

definition MONTH_NAMES :: "string list" where
  "MONTH_NAMES = [''January'', ''February'', ''March'', ''April'', ''May'', ''June'', ''July'',
     ''August'', ''September'', ''October'', ''November'', ''December'']"

text \<open>The four directives the script's format strings use.\<close>

definition directive :: "char \<Rightarrow> datetime \<Rightarrow> string" where
  "directive c d =
     (case ord2ymd d of (year, month, day) \<Rightarrow>
        if c = CHR ''Y'' then format_0d 4 year
        else if c = CHR ''m'' then format_0d 2 month
        else if c = CHR ''d'' then format_0d 2 day
        else if c = CHR ''B'' then MONTH_NAMES ! nat (month - 1)
        else [CHR ''%'', c])"

fun strftime :: "datetime \<Rightarrow> string \<Rightarrow> string" where
  "strftime d [] = []"
| "strftime d [c] = [c]"
| "strftime d (c # x # fs) =
     (if c = CHR ''%'' then directive x d @ strftime d fs else c # strftime d (x # fs))"

text \<open>
  \<^verbatim>\<open>textwrap.wrap(text, width)\<close> on text whose words are separated by blanks,
  carry no hyphen and are no longer than the width, as the three wrapped
  texts of the script are: as many words on a line as fit.
\<close>

fun split_words :: "string \<Rightarrow> string \<Rightarrow> string list" where
  "split_words [] cur = (if cur = [] then [] else [cur])"
| "split_words (c # cs) cur =
     (if c = CHR '' '' then (if cur = [] then split_words cs [] else cur # split_words cs [])
      else split_words cs (cur @ [c]))"

fun fill_lines :: "nat \<Rightarrow> string list \<Rightarrow> string \<Rightarrow> string list" where
  "fill_lines w [] cur = (if cur = [] then [] else [cur])"
| "fill_lines w (x # xs) cur =
     (if cur = [] then fill_lines w xs x
      else if length cur + 1 + length x \<le> w then fill_lines w xs (cur @ '' '' @ x)
      else cur # fill_lines w xs x)"

definition textwrap_wrap :: "string \<Rightarrow> nat \<Rightarrow> string list" where
  "textwrap_wrap s w = fill_lines w (split_words s []) []"

text \<open>\<^verbatim>\<open>os.path.join\<close> of \<^verbatim>\<open>posixpath\<close>.\<close>

definition join2 :: "string \<Rightarrow> string \<Rightarrow> string" where
  "join2 path b =
     (if b \<noteq> [] \<and> hd b = CHR ''/'' then b
      else if path = [] \<or> last path = CHR ''/'' then path @ b
      else path @ ''/'' @ b)"

definition os_path_join :: "string \<Rightarrow> string list \<Rightarrow> string" where
  "os_path_join a ps = foldl join2 a ps"

datatype json =
    JNull
  | JBool bool
  | JInt int
  | JFloat rat
  | JStr string
  | JList "json list"
  | JDict "(string \<times> json) list"

section \<open>Catalog data and the state of a run\<close>

record org =
  name :: string
  ein :: string
  short :: string

record bank =
  bank_name :: string
  bank_short :: string

definition ORGANIZATIONS :: "org list" where
  "ORGANIZATIONS =
     [\<lparr>name = ''Goodwill Industries'', ein = ''53-0196517'', short = ''goodwill''\<rparr>,
      \<lparr>name = ''The Salvation Army'', ein = ''13-5562351'', short = ''salvation-army''\<rparr>,
      \<lparr>name = ''American Red Cross'', ein = ''53-0196605'', short = ''redcross''\<rparr>,
      \<lparr>name = ''Habitat for Humanity'', ein = ''91-1914868'', short = ''habitat''\<rparr>,
      \<lparr>name = ''United Way Worldwide'', ein = ''13-1635294'', short = ''unitedway''\<rparr>,
      \<lparr>name = ''Community Food Bank'', ein = ''12-3456789'', short = ''foodbank''\<rparr>,
      \<lparr>name = ''First Community Church'', ein = ''23-4567890'', short = ''church''\<rparr>,
      \<lparr>name = ''State University Foundation'', ein = ''34-5678901'', short = ''university''\<rparr>]"

definition BANKS :: "bank list" where
  "BANKS =
     [\<lparr>bank_name = ''Chase Bank'', bank_short = ''chase''\<rparr>,
      \<lparr>bank_name = ''Bank of America'', bank_short = ''bofa''\<rparr>,
      \<lparr>bank_name = ''Wells Fargo'', bank_short = ''wellsfargo''\<rparr>,
      \<lparr>bank_name = ''Citibank'', bank_short = ''citi''\<rparr>,
      \<lparr>bank_name = ''Local Credit Union'', bank_short = ''creditunion''\<rparr>]"

definition OUTPUT_DIR :: "env \<Rightarrow> string" where
  "OUTPUT_DIR E = os_path_join (base_dir E) [''documents'']"

definition MANIFEST_PATH :: "env \<Rightarrow> string" where
  "MANIFEST_PATH E = os_path_join (base_dir E) [''manifest.json'']"

text \<open>
  What a run changes: the generator, the file system (the directories made
  and the files written, in order) and the list \<^verbatim>\<open>manifest_entries\<close> that
  \<^verbatim>\<open>main\<close> creates and hands to every renderer.
\<close>

datatype content = PNG image | JSON json

record state =
  random_state :: rng
  dirs :: "string list"
  files :: "(string \<times> content) list"
  manifest_entries :: "json list"

definition random_date :: "rng \<Rightarrow> datetime \<times> rng" where
  "random_date g =
     (let start_year = 2025;
          start = ymd2ord start_year 1 1;
          end = ymd2ord 2026 1 29;
          delta_days = end - start
      in case randint 0 delta_days g of (random_days, g') \<Rightarrow> (start + random_days, g'))"

definition random_amount :: "rat \<Rightarrow> rat \<Rightarrow> rng \<Rightarrow> rat \<times> rng" where
  "random_amount min_amt max_amt g =
     (case uniform min_amt max_amt g of (x, g') \<Rightarrow> (round2 x, g'))"

text \<open>A loop \<^verbatim>\<open>for line in wrapped: draw.text((x, y), line, ...); y += 20\<close>.\<close>

definition draw_lines ::
  "int \<Rightarrow> color \<Rightarrow> font \<Rightarrow> string list \<Rightarrow> image \<times> int \<Rightarrow> image \<times> int" where
  "draw_lines x fill f wrapped s =
     fold (\<lambda>line (img, y). (draw_text img (x, y) line fill f None, y + 20)) wrapped s"

section \<open>The receipt renderer\<close>

definition receipt_tax_text :: string where
  "receipt_tax_text = ''No goods or services were provided in exchange for this donation. This receipt may be used for tax purposes.''"

text \<open>
  \<^verbatim>\<open>generate_receipt\<close> up to its footer: the canvas and the values sampled for
  it (date, amount, receipt number).
\<close>

definition draw_receipt :: "env \<Rightarrow> org \<Rightarrow> rng \<Rightarrow> image \<times> (datetime \<times> rat \<times> string) \<times> rng" where
  "draw_receipt E org g =
     (let width = 600; height = 800;
          img = Image_new ''RGB'' (width, height) (Named ''white'');
          title_font = get_font E 24 True;
          header_font = get_font E 18 True;
          normal_font = get_font E 14 False;
          small_font = get_font E 12 False;
          y = (40 :: int);
          img = draw_rectangle img ((20, 20), (width - 20, 100)) None (Some (Named ''black'')) 2;
          img = draw_text img (width div 2, 40) (name org) (Named ''black'') title_font
                  (Some ''mt'');
          img = draw_text img (width div 2, 70) (''EIN: '' @ ein org) (Named ''gray'') small_font
                  (Some ''mt'');
          y = 130;
          img = draw_text img (width div 2, y) ''DONATION RECEIPT'' (Named ''black'') header_font
                  (Some ''mt'');
          y = y + 50;
          (date, g) = random_date g;
          (amount, g) = random_amount 25 5000 g;
          (num, g) = randint 10000 99999 g;
          receipt_num = ''RCP-'' @ str_int (fst (ord2ymd date)) @ ''-'' @ str_int num;
          img = draw_text img (40, y) (''Receipt Number: '' @ receipt_num) (Named ''black'')
                  normal_font None;
          y = y + 30;
          img = draw_text img (40, y) (''Date: '' @ strftime date ''%B %d, %Y'') (Named ''black'')
                  normal_font None;
          y = y + 50;
          img = draw_text img (40, y) ''Received From:'' (Named ''black'') header_font None;
          y = y + 30;
          img = draw_text img (60, y) ''Test Donor'' (Named ''black'') normal_font None;
          y = y + 25;
          img = draw_text img (60, y) ''123 Test Street'' (Named ''black'') normal_font None;
          y = y + 25;
          img = draw_text img (60, y) ''Test City, ST 12345'' (Named ''black'') normal_font None;
          y = y + 50;
          img = draw_rectangle img ((40, y), (width - 40, y + 60)) None (Some (Named ''black'')) 1;
          img = draw_text img (width div 2, y + 10) ''DONATION AMOUNT'' (Named ''black'')
                  small_font (Some ''mt'');
          img = draw_text img (width div 2, y + 35) (''$'' @ format_money amount)
                  (Named ''black'') title_font (Some ''mt'');
          y = y + 90;
          tax_text = receipt_tax_text;
          wrapped = textwrap_wrap tax_text 60;
          (img, y) = draw_lines 40 (Named ''gray'') small_font wrapped (img, y);
          y = y + 30;
          img = draw_line img ((40, y + 40), (250, y + 40)) (Named ''black'') 1;
          img = draw_text img (40, y + 45) ''Authorized Signature'' (Named ''gray'') small_font
                  None;
          img = draw_text img (width div 2, height - 40) ''Thank you for your generous donation!''
                  (Named ''black'') normal_font (Some ''mt'')
      in (img, (date, amount, receipt_num), g))"

text \<open>The rest of \<^verbatim>\<open>generate_receipt\<close>: post-processing, the file, the manifest record.\<close>

definition generate_receipt ::
  "env \<Rightarrow> (string \<times> settings) list \<Rightarrow> org \<Rightarrow> string \<Rightarrow> int \<Rightarrow> state \<Rightarrow> error + string \<times> state" where
  "generate_receipt E qs org quality index st =
     (case draw_receipt E org (random_state st) of (img, (date, amount, receipt_num), g) \<Rightarrow>
        (let img = add_watermark E img
         in case apply_quality E qs img quality g of
              Inl e \<Rightarrow> Inl e
            | Inr (img, g) \<Rightarrow>
                (let filename = ''receipt_'' @ short org @ ''_'' @ quality @ ''_'' @
                                  format_0d 3 index @ ''.png'';
                     filepath = os_path_join (OUTPUT_DIR E) [''receipts'', filename]
                 in Inr (filename,
                      st\<lparr>random_state := g,
                         files := files st @ [(filepath, PNG img)],
                         manifest_entries := manifest_entries st @
                           [JDict
                              [(''filename'', JStr (''receipts/'' @ filename)),
                               (''documentType'', JStr ''receipt''),
                               (''quality'', JStr quality),
                               (''synthetic'', JBool True),
                               (''expectedFields'', JDict
                                  [(''organization_name'', JStr (name org)),
                                   (''ein'', JStr (ein org)),
                                   (''amount'', JFloat amount),
                                   (''date'', JStr (strftime date ''%Y-%m-%d'')),
                                   (''donor_name'', JStr ''Test Donor''),
                                   (''receipt_number'', JStr receipt_num)])]]\<rparr>))))"

section \<open>The acknowledgment letter renderer\<close>

text \<open>The f-string \<^verbatim>\<open>body\<close> of the letter and its constant \<^verbatim>\<open>tax_text\<close>.\<close>

definition letter_body :: "rat \<Rightarrow> datetime \<Rightarrow> string" where
  "letter_body amount donation_date =
     ''Thank you for your generous donation of $'' @ format_money amount @
     '' received on '' @ strftime donation_date ''%B %d, %Y'' @
     ''. Your support helps us continue our mission to serve the community.''"

definition letter_tax_text :: string where
  "letter_tax_text = ''This letter serves as your official receipt for tax purposes. No goods or services were provided in exchange for your contribution. Please retain this letter for your tax records.''"

text \<open>
  \<^verbatim>\<open>generate_acknowledgment_letter\<close> up to its closing lines: the canvas and the
  values sampled for it (letterhead date, amount, date the donation was received).
\<close>

definition draw_acknowledgment_letter ::
  "env \<Rightarrow> org \<Rightarrow> rng \<Rightarrow> image \<times> (datetime \<times> rat \<times> datetime) \<times> rng" where
  "draw_acknowledgment_letter E org g =
     (let width = 600; height = 850;
          img = Image_new ''RGB'' (width, height) (Named ''white'');
          title_font = get_font E 20 True;
          header_font = get_font E 16 True;
          normal_font = get_font E 12 False;
          small_font = get_font E 10 False;
          y = 40;
          img = draw_text img (width div 2, y) (name org) (Named ''black'') title_font
                  (Some ''mt'');
          y = y + 30;
          img = draw_text img (width div 2, y) ''123 Charity Lane, Nonprofit City, ST 00000''
                  (Named ''gray'') small_font (Some ''mt'');
          y = y + 20;
          img = draw_text img (width div 2, y) (''Tax ID: '' @ ein org) (Named ''gray'')
                  small_font (Some ''mt'');
          y = y + 10;
          img = draw_line img ((40, y + 10), (width - 40, y + 10)) (Named ''gray'') 1;
          y = y + 40;
          (date, g) = random_date g;
          img = draw_text img (40, y) (strftime date ''%B %d, %Y'') (Named ''black'') normal_font
                  None;
          y = y + 40;
          img = draw_text img (40, y) ''Test Donor'' (Named ''black'') normal_font None;
          y = y + 20;
          img = draw_text img (40, y) ''123 Test Street'' (Named ''black'') normal_font None;
          y = y + 20;
          img = draw_text img (40, y) ''Test City, ST 12345'' (Named ''black'') normal_font None;
          y = y + 40;
          img = draw_text img (40, y) ''Dear Test Donor,'' (Named ''black'') normal_font None;
          y = y + 35;
          (amount, g) = random_amount 25 5000 g;
          (days, g) = randint 1 14 g;
          donation_date = date - days;
          body = letter_body amount donation_date;
          wrapped = textwrap_wrap body 70;
          (img, y) = draw_lines 40 (Named ''black'') normal_font wrapped (img, y);
          y = y + 25;
          tax_text = letter_tax_text;
          wrapped = textwrap_wrap tax_text 70;
          (img, y) = draw_lines 40 (Named ''black'') normal_font wrapped (img, y);
          y = y + 30;
          img = draw_rectangle img ((40, y), (width - 40, y + 80)) None (Some (Named ''gray'')) 1;
          img = draw_text img (50, y + 10) ''Donation Details:'' (Named ''black'') header_font
                  None;
          img = draw_text img (50, y + 35) (''Amount: $'' @ format_money amount)
                  (Named ''black'') normal_font None;
          img = draw_text img (50, y + 55)
                  (''Date Received: '' @ strftime donation_date ''%Y-%m-%d'') (Named ''black'')
                  normal_font None;
          img = draw_text img (300, y + 35) ''Type: Cash/Check'' (Named ''black'') normal_font
                  None;
          y = y + 110;
          img = draw_text img (40, y) ''With gratitude,'' (Named ''black'') normal_font None;
          y = y + 50;
          img = draw_line img ((40, y), (200, y)) (Named ''black'') 1;
          y = y + 5;
          img = draw_text img (40, y) ''Executive Director'' (Named ''black'') small_font None;
          y = y + 15;
          img = draw_text img (40, y) (name org) (Named ''black'') small_font None
      in (img, (date, amount, donation_date), g))"

definition generate_acknowledgment_letter ::
  "env \<Rightarrow> (string \<times> settings) list \<Rightarrow> org \<Rightarrow> string \<Rightarrow> int \<Rightarrow> state \<Rightarrow> error + string \<times> state" where
  "generate_acknowledgment_letter E qs org quality index st =
     (case draw_acknowledgment_letter E org (random_state st) of
        (img, (date, amount, donation_date), g) \<Rightarrow>
        (let img = add_watermark E img
         in case apply_quality E qs img quality g of
              Inl e \<Rightarrow> Inl e
            | Inr (img, g) \<Rightarrow>
                (let filename = ''acknowledgment_'' @ short org @ ''_'' @ quality @ ''_'' @
                                  format_0d 3 index @ ''.png'';
                     filepath = os_path_join (OUTPUT_DIR E) [''acknowledgment_letters'', filename]
                 in Inr (filename,
                      st\<lparr>random_state := g,
                         files := files st @ [(filepath, PNG img)],
                         manifest_entries := manifest_entries st @
                           [JDict
                              [(''filename'', JStr (''acknowledgment_letters/'' @ filename)),
                               (''documentType'', JStr ''acknowledgment_letter''),
                               (''quality'', JStr quality),
                               (''synthetic'', JBool True),
                               (''expectedFields'', JDict
                                  [(''organization_name'', JStr (name org)),
                                   (''ein'', JStr (ein org)),
                                   (''amount'', JFloat amount),
                                   (''date'', JStr (strftime donation_date ''%Y-%m-%d'')),
                                   (''donor_name'', JStr ''Test Donor'')])]]\<rparr>))))"

section \<open>The bank statement renderer\<close>

text \<open>
  A transaction dictionary. The key \<^verbatim>\<open>"org"\<close> is present in the charitable
  ones only.
\<close>

record txn =
  txn_date :: datetime
  txn_desc :: string
  txn_amount :: rat
  txn_balance :: rat
  txn_charitable :: bool
  txn_org :: "org option"

text \<open>The body of the loop that adds the regular transactions.\<close>

definition regular_txn ::
  "txn list \<times> rat \<times> datetime \<times> rng \<Rightarrow> txn list \<times> rat \<times> datetime \<times> rng" where
  "regular_txn s =
     (case s of (transactions, balance, current_date, g) \<Rightarrow>
        (let (u, g) = uniform 20 200 g;
             amt = - u;
             balance = balance + amt;
             (d, g) = choice ''GROCERY STORE'' [''GAS STATION'', ''RESTAURANT'', ''ONLINE PURCHASE''] g;
             transactions = transactions @
               [\<lparr>txn_date = current_date, txn_desc = d, txn_amount = amt, txn_balance = balance,
                 txn_charitable = False, txn_org = None\<rparr>];
             (k, g) = randint 1 5 g
         in (transactions, balance, current_date + k, g)))"

text \<open>The body of the loop that adds the charitable transactions.\<close>

definition charitable_txn ::
  "org \<Rightarrow> txn list \<times> rat \<times> datetime \<times> rng \<Rightarrow> txn list \<times> rat \<times> datetime \<times> rng" where
  "charitable_txn org s =
     (case s of (transactions, balance, current_date, g) \<Rightarrow>
        (let (a, g) = random_amount 50 500 g;
             amt = - a;
             balance = balance + amt;
             transactions = transactions @
               [\<lparr>txn_date = current_date, txn_desc = ''DONATION '' @ upper (take 20 (name org)),
                 txn_amount = amt, txn_balance = balance, txn_charitable = True,
                 txn_org = Some org\<rparr>];
             (k, g) = randint 1 5 g
         in (transactions, balance, current_date + k, g)))"

text \<open>
  The loop that draws the transactions and collects \<^verbatim>\<open>charitable_entries\<close>; it
  stops at the first transaction that would start below \<^verbatim>\<open>height - 80\<close>
  (\<open>h\<close> is the height of the canvas).
\<close>

fun draw_transactions ::
  "font \<Rightarrow> int \<Rightarrow> txn list \<Rightarrow> image \<times> int \<times> json list \<Rightarrow> error + image \<times> int \<times> json list" where
  "draw_transactions normal_font h [] s = Inr s"
| "draw_transactions normal_font h (t # rest) (img, y, charitable_entries) =
     (if h - 80 < y then Inr (img, y, charitable_entries)
      else
        (let img = draw_text img (30, y) (strftime (txn_date t) ''%m/%d'') (Named ''black'')
                     normal_font None;
             img = draw_text img (120, y) (take 35 (txn_desc t)) (Named ''black'') normal_font
                     None;
             color = (if txn_amount t < 0 then ''red'' else ''green'');
             img = draw_text img (450, y) (''$'' @ format_money (txn_amount t)) (Named color)
                     normal_font None;
             img = draw_text img (550, y) (''$'' @ format_money (txn_balance t))
                     (Named ''black'') normal_font None;
             y = y + 22
         in if txn_charitable t then
              (case txn_org t of
                 None \<Rightarrow> Inl (KeyError ''org'')
               | Some org \<Rightarrow>
                   draw_transactions normal_font h rest
                     (img, y, charitable_entries @
                        [JDict [(''organization'', JStr (name org)),
                                (''amount'', JFloat \<bar>txn_amount t\<bar>),
                                (''date'', JStr (strftime (txn_date t) ''%Y-%m-%d''))]]))
            else draw_transactions normal_font h rest (img, y, charitable_entries)))"

text \<open>
  \<^verbatim>\<open>generate_bank_statement\<close> up to its footer: the canvas, the values sampled
  for it (account number, statement period) and \<^verbatim>\<open>charitable_entries\<close>.
\<close>

definition draw_bank_statement ::
  "env \<Rightarrow> bank \<Rightarrow> rng \<Rightarrow> error + image \<times> (string \<times> datetime \<times> datetime \<times> json list) \<times> rng" where
  "draw_bank_statement E bank g =
     (let width = 700; height = 600;
          img = Image_new ''RGB'' (width, height) (Named ''white'');
          title_font = get_font E 22 True;
          header_font = get_font E 14 True;
          normal_font = get_font E 11 False;
          small_font = get_font E 10 False;
          y = (30 :: int);
          img = draw_rectangle img ((0, 0), (width, 80)) (Some (Named ''#003366'')) None 1;
          img = draw_text img (30, 25) (bank_name bank) (Named ''white'') title_font None;
          img = draw_text img (30, 55) ''Account Statement'' (Named ''#cccccc'') small_font None;
          y = 100;
          (num, g) = randint 1000 9999 g;
          acct_num = ''***'' @ str_int num;
          (start_date, g) = random_date g;
          end_date = start_date + 30;
          img = draw_text img (30, y) (''Account: '' @ acct_num) (Named ''black'') normal_font
                  None;
          img = draw_text img (400, y) ''Statement Period:'' (Named ''black'') normal_font None;
          y = y + 20;
          img = draw_text img (30, y) ''Primary Checking'' (Named ''gray'') small_font None;
          img = draw_text img (400, y)
                  (strftime start_date ''%m/%d/%Y'' @ '' - '' @ strftime end_date ''%m/%d/%Y'')
                  (Named ''black'') small_font None;
          y = y + 40;
          img = draw_rectangle img ((20, y), (width - 20, y + 25)) (Some (Named ''#f0f0f0''))
                  None 1;
          img = draw_text img (30, y + 5) ''Date'' (Named ''black'') header_font None;
          img = draw_text img (120, y + 5) ''Description'' (Named ''black'') header_font None;
          img = draw_text img (450, y + 5) ''Amount'' (Named ''black'') header_font None;
          img = draw_text img (550, y + 5) ''Balance'' (Named ''black'') header_font None;
          y = y + 30;
          transactions = [];
          (balance, g) = uniform 5000 15000 g;
          current_date = start_date;
          (n, g) = randint 3 5 g;
          (transactions, balance, current_date, g) =
             fold (\<lambda>_. regular_txn) [0..<nat n] (transactions, balance, current_date, g);
          (k, g) = randint 2 3 g;
          (charitable_orgs, g) = sample ORGANIZATIONS k g;
          (transactions, balance, current_date, g) =
             fold charitable_txn charitable_orgs (transactions, balance, current_date, g);
          transactions = sort_key txn_date transactions;
          charitable_entries = []
      in case draw_transactions normal_font height transactions (img, y, charitable_entries) of
           Inl e \<Rightarrow> Inl e
         | Inr (img, y, charitable_entries) \<Rightarrow>
             (let img = draw_line img ((20, height - 50), (width - 20, height - 50))
                          (Named ''gray'') 1;
                  img = draw_text img (30, height - 40) ''Page 1 of 1'' (Named ''gray'')
                          small_font None
              in Inr (img, (acct_num, start_date, end_date, charitable_entries), g)))"

definition generate_bank_statement ::
  "env \<Rightarrow> (string \<times> settings) list \<Rightarrow> bank \<Rightarrow> string \<Rightarrow> int \<Rightarrow> state \<Rightarrow> error + string \<times> state" where
  "generate_bank_statement E qs bank quality index st =
     (case draw_bank_statement E bank (random_state st) of
        Inl e \<Rightarrow> Inl e
      | Inr (img, (acct_num, start_date, end_date, charitable_entries), g) \<Rightarrow>
        (let img = add_watermark E img
         in case apply_quality E qs img quality g of
              Inl e \<Rightarrow> Inl e
            | Inr (img, g) \<Rightarrow>
                (let filename = ''bank_statement_'' @ bank_short bank @ ''_'' @ quality @ ''_'' @
                                  format_0d 3 index @ ''.png'';
                     filepath = os_path_join (OUTPUT_DIR E) [''bank_statements'', filename]
                 in Inr (filename,
                      st\<lparr>random_state := g,
                         files := files st @ [(filepath, PNG img)],
                         manifest_entries := manifest_entries st @
                           [JDict
                              [(''filename'', JStr (''bank_statements/'' @ filename)),
                               (''documentType'', JStr ''bank_statement''),
                               (''quality'', JStr quality),
                               (''synthetic'', JBool True),
                               (''expectedFields'', JDict
                                  [(''bank_name'', JStr (bank_name bank)),
                                   (''account_number'', JStr acct_num),
                                   (''statement_period_start'',
                                      JStr (strftime start_date ''%Y-%m-%d'')),
                                   (''statement_period_end'',
                                      JStr (strftime end_date ''%Y-%m-%d'')),
                                   (''charitable_transactions'',
                                      JList charitable_entries)])]]\<rparr>))))"

section \<open>The driver\<close>

text \<open>
  One of the three loops of \<^verbatim>\<open>main\<close>:
  \<^verbatim>\<open>for i, quality in enumerate(...): entry = CATALOG[i % len(CATALOG)];
  render(entry, quality, count + 1, manifest_entries); count += 1\<close>.
\<close>

fun generate_all ::
  "('c \<Rightarrow> string \<Rightarrow> int \<Rightarrow> state \<Rightarrow> error + string \<times> state) \<Rightarrow> 'c list \<Rightarrow>
   (nat \<times> string) list \<Rightarrow> int \<times> state \<Rightarrow> error + int \<times> state" where
  "generate_all render catalog [] s = Inr s"
| "generate_all render catalog ((i, quality) # rest) (count, st) =
     (if catalog = [] then Inl ZeroDivisionError
      else
        (case render (catalog ! (i mod length catalog)) quality (count + 1) st of
           Inl e \<Rightarrow> Inl e
         | Inr (filename, st) \<Rightarrow> generate_all render catalog rest (count + 1, st)))"

definition receipt_qualities :: "string list" where
  "receipt_qualities =
     replicate 12 ''high'' @ replicate 9 ''medium'' @ replicate 6 ''low'' @ replicate 3 ''edge''"

definition letter_qualities :: "string list" where
  "letter_qualities = replicate 10 ''high'' @ replicate 6 ''medium'' @ replicate 4 ''low''"

definition statement_qualities :: "string list" where
  "statement_qualities = replicate 8 ''high'' @ replicate 5 ''medium'' @ replicate 2 ''low''"

definition main :: "env \<Rightarrow> (string \<times> settings) list \<Rightarrow> state \<Rightarrow> error + state" where
  "main E qs st =
     (let st = st\<lparr>dirs := dirs st @
                  map (\<lambda>subdir. os_path_join (OUTPUT_DIR E) [subdir])
                    [''receipts'', ''acknowledgment_letters'', ''bank_statements'',
                     ''credit_card_statements'', ''cancelled_checks'', ''appraisals'',
                     ''form_8283'', ''other'']\<rparr>;
          st = st\<lparr>manifest_entries := []\<rparr>;
          receipt_count = 0
      in case generate_all (generate_receipt E qs) ORGANIZATIONS
                (enumerate 0 receipt_qualities) (receipt_count, st) of
           Inl e \<Rightarrow> Inl e
         | Inr (receipt_count, st) \<Rightarrow>
        (let letter_count = 0
         in case generate_all (generate_acknowledgment_letter E qs) ORGANIZATIONS
                   (enumerate 0 letter_qualities) (letter_count, st) of
           Inl e \<Rightarrow> Inl e
         | Inr (letter_count, st) \<Rightarrow>
        (let statement_count = 0
         in case generate_all (generate_bank_statement E qs) BANKS
                   (enumerate 0 statement_qualities) (statement_count, st) of
           Inl e \<Rightarrow> Inl e
         | Inr (statement_count, st) \<Rightarrow>
             (let manifest = JDict
                    [(''version'', JStr ''1.0.0''),
                     (''generatedBy'', JStr ''claude-synthetic''),
                     (''generatedAt'', JStr (utcnow_isoformat E @ ''Z'')),
                     (''totalDocuments'', JInt (int (length (manifest_entries st)))),
                     (''documentCounts'', JDict
                        [(''receipts'', JInt receipt_count),
                         (''acknowledgment_letters'', JInt letter_count),
                         (''bank_statements'', JInt statement_count)]),
                     (''documents'', JList (manifest_entries st))]
              in Inr (st\<lparr>files := files st @ [(MANIFEST_PATH E, JSON manifest)]\<rparr>)))))"

text \<open>
  A run of the script: the module is loaded (which samples the rotation of
  the \<^verbatim>\<open>"edge"\<close> preset), then \<^verbatim>\<open>main()\<close> runs. \<open>g\<close> is the state the unseeded
  generator starts the run in.
\<close>

definition program :: "env \<Rightarrow> rng \<Rightarrow> error + state" where
  "program E g =
     (case module_load g of (qs, g') \<Rightarrow>
        main E qs \<lparr>random_state = g', dirs = [], files = [], manifest_entries = []\<rparr>)"

section \<open>Notions the properties are stated with\<close>

text \<open>A pixel whose three channels are valid 8-bit values.\<close>

definition pixel_in_range :: "pixel \<Rightarrow> bool" where
  "pixel_in_range p =
     (case p of (r, g, b) \<Rightarrow> 0 \<le> r \<and> r \<le> 255 \<and> 0 \<le> g \<and> g \<le> 255 \<and> 0 \<le> b \<and> b \<le> 255)"

definition putpixel_in_range :: "op \<Rightarrow> bool" where
  "putpixel_in_range x = (case x of PutPixel i j p \<Rightarrow> pixel_in_range p | _ \<Rightarrow> False)"

text \<open>
  An operation the noise loop may record for magnitude \<open>amount\<close> on a \<open>w\<close> by \<open>h\<close>
  image whose pixels were \<open>pixels\<close>: one pixel inside the image, set to its old
  value shifted by some \<open>n\<close> of \<open>[-amount, amount]\<close> and clamped.
\<close>

definition is_noise_op :: "(int \<Rightarrow> int \<Rightarrow> pixel) \<Rightarrow> int \<Rightarrow> int \<Rightarrow> int \<Rightarrow> op \<Rightarrow> bool" where
  "is_noise_op pixels amount w h x =
     (case x of
        PutPixel i j p \<Rightarrow>
          0 \<le> i \<and> i < w \<and> 0 \<le> j \<and> j < h \<and> pixel_in_range p \<and>
          p \<in> set (map (\<lambda>n. noise_pixel n (pixels i j)) [- amount..amount])
      | _ \<Rightarrow> False)"

text \<open>Reading a JSON object: the value under a key, and the keys in order.\<close>

definition json_get :: "string \<Rightarrow> json \<Rightarrow> json option" where
  "json_get k j = (case j of JDict kvs \<Rightarrow> map_of kvs k | _ \<Rightarrow> None)"

definition json_keys :: "json \<Rightarrow> string list" where
  "json_keys j = (case j of JDict kvs \<Rightarrow> map fst kvs | _ \<Rightarrow> [])"

text \<open>The operations of blur, noise and rotation, as opposed to drawing.\<close>

definition is_degradation_op :: "op \<Rightarrow> bool" where
  "is_degradation_op x =
     (case x of GaussianBlur _ \<Rightarrow> True | PutPixel _ _ _ \<Rightarrow> True | Rotate _ _ _ \<Rightarrow> True | _ \<Rightarrow> False)"

text \<open>What a loop over wrapped lines draws: one text per line, 20 pixels apart.\<close>

primrec text_lines :: "int \<Rightarrow> int \<Rightarrow> color \<Rightarrow> font \<Rightarrow> string list \<Rightarrow> op list" where
  "text_lines x y fill f [] = []"
| "text_lines x y fill f (line # rest) = Text (x, y) line fill f None # text_lines x (y + 20) fill f rest"

text \<open>
  What the transaction loop of the bank statement draws for a list of
  transactions it goes through without stopping early, one row of four texts per
  transaction and 22 pixels apart, and the entry it collects for a charitable one.
\<close>

primrec txn_rows :: "font \<Rightarrow> int \<Rightarrow> txn list \<Rightarrow> op list" where
  "txn_rows f y [] = []"
| "txn_rows f y (t # rest) =
     [Text (30, y) (strftime (txn_date t) ''%m/%d'') (Named ''black'') f None,
      Text (120, y) (take 35 (txn_desc t)) (Named ''black'') f None,
      Text (450, y) (''$'' @ format_money (txn_amount t))
        (Named (if txn_amount t < 0 then ''red'' else ''green'')) f None,
      Text (550, y) (''$'' @ format_money (txn_balance t)) (Named ''black'') f None] @
     txn_rows f (y + 22) rest"

definition charitable_entry :: "txn \<Rightarrow> json" where
  "charitable_entry t =
     (case txn_org t of
        None \<Rightarrow> JNull
      | Some org \<Rightarrow>
          JDict [(''organization'', JStr (name org)),
                 (''amount'', JFloat \<bar>txn_amount t\<bar>),
                 (''date'', JStr (strftime (txn_date t) ''%Y-%m-%d''))])"

text \<open>
  The calls one loop of \<^verbatim>\<open>main\<close> makes, in order: for each scheduled pair of
  position and quality label, the catalog entry, the label and the index passed
  to the renderer.
\<close>

fun loop_calls :: "'c list \<Rightarrow> (nat \<times> string) list \<Rightarrow> int \<Rightarrow> ('c \<times> string \<times> int) list" where
  "loop_calls catalog [] count = []"
| "loop_calls catalog ((i, quality) # rest) count =
     (catalog ! (i mod length catalog), quality, count + 1) #
     loop_calls catalog rest (count + 1)"

text \<open>
  A manifest record \<open>e\<close> and a written file \<open>f\<close> that belong to one generated
  document of type \<open>T\<close>, stored under directory \<open>dir\<close> as \<open>fname\<close>, of quality \<open>q\<close>
  and about the catalog entry named \<open>entity\<close> (under the key \<open>entity_key\<close>): the
  record has the five manifest keys and names the file by its path relative to
  the documents directory, and the file holds an image that \<^verbatim>\<open>apply_quality\<close>
  returned for the label \<open>q\<close> on a watermarked canvas of drawing operations.
\<close>

definition document_recorded ::
  "env \<Rightarrow> int \<Rightarrow> string \<Rightarrow> string \<Rightarrow> string \<Rightarrow> string \<Rightarrow> string \<Rightarrow> string \<Rightarrow> json \<Rightarrow>
   string \<times> content \<Rightarrow> bool" where
  "document_recorded E r T dir fname q entity_key entity e f =
     (json_keys e = [''filename'', ''documentType'', ''quality'', ''synthetic'', ''expectedFields''] \<and>
      json_get ''filename'' e = Some (JStr (dir @ ''/'' @ fname)) \<and>
      json_get ''documentType'' e = Some (JStr T) \<and>
      json_get ''quality'' e = Some (JStr q) \<and>
      json_get ''synthetic'' e = Some (JBool True) \<and>
      (\<exists>x. json_get ''expectedFields'' e = Some x \<and> json_get entity_key x = Some (JStr entity)) \<and>
      fst f = os_path_join (OUTPUT_DIR E) [dir, fname] \<and>
      (\<exists>canvas g img g'.
         snd f = PNG img \<and> list_all (\<lambda>x. \<not> is_degradation_op x) (ops canvas) \<and>
         apply_quality E (QUALITY_SETTINGS r) (add_watermark E canvas) q g = Inr (img, g')))"

definition receipt_recorded :: "env \<Rightarrow> int \<Rightarrow> org \<times> string \<times> int \<Rightarrow> json \<times> (string \<times> content) \<Rightarrow> bool" where
  "receipt_recorded E r call ef =
     (case call of (org, q, idx) \<Rightarrow>
        document_recorded E r ''receipt'' ''receipts''
          (''receipt_'' @ short org @ ''_'' @ q @ ''_'' @ format_0d 3 idx @ ''.png'') q
          ''organization_name'' (name org) (fst ef) (snd ef))"

definition letter_recorded :: "env \<Rightarrow> int \<Rightarrow> org \<times> string \<times> int \<Rightarrow> json \<times> (string \<times> content) \<Rightarrow> bool" where
  "letter_recorded E r call ef =
     (case call of (org, q, idx) \<Rightarrow>
        document_recorded E r ''acknowledgment_letter'' ''acknowledgment_letters''
          (''acknowledgment_'' @ short org @ ''_'' @ q @ ''_'' @ format_0d 3 idx @ ''.png'') q
          ''organization_name'' (name org) (fst ef) (snd ef))"

definition statement_recorded ::
  "env \<Rightarrow> int \<Rightarrow> bank \<times> string \<times> int \<Rightarrow> json \<times> (string \<times> content) \<Rightarrow> bool" where
  "statement_recorded E r call ef =
     (case call of (bank, q, idx) \<Rightarrow>
        document_recorded E r ''bank_statement'' ''bank_statements''
          (''bank_statement_'' @ bank_short bank @ ''_'' @ q @ ''_'' @ format_0d 3 idx @ ''.png'') q
          ''bank_name'' (bank_name bank) (fst ef) (snd ef))"

text \<open>
  A manifest record \<open>e\<close> and a written file \<open>f\<close> that belong together, whatever the
  type of the document: the record has the five manifest keys, its
  \<^verbatim>\<open>filename\<close> is the path of the file relative to the documents directory, and
  its \<^verbatim>\<open>quality\<close> is the label \<^verbatim>\<open>apply_quality\<close> was called with to produce
  the image in the file.
\<close>

definition manifest_record :: "env \<Rightarrow> int \<Rightarrow> json \<Rightarrow> string \<times> content \<Rightarrow> bool" where
  "manifest_record E r e f =
     (\<exists>rel q canvas g img g'.
        json_keys e = [''filename'', ''documentType'', ''quality'', ''synthetic'', ''expectedFields''] \<and>
        json_get ''filename'' e = Some (JStr rel) \<and>
        json_get ''quality'' e = Some (JStr q) \<and>
        f = (os_path_join (OUTPUT_DIR E) [rel], PNG img) \<and>
        apply_quality E (QUALITY_SETTINGS r) (add_watermark E canvas) q g = Inr (img, g'))"

text \<open>The angles of the rotations applied to an image, in order.\<close>

primrec rotation_angles :: "op list \<Rightarrow> int list" where
  "rotation_angles [] = []"
| "rotation_angles (x # xs) =
     (case x of Rotate angle _ _ \<Rightarrow> [angle] | _ \<Rightarrow> []) @ rotation_angles xs"

text \<open>The manifest records of quality \<^verbatim>\<open>"edge"\<close>, each with its file.\<close>

definition edge_documents :: "json list \<Rightarrow> (string \<times> content) list \<Rightarrow> (json \<times> string \<times> content) list" where
  "edge_documents es fs = filter (\<lambda>ef. json_get ''quality'' (fst ef) = Some (JStr ''edge'')) (zip es fs)"

text \<open>
  The noise of the presets, stated on its own. \<open>pixel_order w h\<close> lists the pixels
  of a \<open>w\<close> by \<open>h\<close> image column by column, which is the order of
  \<^verbatim>\<open>for i in range(img.width): for j in range(img.height)\<close>. \<open>noise_ops\<close> goes
  through such a list with the generator: for each pixel it draws
  \<^verbatim>\<open>random.random()\<close>; below 0.1 it draws \<open>n\<close> with
  \<^verbatim>\<open>random.randint(-amount, amount)\<close> and writes the pixel's value shifted by \<open>n\<close>
  and clamped, otherwise it leaves the pixel alone. It returns the writes, in
  order, and the generator left.
\<close>

definition pixel_order :: "int \<Rightarrow> int \<Rightarrow> (int \<times> int) list" where
  "pixel_order w h = concat (map (\<lambda>i. map (\<lambda>j. (i, j)) [0..h - 1]) [0..w - 1])"

fun noise_ops :: "(int \<Rightarrow> int \<Rightarrow> pixel) \<Rightarrow> int \<Rightarrow> (int \<times> int) list \<Rightarrow> rng \<Rightarrow> op list \<times> rng" where
  "noise_ops pixels amount [] g = ([], g)"
| "noise_ops pixels amount ((i, j) # rest) g =
     (case random g of (u, g1) \<Rightarrow>
        if u < 1 / 10 then
          (case randint (- amount) amount g1 of (n, g2) \<Rightarrow>
             (case noise_ops pixels amount rest g2 of (N, g') \<Rightarrow>
                (PutPixel i j (noise_pixel n (pixels i j)) # N, g')))
        else noise_ops pixels amount rest g1)"

text \<open>
  The transactions of a bank statement: the block of \<^verbatim>\<open>generate_bank_statement\<close>
  that fills \<^verbatim>\<open>transactions\<close> (an opening balance, three to five regular
  transactions, two or three charitable ones for sampled organizations, sorted by
  date), as a function of the start date and of the generator.
\<close>

definition statement_transactions :: "datetime \<Rightarrow> rng \<Rightarrow> txn list \<times> rng" where
  "statement_transactions start_date g =
     (let transactions = [];
          (balance, g) = uniform 5000 15000 g;
          current_date = start_date;
          (n, g) = randint 3 5 g;
          (transactions, balance, current_date, g) =
             fold (\<lambda>_. regular_txn) [0..<nat n] (transactions, balance, current_date, g);
          (k, g) = randint 2 3 g;
          (charitable_orgs, g) = sample ORGANIZATIONS k g;
          (transactions, balance, current_date, g) =
             fold charitable_txn charitable_orgs (transactions, balance, current_date, g)
      in (sort_key txn_date transactions, g))"

text \<open>
  The part of a manifest record that does not come from the generator: its keys
  and the values of \<^verbatim>\<open>filename\<close>, \<^verbatim>\<open>documentType\<close>, \<^verbatim>\<open>quality\<close> and
  \<^verbatim>\<open>synthetic\<close>.
\<close>

definition record_header ::
  "json \<Rightarrow> string list \<times> json option \<times> json option \<times> json option \<times> json option" where
  "record_header e =
     (json_keys e, json_get ''filename'' e, json_get ''documentType'' e, json_get ''quality'' e,
      json_get ''synthetic'' e)"

section \<open>Degradation: what \<^verbatim>\<open>apply_quality\<close> does\<close>

lemma randint_range:
  assumes "a \<le> b"
  shows "a \<le> fst (randint a b g) \<and> fst (randint a b g) \<le> b"
proof -
  have "0 < b - a + 1" using assms by simp
  then have "0 \<le> g 0 mod (b - a + 1) \<and> g 0 mod (b - a + 1) < b - a + 1"
    using pos_mod_sign pos_mod_bound by blast
  then show ?thesis by (simp add: randint_def randbelow_def)
qed

lemma noise_pixel_in_range: "pixel_in_range (noise_pixel n p)"
  by (cases p) (simp add: noise_pixel_def pixel_in_range_def)

lemma noise_step_cases:
  "\<exists>N g'. noise_step px a i j (img, g) = (img\<lparr>ops := ops img @ N\<rparr>, g') \<and>
     (N = [] \<or> (\<exists>g1. N = [PutPixel i j (noise_pixel (fst (randint (- a) a g1)) (px i j))]))"
proof -
  obtain u g1 where r: "random g = (u, g1)" by fastforce
  show ?thesis
  proof (cases "u < 1 / 10")
    case False
    then have "noise_step px a i j (img, g) = (img\<lparr>ops := ops img @ []\<rparr>, g1)"
      using r by (simp add: noise_step_def)
    then show ?thesis by blast
  next
    case True
    obtain n g2 where ri: "randint (- a) a g1 = (n, g2)" by fastforce
    have "noise_step px a i j (img, g) =
            (img\<lparr>ops := ops img @ [PutPixel i j (noise_pixel (fst (randint (- a) a g1)) (px i j))]\<rparr>, g2)"
      using True r ri by (simp add: noise_step_def putpixel_def)
    then show ?thesis by blast
  qed
qed

lemma noise_step_in_range:
  "\<exists>N g'. noise_step px a i j (img, g) = (img\<lparr>ops := ops img @ N\<rparr>, g') \<and>
     list_all putpixel_in_range N"
proof -
  obtain N g' where "noise_step px a i j (img, g) = (img\<lparr>ops := ops img @ N\<rparr>, g')"
    and "N = [] \<or> (\<exists>g1. N = [PutPixel i j (noise_pixel (fst (randint (- a) a g1)) (px i j))])"
    using noise_step_cases by blast
  moreover from this have "list_all putpixel_in_range N"
    by (auto simp: putpixel_in_range_def noise_pixel_in_range)
  ultimately show ?thesis by blast
qed

lemma noise_step_ops:
  assumes "0 \<le> a" "0 \<le> i \<and> i < w" "0 \<le> j \<and> j < h"
  shows "\<exists>N g'. noise_step px a i j (img, g) = (img\<lparr>ops := ops img @ N\<rparr>, g') \<and>
           list_all (is_noise_op px a w h) N"
proof -
  obtain N g' where st: "noise_step px a i j (img, g) = (img\<lparr>ops := ops img @ N\<rparr>, g')"
    and c: "N = [] \<or> (\<exists>g1. N = [PutPixel i j (noise_pixel (fst (randint (- a) a g1)) (px i j))])"
    using noise_step_cases by blast
  have "list_all (is_noise_op px a w h) N"
  proof (cases "N = []")
    case True
    then show ?thesis by simp
  next
    case False
    then obtain g1 where N: "N = [PutPixel i j (noise_pixel (fst (randint (- a) a g1)) (px i j))]"
      using c by blast
    have "- a \<le> fst (randint (- a) a g1) \<and> fst (randint (- a) a g1) \<le> a"
      using randint_range [of "- a" a g1] assms(1) by simp
    then have "fst (randint (- a) a g1) \<in> set [- a..a]" by simp
    then show ?thesis
      using assms N by (simp add: is_noise_op_def noise_pixel_in_range)
  qed
  then show ?thesis using st by blast
qed

lemma fold_noise_inner:
  assumes step: "\<And>j img g. j \<in> set js \<Longrightarrow>
      \<exists>N g'. noise_step px a i j (img, g) = (img\<lparr>ops := ops img @ N\<rparr>, g') \<and> list_all P N"
  shows "\<exists>N g'. fold (\<lambda>j. noise_step px a i j) js (img, g) = (img\<lparr>ops := ops img @ N\<rparr>, g') \<and>
           list_all P N"
  using step
proof (induction js arbitrary: img g)
  case Nil
  have "fold (\<lambda>j. noise_step px a i j) [] (img, g) = (img\<lparr>ops := ops img @ []\<rparr>, g)" by simp
  then show ?case by (intro exI [of _ "[]"] exI [of _ g]) simp
next
  case (Cons j js)
  obtain N1 g1 where s1: "noise_step px a i j (img, g) = (img\<lparr>ops := ops img @ N1\<rparr>, g1)"
      and n1: "list_all P N1"
    using Cons.prems [of j img g] by auto
  obtain N2 g2 where s2: "fold (\<lambda>j. noise_step px a i j) js (img\<lparr>ops := ops img @ N1\<rparr>, g1) =
        (img\<lparr>ops := ops img @ N1\<rparr>\<lparr>ops := ops (img\<lparr>ops := ops img @ N1\<rparr>) @ N2\<rparr>, g2)"
      and n2: "list_all P N2"
    using Cons.IH [of "img\<lparr>ops := ops img @ N1\<rparr>" g1] Cons.prems by auto
  have "fold (\<lambda>j. noise_step px a i j) (j # js) (img, g) = (img\<lparr>ops := ops img @ (N1 @ N2)\<rparr>, g2)"
    using s1 s2 by simp
  moreover have "list_all P (N1 @ N2)" using n1 n2 by simp
  ultimately show ?case by blast
qed

lemma fold_noise_outer:
  assumes step: "\<And>i j img g. i \<in> set is \<Longrightarrow> j \<in> set js \<Longrightarrow>
      \<exists>N g'. noise_step px a i j (img, g) = (img\<lparr>ops := ops img @ N\<rparr>, g') \<and> list_all P N"
  shows "\<exists>N g'. fold (\<lambda>i. fold (\<lambda>j. noise_step px a i j) js) is (img, g) =
             (img\<lparr>ops := ops img @ N\<rparr>, g') \<and> list_all P N"
  using step
proof (induction "is" arbitrary: img g)
  case Nil
  have "fold (\<lambda>i. fold (\<lambda>j. noise_step px a i j) js) [] (img, g) = (img\<lparr>ops := ops img @ []\<rparr>, g)"
    by simp
  then show ?case by (intro exI [of _ "[]"] exI [of _ g]) simp
next
  case (Cons i "is")
  obtain N1 g1 where s1: "fold (\<lambda>j. noise_step px a i j) js (img, g) = (img\<lparr>ops := ops img @ N1\<rparr>, g1)"
      and n1: "list_all P N1"
    using fold_noise_inner [of js px a i P img g] Cons.prems by auto
  obtain N2 g2 where s2: "fold (\<lambda>i. fold (\<lambda>j. noise_step px a i j) js) is (img\<lparr>ops := ops img @ N1\<rparr>, g1) =
        (img\<lparr>ops := ops img @ N1\<rparr>\<lparr>ops := ops (img\<lparr>ops := ops img @ N1\<rparr>) @ N2\<rparr>, g2)"
      and n2: "list_all P N2"
    using Cons.IH [of "img\<lparr>ops := ops img @ N1\<rparr>" g1] Cons.prems by auto
  have "fold (\<lambda>i. fold (\<lambda>j. noise_step px a i j) js) (i # is) (img, g) =
          (img\<lparr>ops := ops img @ (N1 @ N2)\<rparr>, g2)"
    using s1 s2 by simp
  moreover have "list_all P (N1 @ N2)" using n1 n2 by simp
  ultimately show ?case by blast
qed

lemma apply_noise_ops:
  assumes "0 \<le> a"
  shows "\<exists>N g'. apply_noise E a img g = (img\<lparr>ops := ops img @ N\<rparr>, g') \<and>
           list_all (is_noise_op (img_load E img) a (width img) (height img)) N"
  unfolding apply_noise_def Let_def
  by (rule fold_noise_outer) (rule noise_step_ops [OF assms], auto)

lemma apply_noise_in_range:
  "\<exists>N g'. apply_noise E a img g = (img\<lparr>ops := ops img @ N\<rparr>, g') \<and> list_all putpixel_in_range N"
  unfolding apply_noise_def Let_def
  by (rule fold_noise_outer) (rule noise_step_in_range)

lemma choice_sign: "fst (choice (- 1 :: int) [1] g) = 1 \<or> fst (choice (- 1 :: int) [1] g) = - 1"
proof -
  have "0 \<le> g 0 mod 2 \<and> g 0 mod 2 < 2" by simp
  then have "g 0 mod 2 = 0 \<or> g 0 mod 2 = 1" by arith
  then show ?thesis by (auto simp: choice_def randbelow_def)
qed

lemma apply_quality_settings:
  assumes hi: "map_of qs ''high'' = Some high"
    and s: "s = (case map_of qs quality of Some s \<Rightarrow> s | None \<Rightarrow> high)"
    and n: "0 \<le> noise s"
  shows "\<exists>N sign g'.
           apply_quality E qs img quality g =
             Inr (if 0 < rotation s then
                    img_rotate E
                      (img\<lparr>ops := ops img @ (if 0 < blur s then [GaussianBlur (blur s)] else []) @ N\<rparr>)
                      (sign * rotation s) (RGB 255 255 255) True
                  else img\<lparr>ops := ops img @ (if 0 < blur s then [GaussianBlur (blur s)] else []) @ N\<rparr>,
                  g') \<and>
           (sign = 1 \<or> sign = - 1) \<and>
           (if 0 < noise s then
              list_all (is_noise_op
                 (img_load E (img\<lparr>ops := ops img @ (if 0 < blur s then [GaussianBlur (blur s)] else [])\<rparr>))
                 (noise s) (width img) (height img)) N
            else N = [] \<and> (rotation s \<le> 0 \<longrightarrow> g' = g))"
proof -
  define B where "B = (if 0 < blur s then [GaussianBlur (blur s)] else [])"
  define img1 where "img1 = img\<lparr>ops := ops img @ B\<rparr>"
  have i1: "(if 0 < blur s then img_filter_GaussianBlur img (blur s) else img) = img1"
    by (simp add: img1_def B_def img_filter_GaussianBlur_def)
  obtain N g2 where
    n2: "(if 0 < noise s then apply_noise E (noise s) img1 g else (img1, g)) =
           (img\<lparr>ops := ops img @ B @ N\<rparr>, g2)"
    and nn: "if 0 < noise s then
               list_all (is_noise_op (img_load E img1) (noise s) (width img) (height img)) N
             else N = [] \<and> g2 = g"
  proof (cases "0 < noise s")
    case True
    obtain N g2 where "apply_noise E (noise s) img1 g = (img1\<lparr>ops := ops img1 @ N\<rparr>, g2)"
      and "list_all (is_noise_op (img_load E img1) (noise s) (width img1) (height img1)) N"
      using apply_noise_ops [OF n, of E img1 g] by auto
    then show ?thesis using True that [of N g2] by (simp add: img1_def)
  next
    case False
    then show ?thesis using that [of "[]" g] by (simp add: img1_def)
  qed
  obtain sign g3 where c: "choice (- 1 :: int) [1] g2 = (sign, g3)" by fastforce
  have sg: "sign = 1 \<or> sign = - 1" using choice_sign [of g2] c by simp
  let ?img2 = "img\<lparr>ops := ops img @ B @ N\<rparr>"
  have "apply_quality E qs img quality g =
          Inr (if 0 < rotation s then
                 img_rotate E ?img2 (sign * rotation s) (RGB 255 255 255) True
               else ?img2,
               if 0 < rotation s then g3 else g2)"
  proof (cases "0 < rotation s")
    case True
    then show ?thesis
      unfolding apply_quality_def using hi s [symmetric] i1 n2 c
      by (simp add: Let_def split del: if_split cong: if_cong)
  next
    case False
    then show ?thesis
      unfolding apply_quality_def using hi s [symmetric] i1 n2
      by (simp add: Let_def split del: if_split cong: if_cong)
  qed
  then show ?thesis
    using sg nn unfolding B_def img1_def
    by (intro exI [of _ N] exI [of _ sign] exI [of _ "if 0 < rotation s then g3 else g2"]) auto
qed

lemma QUALITY_SETTINGS_lookup:
  "map_of (QUALITY_SETTINGS r) ''high'' = Some \<lparr>blur = 0, noise = 0, rotation = 0\<rparr>"
  "map_of (QUALITY_SETTINGS r) ''medium'' = Some \<lparr>blur = 1 / 2, noise = 10, rotation = 0\<rparr>"
  "map_of (QUALITY_SETTINGS r) ''low'' = Some \<lparr>blur = 3 / 2, noise = 25, rotation = 0\<rparr>"
  "map_of (QUALITY_SETTINGS r) ''edge'' = Some \<lparr>blur = 4 / 5, noise = 15, rotation = r\<rparr>"
  by (simp_all add: QUALITY_SETTINGS_def)

lemma QUALITY_SETTINGS_other:
  "quality \<notin> {''high'', ''medium'', ''low'', ''edge''} \<Longrightarrow> map_of (QUALITY_SETTINGS r) quality = None"
  by (simp add: QUALITY_SETTINGS_def)

lemma module_load_eq:
  "\<exists>r. module_load g = (QUALITY_SETTINGS r, (\<lambda>i. g (Suc i))) \<and> 5 \<le> r \<and> r \<le> 15 \<and> r = 5 + g 0 mod 11"
proof -
  have "0 \<le> g 0 mod 11 \<and> g 0 mod 11 < 11" by simp
  then show ?thesis by (simp add: module_load_def randint_def randbelow_def)
qed

text \<open>
  Claim C9. Called with a quality label that is none of the four presets,
  \<^verbatim>\<open>apply_quality\<close> does not fail: the lookup falls back to the \<^verbatim>\<open>"high"\<close> preset
  and the image comes back as it was, with no blur, noise or rotation recorded and
  no random draw consumed.
\<close>

theorem apply_quality_unknown_label:
  assumes "quality \<notin> {''high'', ''medium'', ''low'', ''edge''}"
  shows "apply_quality E (fst (module_load g0)) img quality g = Inr (img, g)"
proof -
  obtain r where r: "module_load g0 = (QUALITY_SETTINGS r, (\<lambda>i. g0 (Suc i)))"
    using module_load_eq [of g0] by blast
  have "map_of (QUALITY_SETTINGS r) quality = None"
    using assms by (rule QUALITY_SETTINGS_other)
  then show ?thesis
    by (simp add: r apply_quality_def QUALITY_SETTINGS_lookup Let_def)
qed

text \<open>
  Claim C8. The noise step never produces an out-of-range pixel: whatever the old
  pixel and the noise value, the three channels written lie in \<open>[0, 255]\<close>, and
  every operation the noise loop records, for every magnitude, image and state of
  the generator, writes such a pixel.
\<close>

theorem noise_stays_in_range:
  "pixel_in_range (noise_pixel n p) \<and>
   (\<exists>N g'. apply_noise E amount img g = (img\<lparr>ops := ops img @ N\<rparr>, g') \<and>
            list_all putpixel_in_range N)"
  using noise_pixel_in_range apply_noise_in_range by blast

lemma fold_noise_ops:
  "fold (\<lambda>(i, j). noise_step px a i j) ps (img, g) =
     (case noise_ops px a ps g of (N, g') \<Rightarrow> (img\<lparr>ops := ops img @ N\<rparr>, g'))"
proof (induction ps arbitrary: img g)
  case Nil
  then show ?case by simp
next
  case (Cons p ps)
  obtain i j where p: "p = (i, j)" by (cases p)
  obtain u g1 where r: "random g = (u, g1)" by fastforce
  show ?case
  proof (cases "u < 1 / 10")
    case False
    then have "noise_step px a i j (img, g) = (img, g1)"
      using r by (simp add: noise_step_def)
    then show ?thesis
      using False r Cons.IH [of img g1] by (simp add: p)
  next
    case True
    obtain n g2 where ri: "randint (- a) a g1 = (n, g2)" by fastforce
    obtain N g' where no: "noise_ops px a ps g2 = (N, g')" by fastforce
    have "noise_step px a i j (img, g) =
            (img\<lparr>ops := ops img @ [PutPixel i j (noise_pixel n (px i j))]\<rparr>, g2)"
      using True r ri by (simp add: noise_step_def putpixel_def)
    then show ?thesis
      using True r ri no Cons.IH [of "img\<lparr>ops := ops img @ [PutPixel i j (noise_pixel n (px i j))]\<rparr>" g2]
      by (simp add: p)
  qed
qed

lemma nested_loops_pixel_order:
  "fold (\<lambda>i. fold (\<lambda>j. f i j) js) is s =
     fold (\<lambda>(i, j). f i j) (concat (map (\<lambda>i. map (\<lambda>j. (i, j)) js) is)) s"
  by (induction "is" arbitrary: s) (simp_all add: fold_map o_def)

lemma apply_noise_eq:
  "apply_noise E a img g =
     (case noise_ops (img_load E img) a (pixel_order (width img) (height img)) g of
        (N, g') \<Rightarrow> (img\<lparr>ops := ops img @ N\<rparr>, g'))"
  unfolding apply_noise_def Let_def pixel_order_def nested_loops_pixel_order
  by (rule fold_noise_ops)

lemma noise_ops_bounded:
  assumes "0 \<le> a" and "noise_ops (img_load (E :: env) img) a (pixel_order (width img) (height img)) g = (N, g')"
  shows "list_all (is_noise_op (img_load E img) a (width img) (height img)) N"
proof -
  obtain N' g'' where an: "apply_noise E a img g = (img\<lparr>ops := ops img @ N'\<rparr>, g'')"
    and b: "list_all (is_noise_op (img_load E img) a (width img) (height img)) N'"
    using apply_noise_ops [OF assms(1), of E img g] by blast
  have "(img\<lparr>ops := ops img @ N\<rparr>, g') = (img\<lparr>ops := ops img @ N'\<rparr>, g'')"
    using an assms(2) by (simp add: apply_noise_eq)
  then have "ops (img\<lparr>ops := ops img @ N\<rparr>) = ops (img\<lparr>ops := ops img @ N'\<rparr>)" by simp
  then have "N = N'" by simp
  then show ?thesis using b by simp
qed

lemma apply_quality_noise:
  assumes s: "map_of (QUALITY_SETTINGS r) quality = Some \<lparr>blur = b, noise = a, rotation = 0\<rparr>"
    and b: "0 < b" and a: "0 < a"
    and n: "noise_ops (img_load E (img\<lparr>ops := ops img @ [GaussianBlur b]\<rparr>)) a
              (pixel_order (width img) (height img)) g = (N, g')"
  shows "apply_quality E (QUALITY_SETTINGS r) img quality g =
           Inr (img\<lparr>ops := ops img @ [GaussianBlur b] @ N\<rparr>, g')"
  using b a n
  by (simp add: apply_quality_def QUALITY_SETTINGS_lookup(1) s Let_def apply_noise_eq
      img_filter_GaussianBlur_def)

lemma apply_quality_edge_noise:
  assumes r: "0 < r"
    and n: "noise_ops (img_load E (img\<lparr>ops := ops img @ [GaussianBlur (4 / 5)]\<rparr>)) 15
              (pixel_order (width img) (height img)) g = (N, g1)"
    and c: "choice (- 1 :: int) [1] g1 = (sign, g')"
  shows "apply_quality E (QUALITY_SETTINGS r) img ''edge'' g =
           Inr (img_rotate E (img\<lparr>ops := ops img @ [GaussianBlur (4 / 5)] @ N\<rparr>)
                  (sign * r) (RGB 255 255 255) True, g')"
  using r n c
  by (simp add: apply_quality_def QUALITY_SETTINGS_lookup Let_def apply_noise_eq
      img_filter_GaussianBlur_def)

text \<open>
  Claim C4. The settings the module holds once loaded are the four presets high
  (0, 0, 0), medium (0.5, 10, 0), low (1.5, 25, 0) and edge (0.8, 15, \<open>r\<close>) with
  \<open>5 \<le> r \<le> 15\<close>, and \<^verbatim>\<open>apply_quality\<close> applies exactly the preset named: nothing
  for high; for medium and low the blur of the preset and then the noise of the
  preset's magnitude, which is the list of pixel writes \<open>noise_ops\<close> gives for that
  magnitude, the pixels of the blurred image in column order and the generator,
  every write within the magnitude; for edge blur 0.8, that noise for magnitude 15
  and a final rotation by \<open>sign * r\<close> degrees, \<open>sign\<close> drawn from \<open>[-1, 1]\<close> once
  the noise is done. The generator returned is the one these draws leave.
\<close>

theorem quality_presets:
  "\<exists>r. fst (module_load g0) =
          [(''high'', \<lparr>blur = 0, noise = 0, rotation = 0\<rparr>),
           (''medium'', \<lparr>blur = 1 / 2, noise = 10, rotation = 0\<rparr>),
           (''low'', \<lparr>blur = 3 / 2, noise = 25, rotation = 0\<rparr>),
           (''edge'', \<lparr>blur = 4 / 5, noise = 15, rotation = r\<rparr>)] \<and>
        5 \<le> r \<and> r \<le> 15 \<and>
        apply_quality E (fst (module_load g0)) img ''high'' g = Inr (img, g) \<and>
        (\<exists>N g'. noise_ops (img_load E (img\<lparr>ops := ops img @ [GaussianBlur (1 / 2)]\<rparr>)) 10
                   (pixel_order (width img) (height img)) g = (N, g') \<and>
                 apply_quality E (fst (module_load g0)) img ''medium'' g =
                   Inr (img\<lparr>ops := ops img @ [GaussianBlur (1 / 2)] @ N\<rparr>, g') \<and>
                 list_all (is_noise_op (img_load E (img\<lparr>ops := ops img @ [GaussianBlur (1 / 2)]\<rparr>))
                             10 (width img) (height img)) N) \<and>
        (\<exists>N g'. noise_ops (img_load E (img\<lparr>ops := ops img @ [GaussianBlur (3 / 2)]\<rparr>)) 25
                   (pixel_order (width img) (height img)) g = (N, g') \<and>
                 apply_quality E (fst (module_load g0)) img ''low'' g =
                   Inr (img\<lparr>ops := ops img @ [GaussianBlur (3 / 2)] @ N\<rparr>, g') \<and>
                 list_all (is_noise_op (img_load E (img\<lparr>ops := ops img @ [GaussianBlur (3 / 2)]\<rparr>))
                             25 (width img) (height img)) N) \<and>
        (\<exists>N g1 sign g'.
                 noise_ops (img_load E (img\<lparr>ops := ops img @ [GaussianBlur (4 / 5)]\<rparr>)) 15
                   (pixel_order (width img) (height img)) g = (N, g1) \<and>
                 choice (- 1) [1] g1 = (sign, g') \<and>
                 apply_quality E (fst (module_load g0)) img ''edge'' g =
                   Inr (img_rotate E (img\<lparr>ops := ops img @ [GaussianBlur (4 / 5)] @ N\<rparr>)
                          (sign * r) (RGB 255 255 255) True, g') \<and>
                 (sign = 1 \<or> sign = - 1) \<and>
                 list_all (is_noise_op (img_load E (img\<lparr>ops := ops img @ [GaussianBlur (4 / 5)]\<rparr>))
                             15 (width img) (height img)) N)"
proof -
  obtain r where r: "module_load g0 = (QUALITY_SETTINGS r, (\<lambda>i. g0 (Suc i)))"
    and r5: "5 \<le> r" and r15: "r \<le> 15"
    using module_load_eq [of g0] by blast
  let ?qs = "QUALITY_SETTINGS r"
  note hi = QUALITY_SETTINGS_lookup(1) [of r]
  have high: "apply_quality E ?qs img ''high'' g = Inr (img, g)"
    using apply_quality_settings [OF hi, of "\<lparr>blur = 0, noise = 0, rotation = 0\<rparr>" "''high''" E img g]
    by (auto simp: hi)
  let ?blurred = "\<lambda>b. img\<lparr>ops := ops img @ [GaussianBlur b]\<rparr>"
  have size: "width (?blurred b) = width img" "height (?blurred b) = height img" for b
    by simp_all
  have medium: "\<exists>N g'. noise_ops (img_load E (?blurred (1 / 2))) 10
                   (pixel_order (width img) (height img)) g = (N, g') \<and>
                 apply_quality E ?qs img ''medium'' g =
                   Inr (img\<lparr>ops := ops img @ [GaussianBlur (1 / 2)] @ N\<rparr>, g') \<and>
                 list_all (is_noise_op (img_load E (?blurred (1 / 2))) 10 (width img) (height img)) N"
  proof -
    obtain N g' where n: "noise_ops (img_load E (?blurred (1 / 2))) 10
                   (pixel_order (width img) (height img)) g = (N, g')" by fastforce
    have "apply_quality E ?qs img ''medium'' g =
            Inr (img\<lparr>ops := ops img @ [GaussianBlur (1 / 2)] @ N\<rparr>, g')"
      by (rule apply_quality_noise [OF QUALITY_SETTINGS_lookup(2) _ _ n]) simp_all
    moreover have "list_all (is_noise_op (img_load E (?blurred (1 / 2))) 10 (width img) (height img)) N"
      using noise_ops_bounded [of 10 E "?blurred (1 / 2)" g N g'] n by simp
    ultimately show ?thesis using n by blast
  qed
  have low: "\<exists>N g'. noise_ops (img_load E (?blurred (3 / 2))) 25
                   (pixel_order (width img) (height img)) g = (N, g') \<and>
                 apply_quality E ?qs img ''low'' g =
                   Inr (img\<lparr>ops := ops img @ [GaussianBlur (3 / 2)] @ N\<rparr>, g') \<and>
                 list_all (is_noise_op (img_load E (?blurred (3 / 2))) 25 (width img) (height img)) N"
  proof -
    obtain N g' where n: "noise_ops (img_load E (?blurred (3 / 2))) 25
                   (pixel_order (width img) (height img)) g = (N, g')" by fastforce
    have "apply_quality E ?qs img ''low'' g =
            Inr (img\<lparr>ops := ops img @ [GaussianBlur (3 / 2)] @ N\<rparr>, g')"
      by (rule apply_quality_noise [OF QUALITY_SETTINGS_lookup(3) _ _ n]) simp_all
    moreover have "list_all (is_noise_op (img_load E (?blurred (3 / 2))) 25 (width img) (height img)) N"
      using noise_ops_bounded [of 25 E "?blurred (3 / 2)" g N g'] n by simp
    ultimately show ?thesis using n by blast
  qed
  have edge: "\<exists>N g1 sign g'.
                 noise_ops (img_load E (?blurred (4 / 5))) 15
                   (pixel_order (width img) (height img)) g = (N, g1) \<and>
                 choice (- 1) [1] g1 = (sign, g') \<and>
                 apply_quality E ?qs img ''edge'' g =
                   Inr (img_rotate E (img\<lparr>ops := ops img @ [GaussianBlur (4 / 5)] @ N\<rparr>)
                          (sign * r) (RGB 255 255 255) True, g') \<and>
                 (sign = 1 \<or> sign = - 1) \<and>
                 list_all (is_noise_op (img_load E (?blurred (4 / 5))) 15 (width img) (height img)) N"
  proof -
    obtain N g1 where n: "noise_ops (img_load E (?blurred (4 / 5))) 15
                   (pixel_order (width img) (height img)) g = (N, g1)" by fastforce
    obtain sign g' where c: "choice (- 1 :: int) [1] g1 = (sign, g')" by fastforce
    have pos: "0 < r" using r5 by simp
    have "apply_quality E ?qs img ''edge'' g =
                   Inr (img_rotate E (img\<lparr>ops := ops img @ [GaussianBlur (4 / 5)] @ N\<rparr>)
                          (sign * r) (RGB 255 255 255) True, g')"
      by (rule apply_quality_edge_noise [OF pos n c])
    moreover have "list_all (is_noise_op (img_load E (?blurred (4 / 5))) 15 (width img) (height img)) N"
      using noise_ops_bounded [of 15 E "?blurred (4 / 5)" g N g1] n by simp
    moreover have "sign = 1 \<or> sign = - 1" using choice_sign [of g1] c by simp
    ultimately show ?thesis using n c by blast
  qed
  have qs: "?qs = [(''high'', \<lparr>blur = 0, noise = 0, rotation = 0\<rparr>),
           (''medium'', \<lparr>blur = 1 / 2, noise = 10, rotation = 0\<rparr>),
           (''low'', \<lparr>blur = 3 / 2, noise = 25, rotation = 0\<rparr>),
           (''edge'', \<lparr>blur = 4 / 5, noise = 15, rotation = r\<rparr>)]"
    by (simp add: QUALITY_SETTINGS_def)
  show ?thesis
    apply (rule exI [of _ r])
    apply (simp only: r fst_conv)
    using qs r5 r15 high medium low edge by blast
qed

text \<open>The label \<^verbatim>\<open>"ultra"\<close> on a fresh receipt-sized canvas.\<close>

theorem apply_quality_unknown_label_witness:
  "''ultra'' \<notin> {''high'', ''medium'', ''low'', ''edge''} \<and>
   apply_quality
     \<lparr>img_load = (\<lambda>_ _ _. (255, 255, 255)), rotated_size = (\<lambda>_ s. s), dejavu_installed = True,
      base_dir = ''/repo'', utcnow_isoformat = ''2026-01-29T12:00:00''\<rparr>
     (fst (module_load (\<lambda>i. 0))) (Image_new ''RGB'' (600, 800) (Named ''white'')) ''ultra''
     (\<lambda>i. 7) =
   Inr (Image_new ''RGB'' (600, 800) (Named ''white''), (\<lambda>i. 7))"
  using apply_quality_unknown_label [of "''ultra''"] by simp

text \<open>
  The preset \<^verbatim>\<open>"medium"\<close> on a white canvas of two pixels, with a generator
  whose every draw is 0: each pixel passes the test and is shifted by \<open>-10\<close>.
\<close>

theorem quality_presets_witness:
  "apply_quality
     \<lparr>img_load = (\<lambda>_ _ _. (255, 255, 255)), rotated_size = (\<lambda>_ s. s), dejavu_installed = True,
      base_dir = ''/repo'', utcnow_isoformat = ''2026-01-29T12:00:00''\<rparr>
     (fst (module_load (\<lambda>i. 0))) (Image_new ''RGB'' (2, 1) (Named ''white'')) ''medium''
     (\<lambda>i. 0) =
   Inr (\<lparr>mode = ''RGB'', width = 2, height = 1, background = Named ''white'',
         ops = [GaussianBlur (1 / 2), PutPixel 0 0 (245, 245, 245),
                PutPixel 1 0 (245, 245, 245)]\<rparr>, (\<lambda>i. 0))"
  using quality_presets [of "\<lambda>i. 0"
      "\<lparr>img_load = (\<lambda>_ _ _. (255, 255, 255)), rotated_size = (\<lambda>_ s. s), dejavu_installed = True,
        base_dir = ''/repo'', utcnow_isoformat = ''2026-01-29T12:00:00''\<rparr>"
      "Image_new ''RGB'' (2, 1) (Named ''white'')" "\<lambda>i. 0"]
  by (auto simp: Image_new_def pixel_order_def random_def randint_def randbelow_def
      noise_pixel_def upto.simps)

section \<open>The renderers: what is drawn and what is recorded\<close>

lemma draw_lines_eq:
  "draw_lines x fill f wrapped (img, y) =
     (img\<lparr>ops := ops img @ text_lines x y fill f wrapped\<rparr>, y + 20 * int (length wrapped))"
proof (induction wrapped arbitrary: img y)
  case Nil
  then show ?case by (simp add: draw_lines_def)
next
  case (Cons line rest)
  have "draw_lines x fill f (line # rest) (img, y) =
          draw_lines x fill f rest (draw_text img (x, y) line fill f None, y + 20)"
    by (simp add: draw_lines_def)
  then show ?case
    by (simp add: Cons.IH draw_text_def algebra_simps)
qed

lemma is_noise_op_degradation: "is_noise_op px a w h x \<Longrightarrow> is_degradation_op x"
  by (cases x) (simp_all add: is_noise_op_def is_degradation_op_def)

lemma QUALITY_SETTINGS_settings:
  "\<exists>s. (case map_of (QUALITY_SETTINGS r) quality of Some s \<Rightarrow> s
          | None \<Rightarrow> \<lparr>blur = 0, noise = 0, rotation = 0\<rparr>) = s \<and> 0 \<le> noise s \<and>
        (quality = ''edge'' \<longrightarrow> s = \<lparr>blur = 4 / 5, noise = 15, rotation = r\<rparr>)"
  by (simp add: QUALITY_SETTINGS_def)

lemma apply_quality_QS:
  "\<exists>img' g' M. apply_quality E (QUALITY_SETTINGS r) img quality g = Inr (img', g') \<and>
      ops img' = ops img @ M \<and> list_all is_degradation_op M \<and>
      (quality = ''edge'' \<and> 0 < r \<longrightarrow>
         last (ops img') = Rotate r (RGB 255 255 255) True \<or>
         last (ops img') = Rotate (- r) (RGB 255 255 255) True)"
proof -
  note hi = QUALITY_SETTINGS_lookup(1) [of r]
  obtain s where s: "s = (case map_of (QUALITY_SETTINGS r) quality of Some s \<Rightarrow> s
          | None \<Rightarrow> \<lparr>blur = 0, noise = 0, rotation = 0\<rparr>)" and n: "0 \<le> noise s"
    and e: "quality = ''edge'' \<longrightarrow> s = \<lparr>blur = 4 / 5, noise = 15, rotation = r\<rparr>"
    using QUALITY_SETTINGS_settings [of r quality] by blast
  let ?B = "if 0 < blur s then [GaussianBlur (blur s)] else []"
  obtain N sign g' where
    aq: "apply_quality E (QUALITY_SETTINGS r) img quality g =
             Inr (if 0 < rotation s then
                    img_rotate E (img\<lparr>ops := ops img @ ?B @ N\<rparr>)
                      (sign * rotation s) (RGB 255 255 255) True
                  else img\<lparr>ops := ops img @ ?B @ N\<rparr>, g')"
    and sg: "sign = 1 \<or> sign = - 1"
    and nn: "if 0 < noise s then
              list_all (is_noise_op (img_load E (img\<lparr>ops := ops img @ ?B\<rparr>))
                 (noise s) (width img) (height img)) N
            else N = [] \<and> (rotation s \<le> 0 \<longrightarrow> g' = g)"
    using apply_quality_settings [OF hi s n, of E img g] by blast
  have N: "list_all is_degradation_op N"
    using nn by (auto simp: list_all_iff intro: is_noise_op_degradation split: if_splits)
  let ?R = "if 0 < rotation s then [Rotate (sign * rotation s) (RGB 255 255 255) True] else []"
  let ?img' = "if 0 < rotation s then
                    img_rotate E (img\<lparr>ops := ops img @ ?B @ N\<rparr>)
                      (sign * rotation s) (RGB 255 255 255) True
                  else img\<lparr>ops := ops img @ ?B @ N\<rparr>"
  have o: "ops ?img' = ops img @ (?B @ N @ ?R)"
    by (simp add: img_rotate_def Let_def)
  have d: "list_all is_degradation_op (?B @ N @ ?R)"
    using N by (simp add: is_degradation_op_def)
  have l: "quality = ''edge'' \<and> 0 < r \<longrightarrow>
         last (ops ?img') = Rotate r (RGB 255 255 255) True \<or>
         last (ops ?img') = Rotate (- r) (RGB 255 255 255) True"
    using e sg by (auto simp: img_rotate_def Let_def)
  show ?thesis using aq o d l by blast
qed


lemma is_degradation_op_simps:
  "is_degradation_op (GaussianBlur b)" "is_degradation_op (PutPixel i j p)"
  "is_degradation_op (Rotate a c e)" "\<not> is_degradation_op (Text xy s fill f anchor)"
  "\<not> is_degradation_op (Rectangle box fill' outline w)" "\<not> is_degradation_op (Line box c w)"
  by (simp_all add: is_degradation_op_def)

lemma text_lines_drawn: "list_all (\<lambda>x. \<not> is_degradation_op x) (text_lines x y fill f wrapped)"
  by (induction wrapped arbitrary: y) (simp_all add: is_degradation_op_simps)

lemma text_lines_not_degradation:
  "x \<in> set (text_lines a b fill f wrapped) \<Longrightarrow> \<not> is_degradation_op x"
  using text_lines_drawn [of a b fill f wrapped] by (simp add: list_all_iff)

lemmas draw_defs = draw_text_def draw_rectangle_def draw_line_def draw_lines_eq Image_new_def

lemma draw_receipt_texts:
  "case draw_receipt E org g of (img, (date, amount, receipt_num), g') \<Rightarrow>
     width img = 600 \<and> height img = 800 \<and>
     Text (300, 40) (name org) (Named ''black'') (get_font E 24 True) (Some ''mt'') \<in> set (ops img) \<and>
     Text (300, 70) (''EIN: '' @ ein org) (Named ''gray'') (get_font E 12 False) (Some ''mt'')
       \<in> set (ops img) \<and>
     Text (40, 180) (''Receipt Number: '' @ receipt_num) (Named ''black'') (get_font E 14 False) None
       \<in> set (ops img) \<and>
     Text (40, 210) (''Date: '' @ strftime date ''%B %d, %Y'') (Named ''black'') (get_font E 14 False)
       None \<in> set (ops img) \<and>
     Text (60, 290) ''Test Donor'' (Named ''black'') (get_font E 14 False) None \<in> set (ops img) \<and>
     Text (300, 425) (''$'' @ format_money amount) (Named ''black'') (get_font E 24 True) (Some ''mt'')
       \<in> set (ops img) \<and>
     list_all (\<lambda>x. \<not> is_degradation_op x) (ops img)"
  by (simp add: draw_receipt_def Let_def draw_defs is_degradation_op_simps text_lines_drawn
        split: prod.splits)


lemma add_watermark_ops:
  "ops (add_watermark E img) =
     ops img @ [Text (width img div 4, height img div 2) ''SAMPLE - FOR TESTING ONLY''
                  (RGBA 200 200 200 128) (get_font E 24 False) None]"
  by (simp add: add_watermark_def Let_def draw_text_def)

lemma post_processing:
  "\<exists>img g' M.
     apply_quality E (QUALITY_SETTINGS r) (add_watermark E canvas) quality g = Inr (img, g') \<and>
     ops img = ops canvas @
       [Text (width canvas div 4, height canvas div 2) ''SAMPLE - FOR TESTING ONLY''
          (RGBA 200 200 200 128) (get_font E 24 False) None] @ M \<and>
     list_all is_degradation_op M \<and>
     (quality = ''edge'' \<and> 0 < r \<longrightarrow>
        last (ops img) = Rotate r (RGB 255 255 255) True \<or>
        last (ops img) = Rotate (- r) (RGB 255 255 255) True)"
  using apply_quality_QS [of E r "add_watermark E canvas" quality g]
  by (auto simp: add_watermark_ops)

lemma generate_receipt_eq:
  "case draw_receipt E org (random_state st) of (canvas, (date, amount, receipt_num), g) \<Rightarrow>
     \<exists>img g'.
       apply_quality E (QUALITY_SETTINGS r) (add_watermark E canvas) quality g = Inr (img, g') \<and>
       generate_receipt E (QUALITY_SETTINGS r) org quality index st =
         Inr (''receipt_'' @ short org @ ''_'' @ quality @ ''_'' @ format_0d 3 index @ ''.png'',
           st\<lparr>random_state := g',
              files := files st @
                [(os_path_join (OUTPUT_DIR E)
                    [''receipts'',
                     ''receipt_'' @ short org @ ''_'' @ quality @ ''_'' @ format_0d 3 index @ ''.png''],
                  PNG img)],
              manifest_entries := manifest_entries st @
                [JDict
                   [(''filename'', JStr (''receipts/'' @ ''receipt_'' @ short org @ ''_'' @ quality @
                       ''_'' @ format_0d 3 index @ ''.png'')),
                    (''documentType'', JStr ''receipt''),
                    (''quality'', JStr quality),
                    (''synthetic'', JBool True),
                    (''expectedFields'', JDict
                       [(''organization_name'', JStr (name org)),
                        (''ein'', JStr (ein org)),
                        (''amount'', JFloat amount),
                        (''date'', JStr (strftime date ''%Y-%m-%d'')),
                        (''donor_name'', JStr ''Test Donor''),
                        (''receipt_number'', JStr receipt_num)])]]\<rparr>)"
proof -
  obtain canvas date amount receipt_num g where
    d: "draw_receipt E org (random_state st) = (canvas, (date, amount, receipt_num), g)"
    by (metis prod_cases3 surj_pair)
  obtain img g' where
    aq: "apply_quality E (QUALITY_SETTINGS r) (add_watermark E canvas) quality g = Inr (img, g')"
    using post_processing [of E r canvas quality g] by blast
  show ?thesis
    using aq by (simp add: d generate_receipt_def Let_def)
qed


lemma draw_letter_texts:
  "case draw_acknowledgment_letter E org g of (img, (date, amount, donation_date), g') \<Rightarrow>
     width img = 600 \<and> height img = 850 \<and>
     date - 14 \<le> donation_date \<and> donation_date \<le> date - 1 \<and>
     Text (300, 40) (name org) (Named ''black'') (get_font E 20 True) (Some ''mt'') \<in> set (ops img) \<and>
     Text (300, 90) (''Tax ID: '' @ ein org) (Named ''gray'') (get_font E 10 False) (Some ''mt'')
       \<in> set (ops img) \<and>
     Text (40, 140) (strftime date ''%B %d, %Y'') (Named ''black'') (get_font E 12 False) None
       \<in> set (ops img) \<and>
     Text (40, 180) ''Test Donor'' (Named ''black'') (get_font E 12 False) None \<in> set (ops img) \<and>
     list_all (\<lambda>x. x \<in> set (ops img))
       (text_lines 40 295 (Named ''black'') (get_font E 12 False)
          (textwrap_wrap (letter_body amount donation_date) 70)) \<and>
     Text (50, 385 + 20 * int (length (textwrap_wrap (letter_body amount donation_date) 70)) +
                 20 * int (length (textwrap_wrap letter_tax_text 70)))
       (''Amount: $'' @ format_money amount) (Named ''black'') (get_font E 12 False) None
       \<in> set (ops img) \<and>
     Text (50, 405 + 20 * int (length (textwrap_wrap (letter_body amount donation_date) 70)) +
                 20 * int (length (textwrap_wrap letter_tax_text 70)))
       (''Date Received: '' @ strftime donation_date ''%Y-%m-%d'') (Named ''black'')
       (get_font E 12 False) None \<in> set (ops img) \<and>
     list_all (\<lambda>x. \<not> is_degradation_op x) (ops img)"
proof -
  obtain date g1 where d: "random_date g = (date, g1)" by fastforce
  obtain amount g2 where a: "random_amount 25 5000 g1 = (amount, g2)" by fastforce
  obtain days g3 where k: "randint 1 14 g2 = (days, g3)" by fastforce
  have r: "1 \<le> days \<and> days \<le> 14" using randint_range [of 1 14 g2] k by simp
  show ?thesis
    using r
    by (auto simp: draw_acknowledgment_letter_def Let_def d a k draw_defs is_degradation_op_simps
        list_all_iff dest: text_lines_not_degradation)
qed

lemma generate_acknowledgment_letter_eq:
  "case draw_acknowledgment_letter E org (random_state st) of
     (canvas, (date, amount, donation_date), g) \<Rightarrow>
     \<exists>img g'.
       apply_quality E (QUALITY_SETTINGS r) (add_watermark E canvas) quality g = Inr (img, g') \<and>
       generate_acknowledgment_letter E (QUALITY_SETTINGS r) org quality index st =
         Inr (''acknowledgment_'' @ short org @ ''_'' @ quality @ ''_'' @ format_0d 3 index @ ''.png'',
           st\<lparr>random_state := g',
              files := files st @
                [(os_path_join (OUTPUT_DIR E)
                    [''acknowledgment_letters'',
                     ''acknowledgment_'' @ short org @ ''_'' @ quality @ ''_'' @ format_0d 3 index @
                       ''.png''],
                  PNG img)],
              manifest_entries := manifest_entries st @
                [JDict
                   [(''filename'', JStr (''acknowledgment_letters/'' @ ''acknowledgment_'' @ short org @
                       ''_'' @ quality @ ''_'' @ format_0d 3 index @ ''.png'')),
                    (''documentType'', JStr ''acknowledgment_letter''),
                    (''quality'', JStr quality),
                    (''synthetic'', JBool True),
                    (''expectedFields'', JDict
                       [(''organization_name'', JStr (name org)),
                        (''ein'', JStr (ein org)),
                        (''amount'', JFloat amount),
                        (''date'', JStr (strftime donation_date ''%Y-%m-%d'')),
                        (''donor_name'', JStr ''Test Donor'')])]]\<rparr>)"
proof -
  obtain canvas date amount donation_date g where
    d: "draw_acknowledgment_letter E org (random_state st) =
          (canvas, (date, amount, donation_date), g)"
    by (metis prod_cases3 surj_pair)
  obtain img g' where
    aq: "apply_quality E (QUALITY_SETTINGS r) (add_watermark E canvas) quality g = Inr (img, g')"
    using post_processing [of E r canvas quality g] by blast
  show ?thesis
    using aq by (simp add: d generate_acknowledgment_letter_def Let_def)
qed

section \<open>The bank statement\<close>

lemma draw_transactions_all:
  assumes "\<forall>t \<in> set txns. txn_charitable t \<longrightarrow> txn_org t \<noteq> None"
    and "y + 22 * int (length txns) \<le> h - 58"
  shows "draw_transactions f h txns (img, y, ce) =
           Inr (img\<lparr>ops := ops img @ txn_rows f y txns\<rparr>, y + 22 * int (length txns),
                ce @ map charitable_entry (filter txn_charitable txns))"
  using assms
proof (induction txns arbitrary: img y ce)
  case Nil
  then show ?case by simp
next
  case (Cons t rest)
  have nb: "\<not> h - 80 < y" using Cons.prems(2) by simp
  have y': "y + 22 + 22 * int (length rest) \<le> h - 58" using Cons.prems(2) by simp
  have ch: "\<forall>t \<in> set rest. txn_charitable t \<longrightarrow> txn_org t \<noteq> None" using Cons.prems(1) by simp
  show ?case
  proof (cases "txn_charitable t")
    case True
    then obtain org where o: "txn_org t = Some org" using Cons.prems(1) by auto
    show ?thesis
      using nb True o Cons.IH [OF ch y']
      by (simp add: Let_def draw_text_def charitable_entry_def algebra_simps)
  next
    case False
    show ?thesis
      using nb False Cons.IH [OF ch y']
      by (simp add: Let_def draw_text_def algebra_simps)
  qed
qed

lemma choice_mem: "fst (choice x xs g) \<in> set (x # xs)"
proof -
  have "0 < int (length (x # xs))" by simp
  then have "0 \<le> g 0 mod int (length (x # xs)) \<and> g 0 mod int (length (x # xs)) < int (length (x # xs))"
    using pos_mod_sign pos_mod_bound by blast
  then have "nat (g 0 mod int (length (x # xs))) < length (x # xs)" by linarith
  then have "(x # xs) ! nat (g 0 mod int (length (x # xs))) \<in> set (x # xs)"
    by (rule nth_mem)
  then show ?thesis by (simp add: choice_def randbelow_def)
qed

lemma regular_txn_eq:
  "\<exists>t b' d' g'. regular_txn (txns, b, d, g) = (txns @ [t], b', d', g') \<and> \<not> txn_charitable t \<and>
     txn_desc t \<in> set [''GROCERY STORE'', ''GAS STATION'', ''RESTAURANT'', ''ONLINE PURCHASE'']"
proof -
  obtain u g1 where u: "uniform 20 200 g = (u, g1)" by fastforce
  obtain c g2 where c: "choice ''GROCERY STORE'' [''GAS STATION'', ''RESTAURANT'', ''ONLINE PURCHASE''] g1 =
      (c, g2)" by fastforce
  obtain k g3 where k: "randint 1 5 g2 = (k, g3)" by fastforce
  have "c \<in> set [''GROCERY STORE'', ''GAS STATION'', ''RESTAURANT'', ''ONLINE PURCHASE'']"
    using choice_mem [of "''GROCERY STORE''" "[''GAS STATION'', ''RESTAURANT'', ''ONLINE PURCHASE'']" g1]
    unfolding c by simp
  then show ?thesis
    by (simp add: regular_txn_def Let_def u c k)
qed

lemma regular_loop:
  "\<exists>new b' d' g'. fold (\<lambda>_. regular_txn) ks (txns, b, d, g) = (txns @ new, b', d', g') \<and>
      length new = length ks \<and>
      (\<forall>t \<in> set new. \<not> txn_charitable t \<and>
         txn_desc t \<in> set [''GROCERY STORE'', ''GAS STATION'', ''RESTAURANT'', ''ONLINE PURCHASE''])"
proof (induction ks arbitrary: txns b d g)
  case Nil
  then show ?case by simp
next
  case (Cons k ks)
  obtain t b1 d1 g1 where s: "regular_txn (txns, b, d, g) = (txns @ [t], b1, d1, g1)"
    and t: "\<not> txn_charitable t \<and>
         txn_desc t \<in> set [''GROCERY STORE'', ''GAS STATION'', ''RESTAURANT'', ''ONLINE PURCHASE'']"
    using regular_txn_eq by blast
  obtain new b' d' g' where
    f: "fold (\<lambda>_. regular_txn) ks (txns @ [t], b1, d1, g1) = ((txns @ [t]) @ new, b', d', g')"
    and l: "length new = length ks"
    and n: "\<forall>t \<in> set new. \<not> txn_charitable t \<and>
         txn_desc t \<in> set [''GROCERY STORE'', ''GAS STATION'', ''RESTAURANT'', ''ONLINE PURCHASE'']"
    using Cons.IH [of "txns @ [t]" b1 d1 g1] by blast
  have "fold (\<lambda>_. regular_txn) (k # ks) (txns, b, d, g) = (txns @ (t # new), b', d', g')"
    using s f by simp
  then show ?case using l n t
    by (intro exI [of _ "t # new"] exI [of _ b'] exI [of _ d'] exI [of _ g']) simp
qed

lemma charitable_txn_eq:
  "\<exists>t b' d' g'. charitable_txn org (txns, b, d, g) = (txns @ [t], b', d', g') \<and>
      txn_charitable t \<and> txn_org t = Some org \<and>
      txn_desc t = ''DONATION '' @ upper (take 20 (name org))"
  by (simp add: charitable_txn_def Let_def split: prod.splits)

lemma charitable_loop:
  "\<exists>new b' d' g'. fold charitable_txn orgs (txns, b, d, g) = (txns @ new, b', d', g') \<and>
      length new = length orgs \<and>
      (\<forall>t \<in> set new. txn_charitable t \<and>
         (\<exists>org. org \<in> set orgs \<and> txn_org t = Some org \<and>
                txn_desc t = ''DONATION '' @ upper (take 20 (name org))))"
proof (induction orgs arbitrary: txns b d g)
  case Nil
  then show ?case by simp
next
  case (Cons org orgs)
  obtain t b1 d1 g1 where s: "charitable_txn org (txns, b, d, g) = (txns @ [t], b1, d1, g1)"
    and t: "txn_charitable t" "txn_org t = Some org"
      "txn_desc t = ''DONATION '' @ upper (take 20 (name org))"
    using charitable_txn_eq by blast
  obtain new b' d' g' where
    f: "fold charitable_txn orgs (txns @ [t], b1, d1, g1) = ((txns @ [t]) @ new, b', d', g')"
    and l: "length new = length orgs"
    and n: "\<forall>t \<in> set new. txn_charitable t \<and>
         (\<exists>org. org \<in> set orgs \<and> txn_org t = Some org \<and>
                txn_desc t = ''DONATION '' @ upper (take 20 (name org)))"
    using Cons.IH [of "txns @ [t]" b1 d1 g1] by blast
  have "fold charitable_txn (org # orgs) (txns, b, d, g) = (txns @ (t # new), b', d', g')"
    using s f by simp
  moreover have "\<forall>t \<in> set (t # new). txn_charitable t \<and>
         (\<exists>org'. org' \<in> set (org # orgs) \<and> txn_org t = Some org' \<and>
                txn_desc t = ''DONATION '' @ upper (take 20 (name org')))"
    using n t by auto
  ultimately show ?case using l
    by (intro exI [of _ "t # new"] exI [of _ b'] exI [of _ d'] exI [of _ g']) simp
qed

lemma sample_pool_length: "length (fst (sample_pool pool k g)) \<le> k"
proof (induction k arbitrary: pool g)
  case 0
  then show ?case by simp
next
  case (Suc k)
  show ?case
  proof (cases pool)
    case Nil
    then show ?thesis by simp
  next
    case (Cons p ps)
    obtain j g' where r: "randbelow (int (length (p # ps))) g = (j, g')" by fastforce
    define pool' where "pool' = butlast ((p # ps)[nat j := last (p # ps)])"
    obtain rest g'' where s: "sample_pool pool' k g' = (rest, g'')" by fastforce
    have "length rest \<le> k" using Suc.IH [of pool' g'] s by simp
    moreover have "sample_pool pool (Suc k) g = ((p # ps) ! nat j # rest, g'')"
      unfolding Cons sample_pool.simps(3) r using s by (simp add: pool'_def)
    ultimately show ?thesis by simp
  qed
qed

lemma sample_length: "0 \<le> k \<Longrightarrow> int (length (fst (sample population k g))) \<le> k"
  using sample_pool_length [of population "nat k" g] by (simp add: sample_def)

lemma sample_pool_exact:
  "k \<le> length pool \<Longrightarrow>
     length (fst (sample_pool pool k g)) = k \<and> set (fst (sample_pool pool k g)) \<subseteq> set pool"
proof (induction k arbitrary: pool g)
  case 0
  then show ?case by simp
next
  case (Suc k)
  then obtain p ps where pool: "pool = p # ps" by (cases pool) auto
  obtain j g' where r: "randbelow (int (length (p # ps))) g = (j, g')" by fastforce
  have "0 < int (length (p # ps))" by simp
  then have "0 \<le> g 0 mod int (length (p # ps)) \<and>
             g 0 mod int (length (p # ps)) < int (length (p # ps))"
    using pos_mod_sign pos_mod_bound by blast
  moreover have "j = g 0 mod int (length (p # ps))" using r by (simp add: randbelow_def)
  ultimately have j: "nat j < length (p # ps)" by linarith
  define pool' where "pool' = butlast ((p # ps)[nat j := last (p # ps)])"
  obtain rest g'' where s: "sample_pool pool' k g' = (rest, g'')" by fastforce
  have "length pool' = length (p # ps) - 1"
    unfolding pool'_def by (simp only: length_butlast length_list_update)
  then have lp: "k \<le> length pool'" using Suc.prems by (simp add: pool)
  have sub: "set pool' \<subseteq> set (p # ps)"
  proof
    fix x assume "x \<in> set pool'"
    then have "x \<in> set ((p # ps)[nat j := last (p # ps)])"
      unfolding pool'_def by (rule in_set_butlastD)
    then have "x \<in> insert (last (p # ps)) (set (p # ps))"
      using set_update_subset_insert by fastforce
    moreover have "last (p # ps) \<in> set (p # ps)" by (rule last_in_set) simp
    ultimately show "x \<in> set (p # ps)" by auto
  qed
  have ih: "length rest = k \<and> set rest \<subseteq> set pool'"
    using Suc.IH [OF lp, of g'] s by simp
  have eq: "sample_pool pool (Suc k) g = ((p # ps) ! nat j # rest, g'')"
    unfolding pool sample_pool.simps(3) r using s by (simp add: pool'_def)
  have "(p # ps) ! nat j \<in> set (p # ps)" using j by (rule nth_mem)
  then show ?case using ih sub eq by (auto simp: pool)
qed

lemma sample_exact:
  assumes "0 \<le> k" and "k \<le> int (length population)"
  shows "int (length (fst (sample population k g))) = k \<and>
         set (fst (sample population k g)) \<subseteq> set population"
  using sample_pool_exact [of "nat k" population g] assms by (simp add: sample_def)


lemma txn_rows_not_degradation: "x \<in> set (txn_rows f y txns) \<Longrightarrow> \<not> is_degradation_op x"
  by (induction txns arbitrary: y) (auto simp: is_degradation_op_simps)

lemma draw_bank_statement_eq:
  "\<exists>img acct_num start_date txns g' pre post.
     draw_bank_statement E bank g =
       Inr (img, (acct_num, start_date, start_date + 30,
                  map charitable_entry (filter txn_charitable txns)), g') \<and>
     (\<exists>num g1 g2.
        randint 1000 9999 g = (num, g1) \<and> acct_num = ''***'' @ str_int num \<and>
        random_date g1 = (start_date, g2) \<and> statement_transactions start_date g2 = (txns, g')) \<and>
     width img = 700 \<and> height img = 600 \<and> length txns \<le> 8 \<and>
     ops img = pre @ txn_rows (get_font E 11 False) 190 txns @ post \<and>
     length pre = 12 \<and> length post = 2 \<and>
     Text (30, 25) (bank_name bank) (Named ''white'') (get_font E 22 True) None \<in> set pre \<and>
     Text (30, 100) (''Account: '' @ acct_num) (Named ''black'') (get_font E 11 False) None
       \<in> set pre \<and>
     Text (400, 120)
       (strftime start_date ''%m/%d/%Y'' @ '' - '' @ strftime (start_date + 30) ''%m/%d/%Y'')
       (Named ''black'') (get_font E 10 False) None \<in> set pre \<and>
     list_all (\<lambda>t. txn_org t \<noteq> None) (filter txn_charitable txns) \<and>
     list_all (\<lambda>t. txn_charitable t = (take 9 (txn_desc t) = ''DONATION '')) txns \<and>
     list_all (\<lambda>t. length (txn_desc t) \<le> 35) txns \<and>
     list_all (\<lambda>t. \<exists>org. org \<in> set ORGANIZATIONS \<and> txn_org t = Some org \<and>
                  txn_desc t = ''DONATION '' @ upper (take 20 (name org)))
       (filter txn_charitable txns) \<and>
     2 \<le> length (filter txn_charitable txns) \<and> length (filter txn_charitable txns) \<le> 3 \<and>
     list_all (\<lambda>x. \<not> is_degradation_op x) (ops img)"
proof -
  obtain num g1 where r1: "randint 1000 9999 g = (num, g1)" by fastforce
  obtain start g2 where r2: "random_date g1 = (start, g2)" by fastforce
  obtain bal g3 where r3: "uniform 5000 15000 g2 = (bal, g3)" by fastforce
  obtain n g4 where r4: "randint 3 5 g3 = (n, g4)" by fastforce
  have n: "3 \<le> n \<and> n \<le> 5" using randint_range [of 3 5 g3] r4 by simp
  obtain new1 b1 d1 g5 where
    f1: "fold (\<lambda>_. regular_txn) [0..<nat n] ([], bal, start, g4) = (new1, b1, d1, g5)"
    and l1: "length new1 = nat n"
    and c1': "\<forall>t \<in> set new1. \<not> txn_charitable t \<and>
         txn_desc t \<in> set [''GROCERY STORE'', ''GAS STATION'', ''RESTAURANT'', ''ONLINE PURCHASE'']"
    using regular_loop [of "[0..<nat n]" "[]" bal start g4] by auto
  have c1: "\<forall>t \<in> set new1. \<not> txn_charitable t" using c1' by blast
  obtain k g6 where r5: "randint 2 3 g5 = (k, g6)" by fastforce
  have k: "2 \<le> k \<and> k \<le> 3" using randint_range [of 2 3 g5] r5 by simp
  obtain orgs g7 where r6: "sample ORGANIZATIONS k g6 = (orgs, g7)" by fastforce
  have lo: "int (length orgs) \<le> k" using sample_length [of k ORGANIZATIONS g6] r6 k by simp
  have "k \<le> int (length ORGANIZATIONS)" using k by (simp add: ORGANIZATIONS_def)
  then have so: "int (length orgs) = k \<and> set orgs \<subseteq> set ORGANIZATIONS"
    using sample_exact [of k ORGANIZATIONS g6] r6 k by simp
  obtain new2 b2 d2 g8 where
    f2: "fold charitable_txn orgs (new1, b1, d1, g7) = (new1 @ new2, b2, d2, g8)"
    and l2: "length new2 = length orgs"
    and c2': "\<forall>t \<in> set new2. txn_charitable t \<and>
         (\<exists>org. org \<in> set orgs \<and> txn_org t = Some org \<and>
                txn_desc t = ''DONATION '' @ upper (take 20 (name org)))"
    using charitable_loop [of orgs new1 b1 d1 g7] by blast
  have c2: "\<forall>t \<in> set new2. txn_charitable t \<and> txn_org t \<noteq> None" using c2' by auto
  define txns where "txns = sort_key txn_date (new1 @ new2)"
  have flag: "list_all (\<lambda>t. txn_charitable t = (take 9 (txn_desc t) = ''DONATION '')) txns"
    unfolding list_all_iff txns_def using c1' c2' by auto
  have short: "list_all (\<lambda>t. length (txn_desc t) \<le> 35) txns"
    unfolding list_all_iff txns_def using c1' c2' by (auto simp: upper_def)
  have fc: "filter txn_charitable txns = sort_key txn_date new2"
    unfolding txns_def filter_sort using c1 c2 by (simp add: filter_empty_conv filter_id_conv)
  have donors: "list_all (\<lambda>t. \<exists>org. org \<in> set ORGANIZATIONS \<and> txn_org t = Some org \<and>
                  txn_desc t = ''DONATION '' @ upper (take 20 (name org)))
       (filter txn_charitable txns)"
    unfolding fc list_all_iff using c2' so by auto
  have cnt: "2 \<le> length (filter txn_charitable txns) \<and> length (filter txn_charitable txns) \<le> 3"
    unfolding fc using l2 so k by simp
  have "nat n + length orgs \<le> 8" using lo n k by arith
  then have len: "length txns \<le> 8" using l1 l2 by (simp add: txns_def)
  have ch: "\<forall>t \<in> set txns. txn_charitable t \<longrightarrow> txn_org t \<noteq> None"
    using c1 c2 by (auto simp: txns_def)
  let ?acct = "''***'' @ str_int num"
  let ?pre = "[Rectangle ((0, 0), (700, 80)) (Some (Named ''#003366'')) None 1,
      Text (30, 25) (bank_name bank) (Named ''white'') (get_font E 22 True) None,
      Text (30, 55) ''Account Statement'' (Named ''#cccccc'') (get_font E 10 False) None,
      Text (30, 100) (''Account: '' @ ?acct) (Named ''black'') (get_font E 11 False) None,
      Text (400, 100) ''Statement Period:'' (Named ''black'') (get_font E 11 False) None,
      Text (30, 120) ''Primary Checking'' (Named ''gray'') (get_font E 10 False) None,
      Text (400, 120)
        (strftime start ''%m/%d/%Y'' @ '' - '' @ strftime (start + 30) ''%m/%d/%Y'')
        (Named ''black'') (get_font E 10 False) None,
      Rectangle ((20, 160), (680, 185)) (Some (Named ''#f0f0f0'')) None 1,
      Text (30, 165) ''Date'' (Named ''black'') (get_font E 14 True) None,
      Text (120, 165) ''Description'' (Named ''black'') (get_font E 14 True) None,
      Text (450, 165) ''Amount'' (Named ''black'') (get_font E 14 True) None,
      Text (550, 165) ''Balance'' (Named ''black'') (get_font E 14 True) None]"
  let ?post = "[Line ((20, 550), (680, 550)) (Named ''gray'') 1,
      Text (30, 560) ''Page 1 of 1'' (Named ''gray'') (get_font E 10 False) None]"
  let ?img0 = "\<lparr>mode = ''RGB'', width = 700, height = 600, background = Named ''white'', ops = ?pre\<rparr>"
  have dt: "draw_transactions (get_font E 11 False) 600 txns (?img0, 190, []) =
          Inr (?img0\<lparr>ops := ops ?img0 @ txn_rows (get_font E 11 False) 190 txns\<rparr>,
               190 + 22 * int (length txns),
               [] @ map charitable_entry (filter txn_charitable txns))"
    using len by (intro draw_transactions_all [OF ch]) simp
  let ?img = "\<lparr>mode = ''RGB'', width = 700, height = 600, background = Named ''white'',
               ops = ?pre @ txn_rows (get_font E 11 False) 190 txns @ ?post\<rparr>"
  have eq: "draw_bank_statement E bank g =
       Inr (?img, (?acct, start, start + 30, map charitable_entry (filter txn_charitable txns)), g8)"
    using dt
    by (simp add: draw_bank_statement_def Let_def r1 r2 r3 r4 r5 r6 f1 f2 txns_def [symmetric]
        draw_defs)
  have nd: "list_all (\<lambda>x. \<not> is_degradation_op x) (ops ?img)"
    by (auto simp: list_all_iff is_degradation_op_simps dest: txn_rows_not_degradation)
  have st: "statement_transactions start g2 = (txns, g8)"
    by (simp add: statement_transactions_def Let_def r3 r4 r5 r6 f1 f2 txns_def)
  have sampled: "\<exists>num g1 g2.
        randint 1000 9999 g = (num, g1) \<and> ?acct = ''***'' @ str_int num \<and>
        random_date g1 = (start, g2) \<and> statement_transactions start g2 = (txns, g8)"
    using r1 r2 st by blast
  show ?thesis
    apply (rule exI [of _ ?img], rule exI [of _ ?acct], rule exI [of _ start],
           rule exI [of _ txns], rule exI [of _ g8], rule exI [of _ ?pre], rule exI [of _ ?post])
    apply (intro conjI)
    subgoal by (rule eq)
    subgoal by (rule sampled)
    subgoal by simp
    subgoal by simp
    subgoal by (rule len)
    subgoal by simp
    subgoal by simp
    subgoal by simp
    subgoal by simp
    subgoal by simp
    subgoal by simp
    subgoal using ch by (simp add: list_all_iff)
    subgoal by (rule flag)
    subgoal by (rule short)
    subgoal by (rule donors)
    subgoal using cnt by simp
    subgoal using cnt by simp
    subgoal by (rule nd)
    done
qed

section \<open>The driver\<close>

lemma generate_bank_statement_eq:
  "\<exists>canvas acct_num start_date centries g img g'.
     draw_bank_statement E bank (random_state st) =
       Inr (canvas, (acct_num, start_date, start_date + 30, centries), g) \<and>
     list_all (\<lambda>x. \<not> is_degradation_op x) (ops canvas) \<and>
     apply_quality E (QUALITY_SETTINGS r) (add_watermark E canvas) quality g = Inr (img, g') \<and>
     generate_bank_statement E (QUALITY_SETTINGS r) bank quality index st =
       Inr (''bank_statement_'' @ bank_short bank @ ''_'' @ quality @ ''_'' @ format_0d 3 index @
              ''.png'',
         st\<lparr>random_state := g',
            files := files st @
              [(os_path_join (OUTPUT_DIR E)
                  [''bank_statements'',
                   ''bank_statement_'' @ bank_short bank @ ''_'' @ quality @ ''_'' @
                     format_0d 3 index @ ''.png''],
                PNG img)],
            manifest_entries := manifest_entries st @
              [JDict
                 [(''filename'', JStr (''bank_statements/'' @ ''bank_statement_'' @ bank_short bank @
                     ''_'' @ quality @ ''_'' @ format_0d 3 index @ ''.png'')),
                  (''documentType'', JStr ''bank_statement''),
                  (''quality'', JStr quality),
                  (''synthetic'', JBool True),
                  (''expectedFields'', JDict
                     [(''bank_name'', JStr (bank_name bank)),
                      (''account_number'', JStr acct_num),
                      (''statement_period_start'', JStr (strftime start_date ''%Y-%m-%d'')),
                      (''statement_period_end'', JStr (strftime (start_date + 30) ''%Y-%m-%d'')),
                      (''charitable_transactions'', JList centries)])]]\<rparr>)"
proof -
  obtain canvas acct_num start_date txns g where
    d: "draw_bank_statement E bank (random_state st) =
          Inr (canvas, (acct_num, start_date, start_date + 30,
                        map charitable_entry (filter txn_charitable txns)), g)"
    and c: "list_all (\<lambda>x. \<not> is_degradation_op x) (ops canvas)"
    using draw_bank_statement_eq [of E bank "random_state st"] by blast
  obtain img g' where
    aq: "apply_quality E (QUALITY_SETTINGS r) (add_watermark E canvas) quality g = Inr (img, g')"
    using post_processing [of E r canvas quality g] by blast
  show ?thesis
    using aq d c by (simp add: generate_bank_statement_def Let_def)
qed

lemma receipt_call_recorded:
  "\<exists>fname e f g'.
     generate_receipt E (QUALITY_SETTINGS r) org q idx st =
       Inr (fname, st\<lparr>random_state := g', files := files st @ [f],
                      manifest_entries := manifest_entries st @ [e]\<rparr>) \<and>
     receipt_recorded E r (org, q, idx) (e, f)"
proof -
  obtain canvas date amount receipt_num g where
    d: "draw_receipt E org (random_state st) = (canvas, (date, amount, receipt_num), g)"
    by (metis prod_cases3 surj_pair)
  show ?thesis
    using generate_receipt_eq [where E = E and org = org and st = st and r = r and quality = q
        and index = idx]
      draw_receipt_texts [where E = E and org = org and g = "random_state st"] unfolding d
    by (fastforce simp: receipt_recorded_def document_recorded_def json_keys_def json_get_def)
qed

lemma letter_call_recorded:
  "\<exists>fname e f g'.
     generate_acknowledgment_letter E (QUALITY_SETTINGS r) org q idx st =
       Inr (fname, st\<lparr>random_state := g', files := files st @ [f],
                      manifest_entries := manifest_entries st @ [e]\<rparr>) \<and>
     letter_recorded E r (org, q, idx) (e, f)"
proof -
  obtain canvas date amount donation_date g where
    d: "draw_acknowledgment_letter E org (random_state st) =
          (canvas, (date, amount, donation_date), g)"
    by (metis prod_cases3 surj_pair)
  show ?thesis
    using generate_acknowledgment_letter_eq [where E = E and org = org and st = st and r = r
        and quality = q and index = idx]
      draw_letter_texts [where E = E and org = org and g = "random_state st"] unfolding d
    by (fastforce simp: letter_recorded_def document_recorded_def json_keys_def json_get_def)
qed

lemma statement_call_recorded:
  "\<exists>fname e f g'.
     generate_bank_statement E (QUALITY_SETTINGS r) bank q idx st =
       Inr (fname, st\<lparr>random_state := g', files := files st @ [f],
                      manifest_entries := manifest_entries st @ [e]\<rparr>) \<and>
     statement_recorded E r (bank, q, idx) (e, f)"
  using generate_bank_statement_eq [where E = E and bank = bank and st = st and r = r
      and quality = q and index = idx]
  by (fastforce simp: statement_recorded_def document_recorded_def json_keys_def json_get_def)


lemma generate_all_spec:
  assumes cat: "catalog \<noteq> []"
    and render: "\<And>c q idx st. \<exists>fname e f g'.
        render c q idx st =
          Inr (fname, st\<lparr>random_state := g', files := files st @ [f],
                         manifest_entries := manifest_entries st @ [e]\<rparr>) \<and>
        R (c, q, idx) (e, f)"
  shows "\<exists>es fs g'.
     generate_all render catalog sched (count, st) =
       Inr (count + int (length sched),
            st\<lparr>random_state := g', files := files st @ fs,
               manifest_entries := manifest_entries st @ es\<rparr>) \<and>
     length es = length fs \<and> list_all2 R (loop_calls catalog sched count) (zip es fs)"
proof (induction sched arbitrary: count st)
  case Nil
  have "generate_all render catalog [] (count, st) =
          Inr (count + int (length ([] :: (nat \<times> string) list)),
               st\<lparr>random_state := random_state st, files := files st @ [],
                  manifest_entries := manifest_entries st @ []\<rparr>)"
    by simp
  then show ?case
    by (intro exI [of _ "[]"] exI [of _ "random_state st"]) simp
next
  case (Cons a rest)
  obtain i q where a: "a = (i, q)" by (cases a)
  let ?c = "catalog ! (i mod length catalog)"
  obtain fname e f g1 where
    r: "render ?c q (count + 1) st =
          Inr (fname, st\<lparr>random_state := g1, files := files st @ [f],
                         manifest_entries := manifest_entries st @ [e]\<rparr>)"
    and R1: "R (?c, q, count + 1) (e, f)"
    using render [of ?c q "count + 1" st] by blast
  let ?st1 = "st\<lparr>random_state := g1, files := files st @ [f],
                 manifest_entries := manifest_entries st @ [e]\<rparr>"
  obtain es fs g' where
    ih: "generate_all render catalog rest (count + 1, ?st1) =
           Inr (count + 1 + int (length rest),
                ?st1\<lparr>random_state := g', files := files ?st1 @ fs,
                    manifest_entries := manifest_entries ?st1 @ es\<rparr>)"
    and len: "length es = length fs"
    and all: "list_all2 R (loop_calls catalog rest (count + 1)) (zip es fs)"
    using Cons.IH [of "count + 1" ?st1] by blast
  have "generate_all render catalog (a # rest) (count, st) =
          Inr (count + int (length (a # rest)),
               st\<lparr>random_state := g', files := files st @ (f # fs),
                  manifest_entries := manifest_entries st @ (e # es)\<rparr>)"
    using cat r ih by (simp add: a)
  moreover have "list_all2 R (loop_calls catalog (a # rest) count) (zip (e # es) (f # fs))"
    using R1 all by (simp add: a)
  ultimately show ?case
    using len by (intro exI [of _ "e # es"] exI [of _ "f # fs"] exI [of _ g']) simp
qed

lemma main_spec:
  "\<exists>es1 fs1 es2 fs2 es3 fs3 g'.
     main E (QUALITY_SETTINGS r) st =
       Inr (st\<lparr>random_state := g',
               dirs := dirs st @
                 map (\<lambda>subdir. os_path_join (OUTPUT_DIR E) [subdir])
                   [''receipts'', ''acknowledgment_letters'', ''bank_statements'',
                    ''credit_card_statements'', ''cancelled_checks'', ''appraisals'',
                    ''form_8283'', ''other''],
               files := files st @ fs1 @ fs2 @ fs3 @
                 [(MANIFEST_PATH E, JSON (JDict
                    [(''version'', JStr ''1.0.0''),
                     (''generatedBy'', JStr ''claude-synthetic''),
                     (''generatedAt'', JStr (utcnow_isoformat E @ ''Z'')),
                     (''totalDocuments'', JInt (int (length (es1 @ es2 @ es3)))),
                     (''documentCounts'', JDict
                        [(''receipts'', JInt 30),
                         (''acknowledgment_letters'', JInt 20),
                         (''bank_statements'', JInt 15)]),
                     (''documents'', JList (es1 @ es2 @ es3))]))],
               manifest_entries := es1 @ es2 @ es3\<rparr>) \<and>
     length es1 = length fs1 \<and> length es2 = length fs2 \<and> length es3 = length fs3 \<and>
     list_all2 (receipt_recorded E r)
       (loop_calls ORGANIZATIONS (enumerate 0 receipt_qualities) 0) (zip es1 fs1) \<and>
     list_all2 (letter_recorded E r)
       (loop_calls ORGANIZATIONS (enumerate 0 letter_qualities) 0) (zip es2 fs2) \<and>
     list_all2 (statement_recorded E r)
       (loop_calls BANKS (enumerate 0 statement_qualities) 0) (zip es3 fs3)"
proof -
  let ?ds = "map (\<lambda>subdir. os_path_join (OUTPUT_DIR E) [subdir])
                   [''receipts'', ''acknowledgment_letters'', ''bank_statements'',
                    ''credit_card_statements'', ''cancelled_checks'', ''appraisals'',
                    ''form_8283'', ''other'']"
  let ?st0 = "st\<lparr>dirs := dirs st @ ?ds, manifest_entries := []\<rparr>"
  have orgs: "ORGANIZATIONS \<noteq> []" by (simp add: ORGANIZATIONS_def)
  have banks: "BANKS \<noteq> []" by (simp add: BANKS_def)
  obtain es1 fs1 g1 where
    l1: "generate_all (generate_receipt E (QUALITY_SETTINGS r)) ORGANIZATIONS
           (enumerate 0 receipt_qualities) (0, ?st0) =
         Inr (0 + int (length (enumerate 0 receipt_qualities)),
              ?st0\<lparr>random_state := g1, files := files ?st0 @ fs1,
                   manifest_entries := manifest_entries ?st0 @ es1\<rparr>)"
    and n1: "length es1 = length fs1"
    and a1: "list_all2 (receipt_recorded E r)
       (loop_calls ORGANIZATIONS (enumerate 0 receipt_qualities) 0) (zip es1 fs1)"
    using generate_all_spec [of ORGANIZATIONS "generate_receipt E (QUALITY_SETTINGS r)"
        "receipt_recorded E r" "enumerate 0 receipt_qualities" 0 ?st0,
        OF orgs receipt_call_recorded]
    by blast
  let ?st1 = "?st0\<lparr>random_state := g1, files := files ?st0 @ fs1,
                   manifest_entries := manifest_entries ?st0 @ es1\<rparr>"
  obtain es2 fs2 g2 where
    l2: "generate_all (generate_acknowledgment_letter E (QUALITY_SETTINGS r)) ORGANIZATIONS
           (enumerate 0 letter_qualities) (0, ?st1) =
         Inr (0 + int (length (enumerate 0 letter_qualities)),
              ?st1\<lparr>random_state := g2, files := files ?st1 @ fs2,
                   manifest_entries := manifest_entries ?st1 @ es2\<rparr>)"
    and n2: "length es2 = length fs2"
    and a2: "list_all2 (letter_recorded E r)
       (loop_calls ORGANIZATIONS (enumerate 0 letter_qualities) 0) (zip es2 fs2)"
    using generate_all_spec [of ORGANIZATIONS "generate_acknowledgment_letter E (QUALITY_SETTINGS r)"
        "letter_recorded E r" "enumerate 0 letter_qualities" 0 ?st1,
        OF orgs letter_call_recorded]
    by blast
  let ?st2 = "?st1\<lparr>random_state := g2, files := files ?st1 @ fs2,
                   manifest_entries := manifest_entries ?st1 @ es2\<rparr>"
  obtain es3 fs3 g3 where
    l3: "generate_all (generate_bank_statement E (QUALITY_SETTINGS r)) BANKS
           (enumerate 0 statement_qualities) (0, ?st2) =
         Inr (0 + int (length (enumerate 0 statement_qualities)),
              ?st2\<lparr>random_state := g3, files := files ?st2 @ fs3,
                   manifest_entries := manifest_entries ?st2 @ es3\<rparr>)"
    and n3: "length es3 = length fs3"
    and a3: "list_all2 (statement_recorded E r)
       (loop_calls BANKS (enumerate 0 statement_qualities) 0) (zip es3 fs3)"
    using generate_all_spec [of BANKS "generate_bank_statement E (QUALITY_SETTINGS r)"
        "statement_recorded E r" "enumerate 0 statement_qualities" 0 ?st2,
        OF banks statement_call_recorded]
    by blast
  have c1: "int (length (enumerate 0 receipt_qualities)) = 30"
    by (simp add: receipt_qualities_def)
  have c2: "int (length (enumerate 0 letter_qualities)) = 20"
    by (simp add: letter_qualities_def)
  have c3: "int (length (enumerate 0 statement_qualities)) = 15"
    by (simp add: statement_qualities_def)
  have "main E (QUALITY_SETTINGS r) st =
       Inr (st\<lparr>random_state := g3,
               dirs := dirs st @ ?ds,
               files := files st @ fs1 @ fs2 @ fs3 @
                 [(MANIFEST_PATH E, JSON (JDict
                    [(''version'', JStr ''1.0.0''),
                     (''generatedBy'', JStr ''claude-synthetic''),
                     (''generatedAt'', JStr (utcnow_isoformat E @ ''Z'')),
                     (''totalDocuments'', JInt (int (length (es1 @ es2 @ es3)))),
                     (''documentCounts'', JDict
                        [(''receipts'', JInt 30),
                         (''acknowledgment_letters'', JInt 20),
                         (''bank_statements'', JInt 15)]),
                     (''documents'', JList (es1 @ es2 @ es3))]))],
               manifest_entries := es1 @ es2 @ es3\<rparr>)"
    using l1 l2 l3 c1 c2 c3 by (simp add: main_def Let_def)
  then show ?thesis using n1 n2 n3 a1 a2 a3 by blast
qed

lemma program_spec:
  "\<exists>r es1 fs1 es2 fs2 es3 fs3 g'.
     5 \<le> r \<and> r \<le> 15 \<and> r = 5 + g 0 mod 11 \<and>
     program E g =
       Inr \<lparr>random_state = g',
            dirs = map (\<lambda>subdir. os_path_join (OUTPUT_DIR E) [subdir])
                   [''receipts'', ''acknowledgment_letters'', ''bank_statements'',
                    ''credit_card_statements'', ''cancelled_checks'', ''appraisals'',
                    ''form_8283'', ''other''],
            files = fs1 @ fs2 @ fs3 @
                 [(MANIFEST_PATH E, JSON (JDict
                    [(''version'', JStr ''1.0.0''),
                     (''generatedBy'', JStr ''claude-synthetic''),
                     (''generatedAt'', JStr (utcnow_isoformat E @ ''Z'')),
                     (''totalDocuments'', JInt (int (length (es1 @ es2 @ es3)))),
                     (''documentCounts'', JDict
                        [(''receipts'', JInt 30),
                         (''acknowledgment_letters'', JInt 20),
                         (''bank_statements'', JInt 15)]),
                     (''documents'', JList (es1 @ es2 @ es3))]))],
            manifest_entries = es1 @ es2 @ es3\<rparr> \<and>
     length es1 = length fs1 \<and> length es2 = length fs2 \<and> length es3 = length fs3 \<and>
     list_all2 (receipt_recorded E r)
       (loop_calls ORGANIZATIONS (enumerate 0 receipt_qualities) 0) (zip es1 fs1) \<and>
     list_all2 (letter_recorded E r)
       (loop_calls ORGANIZATIONS (enumerate 0 letter_qualities) 0) (zip es2 fs2) \<and>
     list_all2 (statement_recorded E r)
       (loop_calls BANKS (enumerate 0 statement_qualities) 0) (zip es3 fs3)"
proof -
  obtain r where r: "module_load g = (QUALITY_SETTINGS r, (\<lambda>i. g (Suc i)))"
    and r5: "5 \<le> r" and r15: "r \<le> 15" and rg: "r = 5 + g 0 mod 11"
    using module_load_eq [of g] by blast
  show ?thesis
    using main_spec [of E r "\<lparr>random_state = (\<lambda>i. g (Suc i)), dirs = [], files = [],
                               manifest_entries = []\<rparr>"] r5 r15 rg
    unfolding program_def r by (simp only: prod.case state.simps append_Nil) blast
qed

section \<open>Ground truth and rendering agree\<close>

lemma draw_receipt_sampled:
  "case draw_receipt E org g of (img, (date, amount, receipt_num), g') \<Rightarrow>
     \<exists>num g1 g2. random_date g = (date, g1) \<and> random_amount 25 5000 g1 = (amount, g2) \<and>
        randint 10000 99999 g2 = (num, g') \<and>
        receipt_num = ''RCP-'' @ str_int (fst (ord2ymd date)) @ ''-'' @ str_int num"
  by (simp add: draw_receipt_def Let_def draw_defs split: prod.splits)

lemma draw_letter_sampled:
  "case draw_acknowledgment_letter E org g of (img, (date, amount, donation_date), g') \<Rightarrow>
     \<exists>days g1 g2. random_date g = (date, g1) \<and> random_amount 25 5000 g1 = (amount, g2) \<and>
        randint 1 14 g2 = (days, g') \<and> donation_date = date - days"
  by (simp add: draw_acknowledgment_letter_def Let_def draw_defs split: prod.splits)

lemma receipt_fields:
  "\<exists>img date amount receipt_num g'.
     generate_receipt E (QUALITY_SETTINGS r) org quality index st =
       Inr (''receipt_'' @ short org @ ''_'' @ quality @ ''_'' @ format_0d 3 index @ ''.png'',
         st\<lparr>random_state := g',
            files := files st @
              [(os_path_join (OUTPUT_DIR E)
                  [''receipts'',
                   ''receipt_'' @ short org @ ''_'' @ quality @ ''_'' @ format_0d 3 index @ ''.png''],
                PNG img)],
            manifest_entries := manifest_entries st @
              [JDict
                 [(''filename'', JStr (''receipts/'' @ ''receipt_'' @ short org @ ''_'' @ quality @
                     ''_'' @ format_0d 3 index @ ''.png'')),
                  (''documentType'', JStr ''receipt''),
                  (''quality'', JStr quality),
                  (''synthetic'', JBool True),
                  (''expectedFields'', JDict
                     [(''organization_name'', JStr (name org)),
                      (''ein'', JStr (ein org)),
                      (''amount'', JFloat amount),
                      (''date'', JStr (strftime date ''%Y-%m-%d'')),
                      (''donor_name'', JStr ''Test Donor''),
                      (''receipt_number'', JStr receipt_num)])]]\<rparr>) \<and>
     (\<exists>num g1 g2 g3.
        random_date (random_state st) = (date, g1) \<and> random_amount 25 5000 g1 = (amount, g2) \<and>
        randint 10000 99999 g2 = (num, g3) \<and>
        receipt_num = ''RCP-'' @ str_int (fst (ord2ymd date)) @ ''-'' @ str_int num) \<and>
     Text (300, 40) (name org) (Named ''black'') (get_font E 24 True) (Some ''mt'') \<in> set (ops img) \<and>
     Text (300, 70) (''EIN: '' @ ein org) (Named ''gray'') (get_font E 12 False) (Some ''mt'')
       \<in> set (ops img) \<and>
     Text (40, 180) (''Receipt Number: '' @ receipt_num) (Named ''black'') (get_font E 14 False) None
       \<in> set (ops img) \<and>
     Text (40, 210) (''Date: '' @ strftime date ''%B %d, %Y'') (Named ''black'') (get_font E 14 False)
       None \<in> set (ops img) \<and>
     Text (60, 290) ''Test Donor'' (Named ''black'') (get_font E 14 False) None \<in> set (ops img) \<and>
     Text (300, 425) (''$'' @ format_money amount) (Named ''black'') (get_font E 24 True) (Some ''mt'')
       \<in> set (ops img)"
proof -
  obtain canvas date amount receipt_num g where
    d: "draw_receipt E org (random_state st) = (canvas, (date, amount, receipt_num), g)"
    by (metis prod_cases3 surj_pair)
  note c = draw_receipt_texts [where E = E and org = org and g = "random_state st", unfolded d prod.case]
  have s: "\<exists>num g1 g2 g3.
        random_date (random_state st) = (date, g1) \<and> random_amount 25 5000 g1 = (amount, g2) \<and>
        randint 10000 99999 g2 = (num, g3) \<and>
        receipt_num = ''RCP-'' @ str_int (fst (ord2ymd date)) @ ''-'' @ str_int num"
    using draw_receipt_sampled [where E = E and org = org and g = "random_state st", unfolded d prod.case]
    by blast
  obtain img g' M where
    aq: "apply_quality E (QUALITY_SETTINGS r) (add_watermark E canvas) quality g = Inr (img, g')"
    and o: "ops img = ops canvas @
       [Text (width canvas div 4, height canvas div 2) ''SAMPLE - FOR TESTING ONLY''
          (RGBA 200 200 200 128) (get_font E 24 False) None] @ M"
    using post_processing [of E r canvas quality g] by blast
  have gen: "generate_receipt E (QUALITY_SETTINGS r) org quality index st =
       Inr (''receipt_'' @ short org @ ''_'' @ quality @ ''_'' @ format_0d 3 index @ ''.png'',
         st\<lparr>random_state := g',
            files := files st @
              [(os_path_join (OUTPUT_DIR E)
                  [''receipts'',
                   ''receipt_'' @ short org @ ''_'' @ quality @ ''_'' @ format_0d 3 index @ ''.png''],
                PNG img)],
            manifest_entries := manifest_entries st @
              [JDict
                 [(''filename'', JStr (''receipts/'' @ ''receipt_'' @ short org @ ''_'' @ quality @
                     ''_'' @ format_0d 3 index @ ''.png'')),
                  (''documentType'', JStr ''receipt''),
                  (''quality'', JStr quality),
                  (''synthetic'', JBool True),
                  (''expectedFields'', JDict
                     [(''organization_name'', JStr (name org)),
                      (''ein'', JStr (ein org)),
                      (''amount'', JFloat amount),
                      (''date'', JStr (strftime date ''%Y-%m-%d'')),
                      (''donor_name'', JStr ''Test Donor''),
                      (''receipt_number'', JStr receipt_num)])]]\<rparr>)"
    using aq by (simp add: d generate_receipt_def Let_def)
  show ?thesis
    apply (rule exI [of _ img], rule exI [of _ date], rule exI [of _ amount],
           rule exI [of _ receipt_num], rule exI [of _ g'])
    apply (intro conjI)
    subgoal by (rule gen)
    subgoal by (rule s)
    using c by (simp_all add: o)
qed

lemma letter_fields:
  "\<exists>img date amount donation_date g'.
     generate_acknowledgment_letter E (QUALITY_SETTINGS r) org quality index st =
       Inr (''acknowledgment_'' @ short org @ ''_'' @ quality @ ''_'' @ format_0d 3 index @ ''.png'',
         st\<lparr>random_state := g',
            files := files st @
              [(os_path_join (OUTPUT_DIR E)
                  [''acknowledgment_letters'',
                   ''acknowledgment_'' @ short org @ ''_'' @ quality @ ''_'' @ format_0d 3 index @
                     ''.png''],
                PNG img)],
            manifest_entries := manifest_entries st @
              [JDict
                 [(''filename'', JStr (''acknowledgment_letters/'' @ ''acknowledgment_'' @ short org @
                     ''_'' @ quality @ ''_'' @ format_0d 3 index @ ''.png'')),
                  (''documentType'', JStr ''acknowledgment_letter''),
                  (''quality'', JStr quality),
                  (''synthetic'', JBool True),
                  (''expectedFields'', JDict
                     [(''organization_name'', JStr (name org)),
                      (''ein'', JStr (ein org)),
                      (''amount'', JFloat amount),
                      (''date'', JStr (strftime donation_date ''%Y-%m-%d'')),
                      (''donor_name'', JStr ''Test Donor'')])]]\<rparr>) \<and>
     (\<exists>days g1 g2 g3.
        random_date (random_state st) = (date, g1) \<and> random_amount 25 5000 g1 = (amount, g2) \<and>
        randint 1 14 g2 = (days, g3) \<and> donation_date = date - days) \<and>
     date - 14 \<le> donation_date \<and> donation_date \<le> date - 1 \<and>
     Text (40, 140) (strftime date ''%B %d, %Y'') (Named ''black'') (get_font E 12 False) None
       \<in> set (ops img) \<and>
     list_all (\<lambda>x. x \<in> set (ops img))
       (text_lines 40 295 (Named ''black'') (get_font E 12 False)
          (textwrap_wrap
             (''Thank you for your generous donation of $'' @ format_money amount @
              '' received on '' @ strftime donation_date ''%B %d, %Y'' @
              ''. Your support helps us continue our mission to serve the community.'') 70)) \<and>
     (\<exists>y. Text (50, y + 35) (''Amount: $'' @ format_money amount) (Named ''black'')
            (get_font E 12 False) None \<in> set (ops img) \<and>
          Text (50, y + 55) (''Date Received: '' @ strftime donation_date ''%Y-%m-%d'')
            (Named ''black'') (get_font E 12 False) None \<in> set (ops img))"
proof -
  obtain canvas date amount donation_date g where
    d: "draw_acknowledgment_letter E org (random_state st) =
          (canvas, (date, amount, donation_date), g)"
    by (metis prod_cases3 surj_pair)
  note c = draw_letter_texts [where E = E and org = org and g = "random_state st", unfolded d prod.case]
  have s: "\<exists>days g1 g2 g3.
        random_date (random_state st) = (date, g1) \<and> random_amount 25 5000 g1 = (amount, g2) \<and>
        randint 1 14 g2 = (days, g3) \<and> donation_date = date - days"
    using draw_letter_sampled [where E = E and org = org and g = "random_state st", unfolded d prod.case]
    by blast
  obtain img g' M where
    aq: "apply_quality E (QUALITY_SETTINGS r) (add_watermark E canvas) quality g = Inr (img, g')"
    and o: "ops img = ops canvas @
       [Text (width canvas div 4, height canvas div 2) ''SAMPLE - FOR TESTING ONLY''
          (RGBA 200 200 200 128) (get_font E 24 False) None] @ M"
    using post_processing [of E r canvas quality g] by blast
  have gen: "generate_acknowledgment_letter E (QUALITY_SETTINGS r) org quality index st =
       Inr (''acknowledgment_'' @ short org @ ''_'' @ quality @ ''_'' @ format_0d 3 index @ ''.png'',
         st\<lparr>random_state := g',
            files := files st @
              [(os_path_join (OUTPUT_DIR E)
                  [''acknowledgment_letters'',
                   ''acknowledgment_'' @ short org @ ''_'' @ quality @ ''_'' @ format_0d 3 index @
                     ''.png''],
                PNG img)],
            manifest_entries := manifest_entries st @
              [JDict
                 [(''filename'', JStr (''acknowledgment_letters/'' @ ''acknowledgment_'' @ short org @
                     ''_'' @ quality @ ''_'' @ format_0d 3 index @ ''.png'')),
                  (''documentType'', JStr ''acknowledgment_letter''),
                  (''quality'', JStr quality),
                  (''synthetic'', JBool True),
                  (''expectedFields'', JDict
                     [(''organization_name'', JStr (name org)),
                      (''ein'', JStr (ein org)),
                      (''amount'', JFloat amount),
                      (''date'', JStr (strftime donation_date ''%Y-%m-%d'')),
                      (''donor_name'', JStr ''Test Donor'')])]]\<rparr>)"
    using aq by (simp add: d generate_acknowledgment_letter_def Let_def)
  let ?y = "350 + 20 * int (length (textwrap_wrap (letter_body amount donation_date) 70)) +
                 20 * int (length (textwrap_wrap letter_tax_text 70))"
  have body: "letter_body amount donation_date =
      ''Thank you for your generous donation of $'' @ format_money amount @
      '' received on '' @ strftime donation_date ''%B %d, %Y'' @
      ''. Your support helps us continue our mission to serve the community.''"
    by (simp add: letter_body_def)
  have box: "Text (50, ?y + 35) (''Amount: $'' @ format_money amount) (Named ''black'')
            (get_font E 12 False) None \<in> set (ops img) \<and>
          Text (50, ?y + 55) (''Date Received: '' @ strftime donation_date ''%Y-%m-%d'')
            (Named ''black'') (get_font E 12 False) None \<in> set (ops img)"
    using c by (simp add: o add.assoc)
  have lines: "list_all (\<lambda>x. x \<in> set (ops img))
       (text_lines 40 295 (Named ''black'') (get_font E 12 False)
          (textwrap_wrap (letter_body amount donation_date) 70))"
    using c by (simp add: o list_all_iff)
  show ?thesis
    apply (rule exI [of _ img], rule exI [of _ date], rule exI [of _ amount],
           rule exI [of _ donation_date], rule exI [of _ g'])
    apply (intro conjI)
    subgoal using gen by simp
    subgoal by (rule s)
    subgoal using c by simp
    subgoal using c by simp
    subgoal using c by (simp add: o)
    subgoal using lines by (simp only: body)
    subgoal using box by blast
    done
qed


lemma statement_fields:
  "\<exists>img acct_num start_date txns pre post M g'.
     generate_bank_statement E (QUALITY_SETTINGS r) bank quality index st =
       Inr (''bank_statement_'' @ bank_short bank @ ''_'' @ quality @ ''_'' @ format_0d 3 index @
              ''.png'',
         st\<lparr>random_state := g',
            files := files st @
              [(os_path_join (OUTPUT_DIR E)
                  [''bank_statements'',
                   ''bank_statement_'' @ bank_short bank @ ''_'' @ quality @ ''_'' @
                     format_0d 3 index @ ''.png''],
                PNG img)],
            manifest_entries := manifest_entries st @
              [JDict
                 [(''filename'', JStr (''bank_statements/'' @ ''bank_statement_'' @ bank_short bank @
                     ''_'' @ quality @ ''_'' @ format_0d 3 index @ ''.png'')),
                  (''documentType'', JStr ''bank_statement''),
                  (''quality'', JStr quality),
                  (''synthetic'', JBool True),
                  (''expectedFields'', JDict
                     [(''bank_name'', JStr (bank_name bank)),
                      (''account_number'', JStr acct_num),
                      (''statement_period_start'', JStr (strftime start_date ''%Y-%m-%d'')),
                      (''statement_period_end'', JStr (strftime (start_date + 30) ''%Y-%m-%d'')),
                      (''charitable_transactions'',
                         JList (map charitable_entry (filter txn_charitable txns)))])]]\<rparr>) \<and>
     (\<exists>num g1 g2 g3.
        randint 1000 9999 (random_state st) = (num, g1) \<and> acct_num = ''***'' @ str_int num \<and>
        random_date g1 = (start_date, g2) \<and> statement_transactions start_date g2 = (txns, g3)) \<and>
     ops img = pre @ txn_rows (get_font E 11 False) 190 txns @ post @ M \<and>
     length pre = 12 \<and> length post = 3 \<and> list_all is_degradation_op M \<and>
     list_all (\<lambda>t. txn_org t \<noteq> None) (filter txn_charitable txns) \<and>
     list_all (\<lambda>t. txn_charitable t = (take 9 (txn_desc t) = ''DONATION '')) txns \<and>
     list_all (\<lambda>t. length (txn_desc t) \<le> 35) txns \<and>
     list_all (\<lambda>t. \<exists>org. org \<in> set ORGANIZATIONS \<and> txn_org t = Some org \<and>
                  txn_desc t = ''DONATION '' @ upper (take 20 (name org)))
       (filter txn_charitable txns) \<and>
     2 \<le> length (filter txn_charitable txns) \<and> length (filter txn_charitable txns) \<le> 3 \<and>
     Text (30, 25) (bank_name bank) (Named ''white'') (get_font E 22 True) None \<in> set pre \<and>
     Text (30, 100) (''Account: '' @ acct_num) (Named ''black'') (get_font E 11 False) None
       \<in> set pre \<and>
     Text (400, 120)
       (strftime start_date ''%m/%d/%Y'' @ '' - '' @ strftime (start_date + 30) ''%m/%d/%Y'')
       (Named ''black'') (get_font E 10 False) None \<in> set pre"
proof -
  obtain canvas acct_num start_date txns g pre post where
    d: "draw_bank_statement E bank (random_state st) =
          Inr (canvas, (acct_num, start_date, start_date + 30,
                        map charitable_entry (filter txn_charitable txns)), g)"
    and sampled: "\<exists>num g1 g2.
        randint 1000 9999 (random_state st) = (num, g1) \<and> acct_num = ''***'' @ str_int num \<and>
        random_date g1 = (start_date, g2) \<and> statement_transactions start_date g2 = (txns, g)"
    and oc: "ops canvas = pre @ txn_rows (get_font E 11 False) 190 txns @ post"
    and lp: "length pre = 12" and lq: "length post = 2"
    and org: "list_all (\<lambda>t. txn_org t \<noteq> None) (filter txn_charitable txns)"
    and flag: "list_all (\<lambda>t. txn_charitable t = (take 9 (txn_desc t) = ''DONATION '')) txns"
    and short: "list_all (\<lambda>t. length (txn_desc t) \<le> 35) txns"
    and donors: "list_all (\<lambda>t. \<exists>org. org \<in> set ORGANIZATIONS \<and> txn_org t = Some org \<and>
                  txn_desc t = ''DONATION '' @ upper (take 20 (name org)))
       (filter txn_charitable txns)"
    and cnt: "2 \<le> length (filter txn_charitable txns)" "length (filter txn_charitable txns) \<le> 3"
    and t1: "Text (30, 25) (bank_name bank) (Named ''white'') (get_font E 22 True) None \<in> set pre"
    and t2: "Text (30, 100) (''Account: '' @ acct_num) (Named ''black'') (get_font E 11 False) None
       \<in> set pre"
    and t3: "Text (400, 120)
       (strftime start_date ''%m/%d/%Y'' @ '' - '' @ strftime (start_date + 30) ''%m/%d/%Y'')
       (Named ''black'') (get_font E 10 False) None \<in> set pre"
    using draw_bank_statement_eq [of E bank "random_state st"] by blast
  obtain img g' M where
    aq: "apply_quality E (QUALITY_SETTINGS r) (add_watermark E canvas) quality g = Inr (img, g')"
    and o: "ops img = ops canvas @
       [Text (width canvas div 4, height canvas div 2) ''SAMPLE - FOR TESTING ONLY''
          (RGBA 200 200 200 128) (get_font E 24 False) None] @ M"
    and m: "list_all is_degradation_op M"
    using post_processing [of E r canvas quality g] by blast
  let ?post = "post @ [Text (width canvas div 4, height canvas div 2) ''SAMPLE - FOR TESTING ONLY''
          (RGBA 200 200 200 128) (get_font E 24 False) None]"
  have gen: "generate_bank_statement E (QUALITY_SETTINGS r) bank quality index st =
       Inr (''bank_statement_'' @ bank_short bank @ ''_'' @ quality @ ''_'' @ format_0d 3 index @
              ''.png'',
         st\<lparr>random_state := g',
            files := files st @
              [(os_path_join (OUTPUT_DIR E)
                  [''bank_statements'',
                   ''bank_statement_'' @ bank_short bank @ ''_'' @ quality @ ''_'' @
                     format_0d 3 index @ ''.png''],
                PNG img)],
            manifest_entries := manifest_entries st @
              [JDict
                 [(''filename'', JStr (''bank_statements/'' @ ''bank_statement_'' @ bank_short bank @
                     ''_'' @ quality @ ''_'' @ format_0d 3 index @ ''.png'')),
                  (''documentType'', JStr ''bank_statement''),
                  (''quality'', JStr quality),
                  (''synthetic'', JBool True),
                  (''expectedFields'', JDict
                     [(''bank_name'', JStr (bank_name bank)),
                      (''account_number'', JStr acct_num),
                      (''statement_period_start'', JStr (strftime start_date ''%Y-%m-%d'')),
                      (''statement_period_end'', JStr (strftime (start_date + 30) ''%Y-%m-%d'')),
                      (''charitable_transactions'',
                         JList (map charitable_entry (filter txn_charitable txns)))])]]\<rparr>)"
    using aq d by (simp add: generate_bank_statement_def Let_def)
  have o': "ops img = pre @ txn_rows (get_font E 11 False) 190 txns @ ?post @ M"
    by (simp add: o oc)
  have lq': "length ?post = 3" using lq by simp
  show ?thesis
    apply (rule exI [of _ img], rule exI [of _ acct_num], rule exI [of _ start_date],
           rule exI [of _ txns], rule exI [of _ pre], rule exI [of _ ?post], rule exI [of _ M],
           rule exI [of _ g'])
    apply (intro conjI)
    subgoal by (rule gen)
    subgoal using sampled by blast
    subgoal by (rule o')
    subgoal by (rule lp)
    subgoal by (rule lq')
    subgoal by (rule m)
    subgoal by (rule org)
    subgoal by (rule flag)
    subgoal by (rule short)
    subgoal by (rule donors)
    subgoal by (rule cnt)
    subgoal by (rule cnt)
    subgoal by (rule t1)
    subgoal by (rule t2)
    subgoal by (rule t3)
    done
qed

lemma draws_advance:
  "snd (randint a b g) = (\<lambda>i. g (Suc i))"
  "snd (random_date g) = (\<lambda>i. g (Suc i))"
  "snd (random_amount x y g) = (\<lambda>i. g (Suc i))"
  by (simp_all add: randint_def randbelow_def random_date_def random_amount_def uniform_def
      random_def Let_def)

lemma first_draws:
  "fst (random_date (\<lambda>i. 0)) = 739252"
  "fst (random_amount 25 5000 (\<lambda>i. 0)) = 25"
  "fst (randint 10000 99999 (\<lambda>i. 0)) = 10000"
  by code_simp+

lemma first_strings:
  "strftime 739252 ''%Y-%m-%d'' = ''2025-01-01''"
  "strftime 739252 ''%B %d, %Y'' = ''January 01, 2025''"
  "format_money 25 = ''25.00''"
  "str_int (fst (ord2ymd 739252)) = ''2025''"
  "str_int 10000 = ''10000''"
  "format_0d 3 1 = ''001''"
  by code_simp+

text \<open>
  Claim C1. Each of the three renderers succeeds and appends exactly one record
  to \<^verbatim>\<open>manifest_entries\<close> (and writes exactly one image), and the
  \<^verbatim>\<open>expectedFields\<close> of that record are the values drawn on the saved image.
  The values are those the renderer samples from the generator of the state it
  is called in, in the order of the source. For a receipt they are the
  organization name, the EIN, the receipt number, the date, the donor name and
  the amount. For an acknowledgment letter they are the amount and the donation
  date of the body and of the details box, a date one to fourteen days before the
  letterhead date. For a bank statement they are the bank name, the account
  number and the statement period, and \<^verbatim>\<open>charitable_transactions\<close> has one entry,
  in the order of the rows, for each charitable transaction among the rows drawn
  and for no other row: the rows drawn are those of all the transactions
  sampled, at most eight, each with its whole description; the charitable ones,
  two or three of them, are exactly the rows whose description starts with
  \<^verbatim>\<open>DONATION\<close>, followed by the name in capitals (its first 20 characters) of
  the organization entered; the entry has the organization's name, the absolute
  value of the amount of the row and the date of the row.
\<close>

theorem expected_fields_are_rendered:
  "(\<exists>img date amount receipt_num g'.
       generate_receipt E (QUALITY_SETTINGS r) org quality index st =
         Inr (''receipt_'' @ short org @ ''_'' @ quality @ ''_'' @ format_0d 3 index @ ''.png'',
           st\<lparr>random_state := g',
              files := files st @
                [(os_path_join (OUTPUT_DIR E)
                    [''receipts'',
                     ''receipt_'' @ short org @ ''_'' @ quality @ ''_'' @ format_0d 3 index @ ''.png''],
                  PNG img)],
              manifest_entries := manifest_entries st @
                [JDict
                   [(''filename'', JStr (''receipts/'' @ ''receipt_'' @ short org @ ''_'' @ quality @
                       ''_'' @ format_0d 3 index @ ''.png'')),
                    (''documentType'', JStr ''receipt''),
                    (''quality'', JStr quality),
                    (''synthetic'', JBool True),
                    (''expectedFields'', JDict
                       [(''organization_name'', JStr (name org)),
                        (''ein'', JStr (ein org)),
                        (''amount'', JFloat amount),
                        (''date'', JStr (strftime date ''%Y-%m-%d'')),
                        (''donor_name'', JStr ''Test Donor''),
                        (''receipt_number'', JStr receipt_num)])]]\<rparr>) \<and>
       (\<exists>num g1 g2 g3.
          random_date (random_state st) = (date, g1) \<and> random_amount 25 5000 g1 = (amount, g2) \<and>
          randint 10000 99999 g2 = (num, g3) \<and>
          receipt_num = ''RCP-'' @ str_int (fst (ord2ymd date)) @ ''-'' @ str_int num) \<and>
       Text (300, 40) (name org) (Named ''black'') (get_font E 24 True) (Some ''mt'') \<in> set (ops img) \<and>
       Text (300, 70) (''EIN: '' @ ein org) (Named ''gray'') (get_font E 12 False) (Some ''mt'')
         \<in> set (ops img) \<and>
       Text (40, 180) (''Receipt Number: '' @ receipt_num) (Named ''black'') (get_font E 14 False) None
         \<in> set (ops img) \<and>
       Text (40, 210) (''Date: '' @ strftime date ''%B %d, %Y'') (Named ''black'') (get_font E 14 False)
         None \<in> set (ops img) \<and>
       Text (60, 290) ''Test Donor'' (Named ''black'') (get_font E 14 False) None \<in> set (ops img) \<and>
       Text (300, 425) (''$'' @ format_money amount) (Named ''black'') (get_font E 24 True) (Some ''mt'')
         \<in> set (ops img)) \<and>
   (\<exists>img date amount donation_date g'.
       generate_acknowledgment_letter E (QUALITY_SETTINGS r) org quality index st =
         Inr (''acknowledgment_'' @ short org @ ''_'' @ quality @ ''_'' @ format_0d 3 index @ ''.png'',
           st\<lparr>random_state := g',
              files := files st @
                [(os_path_join (OUTPUT_DIR E)
                    [''acknowledgment_letters'',
                     ''acknowledgment_'' @ short org @ ''_'' @ quality @ ''_'' @ format_0d 3 index @
                       ''.png''],
                  PNG img)],
              manifest_entries := manifest_entries st @
                [JDict
                   [(''filename'', JStr (''acknowledgment_letters/'' @ ''acknowledgment_'' @ short org @
                       ''_'' @ quality @ ''_'' @ format_0d 3 index @ ''.png'')),
                    (''documentType'', JStr ''acknowledgment_letter''),
                    (''quality'', JStr quality),
                    (''synthetic'', JBool True),
                    (''expectedFields'', JDict
                       [(''organization_name'', JStr (name org)),
                        (''ein'', JStr (ein org)),
                        (''amount'', JFloat amount),
                        (''date'', JStr (strftime donation_date ''%Y-%m-%d'')),
                        (''donor_name'', JStr ''Test Donor'')])]]\<rparr>) \<and>
       (\<exists>days g1 g2 g3.
          random_date (random_state st) = (date, g1) \<and> random_amount 25 5000 g1 = (amount, g2) \<and>
          randint 1 14 g2 = (days, g3) \<and> donation_date = date - days) \<and>
       date - 14 \<le> donation_date \<and> donation_date \<le> date - 1 \<and>
       Text (40, 140) (strftime date ''%B %d, %Y'') (Named ''black'') (get_font E 12 False) None
         \<in> set (ops img) \<and>
       list_all (\<lambda>x. x \<in> set (ops img))
         (text_lines 40 295 (Named ''black'') (get_font E 12 False)
            (textwrap_wrap
               (''Thank you for your generous donation of $'' @ format_money amount @
                '' received on '' @ strftime donation_date ''%B %d, %Y'' @
                ''. Your support helps us continue our mission to serve the community.'') 70)) \<and>
       (\<exists>y. Text (50, y + 35) (''Amount: $'' @ format_money amount) (Named ''black'')
              (get_font E 12 False) None \<in> set (ops img) \<and>
            Text (50, y + 55) (''Date Received: '' @ strftime donation_date ''%Y-%m-%d'')
              (Named ''black'') (get_font E 12 False) None \<in> set (ops img))) \<and>
   (\<exists>img acct_num start_date txns pre post M g'.
       generate_bank_statement E (QUALITY_SETTINGS r) bank quality index st =
         Inr (''bank_statement_'' @ bank_short bank @ ''_'' @ quality @ ''_'' @ format_0d 3 index @
                ''.png'',
           st\<lparr>random_state := g',
              files := files st @
                [(os_path_join (OUTPUT_DIR E)
                    [''bank_statements'',
                     ''bank_statement_'' @ bank_short bank @ ''_'' @ quality @ ''_'' @
                       format_0d 3 index @ ''.png''],
                  PNG img)],
              manifest_entries := manifest_entries st @
                [JDict
                   [(''filename'', JStr (''bank_statements/'' @ ''bank_statement_'' @ bank_short bank @
                       ''_'' @ quality @ ''_'' @ format_0d 3 index @ ''.png'')),
                    (''documentType'', JStr ''bank_statement''),
                    (''quality'', JStr quality),
                    (''synthetic'', JBool True),
                    (''expectedFields'', JDict
                       [(''bank_name'', JStr (bank_name bank)),
                        (''account_number'', JStr acct_num),
                        (''statement_period_start'', JStr (strftime start_date ''%Y-%m-%d'')),
                        (''statement_period_end'', JStr (strftime (start_date + 30) ''%Y-%m-%d'')),
                        (''charitable_transactions'',
                           JList (map charitable_entry (filter txn_charitable txns)))])]]\<rparr>) \<and>
       (\<exists>num g1 g2 g3.
          randint 1000 9999 (random_state st) = (num, g1) \<and> acct_num = ''***'' @ str_int num \<and>
          random_date g1 = (start_date, g2) \<and> statement_transactions start_date g2 = (txns, g3)) \<and>
       ops img = pre @ txn_rows (get_font E 11 False) 190 txns @ post @ M \<and>
       length pre = 12 \<and> length post = 3 \<and> list_all is_degradation_op M \<and>
       list_all (\<lambda>t. txn_org t \<noteq> None) (filter txn_charitable txns) \<and>
       list_all (\<lambda>t. txn_charitable t = (take 9 (txn_desc t) = ''DONATION '')) txns \<and>
       list_all (\<lambda>t. length (txn_desc t) \<le> 35) txns \<and>
       list_all (\<lambda>t. \<exists>org. org \<in> set ORGANIZATIONS \<and> txn_org t = Some org \<and>
                    txn_desc t = ''DONATION '' @ upper (take 20 (name org)))
         (filter txn_charitable txns) \<and>
       2 \<le> length (filter txn_charitable txns) \<and> length (filter txn_charitable txns) \<le> 3 \<and>
       Text (30, 25) (bank_name bank) (Named ''white'') (get_font E 22 True) None \<in> set pre \<and>
       Text (30, 100) (''Account: '' @ acct_num) (Named ''black'') (get_font E 11 False) None
         \<in> set pre \<and>
       Text (400, 120)
         (strftime start_date ''%m/%d/%Y'' @ '' - '' @ strftime (start_date + 30) ''%m/%d/%Y'')
         (Named ''black'') (get_font E 10 False) None \<in> set pre)"
proof -
  note receipt = receipt_fields [of E r org quality index st]
  note letter = letter_fields [of E r org quality index st]
  note statement = statement_fields [of E r bank quality index st]
  from receipt letter statement show ?thesis by (intro conjI)
qed

text \<open>
  The first receipt of the catalog, of quality \<^verbatim>\<open>"high"\<close>, with a generator whose
  every draw is 0: the record and the canvas both carry 1 January 2025, 25.00 and
  the receipt number RCP-2025-10000.
\<close>

theorem expected_fields_are_rendered_witness:
  "\<exists>img g'.
     generate_receipt
       \<lparr>img_load = (\<lambda>_ _ _. (255, 255, 255)), rotated_size = (\<lambda>_ s. s), dejavu_installed = True,
        base_dir = ''/repo'', utcnow_isoformat = ''2026-01-29T12:00:00''\<rparr>
       (QUALITY_SETTINGS 5)
       \<lparr>name = ''Goodwill Industries'', ein = ''53-0196517'', short = ''goodwill''\<rparr> ''high'' 1
       \<lparr>random_state = (\<lambda>i. 0), dirs = [], files = [], manifest_entries = []\<rparr> =
     Inr (''receipt_goodwill_high_001.png'',
       \<lparr>random_state = g', dirs = [],
        files = [(''/repo/documents/receipts/receipt_goodwill_high_001.png'', PNG img)],
        manifest_entries =
          [JDict
             [(''filename'', JStr ''receipts/receipt_goodwill_high_001.png''),
              (''documentType'', JStr ''receipt''),
              (''quality'', JStr ''high''),
              (''synthetic'', JBool True),
              (''expectedFields'', JDict
                 [(''organization_name'', JStr ''Goodwill Industries''),
                  (''ein'', JStr ''53-0196517''),
                  (''amount'', JFloat 25),
                  (''date'', JStr ''2025-01-01''),
                  (''donor_name'', JStr ''Test Donor''),
                  (''receipt_number'', JStr ''RCP-2025-10000'')])]]\<rparr>) \<and>
     Text (300, 40) ''Goodwill Industries'' (Named ''black'')
       (TrueType ''/usr/share/fonts/truetype/dejavu/DejaVuSans-Bold.ttf'' 24) (Some ''mt'')
       \<in> set (ops img) \<and>
     Text (40, 180) ''Receipt Number: RCP-2025-10000'' (Named ''black'')
       (TrueType ''/usr/share/fonts/truetype/dejavu/DejaVuSans.ttf'' 14) None \<in> set (ops img) \<and>
     Text (40, 210) ''Date: January 01, 2025'' (Named ''black'')
       (TrueType ''/usr/share/fonts/truetype/dejavu/DejaVuSans.ttf'' 14) None \<in> set (ops img) \<and>
     Text (300, 425) ''$25.00'' (Named ''black'')
       (TrueType ''/usr/share/fonts/truetype/dejavu/DejaVuSans-Bold.ttf'' 24) (Some ''mt'')
       \<in> set (ops img)"
proof -
  let ?E = "\<lparr>img_load = (\<lambda>_ _ _. (255, 255, 255)), rotated_size = (\<lambda>_ s. s),
             dejavu_installed = True, base_dir = ''/repo'',
             utcnow_isoformat = ''2026-01-29T12:00:00''\<rparr>"
  let ?org = "\<lparr>name = ''Goodwill Industries'', ein = ''53-0196517'', short = ''goodwill''\<rparr>"
  let ?st = "\<lparr>random_state = (\<lambda>i. 0), dirs = [], files = [], manifest_entries = []\<rparr>"
  let ?bank = "\<lparr>bank_name = ''Chase Bank'', bank_short = ''chase''\<rparr>"
  have "\<exists>img date amount receipt_num g'.
     generate_receipt ?E (QUALITY_SETTINGS 5) ?org ''high'' 1 ?st =
       Inr (''receipt_'' @ short ?org @ ''_'' @ ''high'' @ ''_'' @ format_0d 3 1 @ ''.png'',
         ?st\<lparr>random_state := g',
            files := files ?st @
              [(os_path_join (OUTPUT_DIR ?E)
                  [''receipts'',
                   ''receipt_'' @ short ?org @ ''_'' @ ''high'' @ ''_'' @ format_0d 3 1 @ ''.png''],
                PNG img)],
            manifest_entries := manifest_entries ?st @
              [JDict
                 [(''filename'', JStr (''receipts/'' @ ''receipt_'' @ short ?org @ ''_'' @ ''high'' @
                     ''_'' @ format_0d 3 1 @ ''.png'')),
                  (''documentType'', JStr ''receipt''),
                  (''quality'', JStr ''high''),
                  (''synthetic'', JBool True),
                  (''expectedFields'', JDict
                     [(''organization_name'', JStr (name ?org)),
                      (''ein'', JStr (ein ?org)),
                      (''amount'', JFloat amount),
                      (''date'', JStr (strftime date ''%Y-%m-%d'')),
                      (''donor_name'', JStr ''Test Donor''),
                      (''receipt_number'', JStr receipt_num)])]]\<rparr>) \<and>
     (\<exists>num g1 g2 g3.
        random_date (random_state ?st) = (date, g1) \<and> random_amount 25 5000 g1 = (amount, g2) \<and>
        randint 10000 99999 g2 = (num, g3) \<and>
        receipt_num = ''RCP-'' @ str_int (fst (ord2ymd date)) @ ''-'' @ str_int num) \<and>
     Text (300, 40) (name ?org) (Named ''black'') (get_font ?E 24 True) (Some ''mt'') \<in> set (ops img) \<and>
     Text (300, 70) (''EIN: '' @ ein ?org) (Named ''gray'') (get_font ?E 12 False) (Some ''mt'')
       \<in> set (ops img) \<and>
     Text (40, 180) (''Receipt Number: '' @ receipt_num) (Named ''black'') (get_font ?E 14 False) None
       \<in> set (ops img) \<and>
     Text (40, 210) (''Date: '' @ strftime date ''%B %d, %Y'') (Named ''black'') (get_font ?E 14 False)
       None \<in> set (ops img) \<and>
     Text (60, 290) ''Test Donor'' (Named ''black'') (get_font ?E 14 False) None \<in> set (ops img) \<and>
     Text (300, 425) (''$'' @ format_money amount) (Named ''black'') (get_font ?E 24 True) (Some ''mt'')
       \<in> set (ops img)"
    using expected_fields_are_rendered [of ?E 5 ?org "''high''" 1 ?st ?bank] by (rule conjunct1)
  then obtain img date amount receipt_num g' num g1 g2 g3 where
    gen: "generate_receipt ?E (QUALITY_SETTINGS 5) ?org ''high'' 1 ?st =
       Inr (''receipt_'' @ short ?org @ ''_'' @ ''high'' @ ''_'' @ format_0d 3 1 @ ''.png'',
         ?st\<lparr>random_state := g',
            files := files ?st @
              [(os_path_join (OUTPUT_DIR ?E)
                  [''receipts'',
                   ''receipt_'' @ short ?org @ ''_'' @ ''high'' @ ''_'' @ format_0d 3 1 @ ''.png''],
                PNG img)],
            manifest_entries := manifest_entries ?st @
              [JDict
                 [(''filename'', JStr (''receipts/'' @ ''receipt_'' @ short ?org @ ''_'' @ ''high'' @
                     ''_'' @ format_0d 3 1 @ ''.png'')),
                  (''documentType'', JStr ''receipt''),
                  (''quality'', JStr ''high''),
                  (''synthetic'', JBool True),
                  (''expectedFields'', JDict
                     [(''organization_name'', JStr (name ?org)),
                      (''ein'', JStr (ein ?org)),
                      (''amount'', JFloat amount),
                      (''date'', JStr (strftime date ''%Y-%m-%d'')),
                      (''donor_name'', JStr ''Test Donor''),
                      (''receipt_number'', JStr receipt_num)])]]\<rparr>)"
    and d1: "random_date (random_state ?st) = (date, g1)"
    and d2: "random_amount 25 5000 g1 = (amount, g2)"
    and d3: "randint 10000 99999 g2 = (num, g3)"
    and rn: "receipt_num = ''RCP-'' @ str_int (fst (ord2ymd date)) @ ''-'' @ str_int num"
    and t1: "Text (300, 40) (name ?org) (Named ''black'') (get_font ?E 24 True) (Some ''mt'')
       \<in> set (ops img)"
    and t3: "Text (40, 180) (''Receipt Number: '' @ receipt_num) (Named ''black'')
       (get_font ?E 14 False) None \<in> set (ops img)"
    and t4: "Text (40, 210) (''Date: '' @ strftime date ''%B %d, %Y'') (Named ''black'')
       (get_font ?E 14 False) None \<in> set (ops img)"
    and t6: "Text (300, 425) (''$'' @ format_money amount) (Named ''black'') (get_font ?E 24 True)
       (Some ''mt'') \<in> set (ops img)"
    by blast
  have date: "date = 739252" and g1: "g1 = (\<lambda>i. 0)"
    using d1 first_draws(1) draws_advance(2) [of "\<lambda>i. 0"] by (simp_all add: prod_eq_iff)
  have amount: "amount = 25" and g2: "g2 = (\<lambda>i. 0)"
    using d2 first_draws(2) draws_advance(3) [of 25 5000 "\<lambda>i. 0"] unfolding g1
    by (simp_all add: prod_eq_iff)
  have num: "num = 10000"
    using d3 first_draws(3) unfolding g2 by (simp add: prod_eq_iff)
  have rn': "receipt_num = ''RCP-2025-10000''"
    unfolding rn date num first_strings by simp
  have path: "os_path_join (OUTPUT_DIR ?E) [''receipts'', ''receipt_goodwill_high_001.png''] =
      ''/repo/documents/receipts/receipt_goodwill_high_001.png''"
    by (simp add: OUTPUT_DIR_def os_path_join_def join2_def)
  have fonts: "get_font ?E 24 True = TrueType ''/usr/share/fonts/truetype/dejavu/DejaVuSans-Bold.ttf'' 24"
    "get_font ?E 14 False = TrueType ''/usr/share/fonts/truetype/dejavu/DejaVuSans.ttf'' 14"
    by (simp_all add: get_font_def)
  have gen': "generate_receipt ?E (QUALITY_SETTINGS 5) ?org ''high'' 1 ?st =
     Inr (''receipt_goodwill_high_001.png'',
       \<lparr>random_state = g', dirs = [],
        files = [(''/repo/documents/receipts/receipt_goodwill_high_001.png'', PNG img)],
        manifest_entries =
          [JDict
             [(''filename'', JStr ''receipts/receipt_goodwill_high_001.png''),
              (''documentType'', JStr ''receipt''),
              (''quality'', JStr ''high''),
              (''synthetic'', JBool True),
              (''expectedFields'', JDict
                 [(''organization_name'', JStr ''Goodwill Industries''),
                  (''ein'', JStr ''53-0196517''),
                  (''amount'', JFloat 25),
                  (''date'', JStr ''2025-01-01''),
                  (''donor_name'', JStr ''Test Donor''),
                  (''receipt_number'', JStr ''RCP-2025-10000'')])]]\<rparr>)"
    using path unfolding gen rn' date amount first_strings by simp
  have t1': "Text (300, 40) ''Goodwill Industries'' (Named ''black'')
       (TrueType ''/usr/share/fonts/truetype/dejavu/DejaVuSans-Bold.ttf'' 24) (Some ''mt'')
       \<in> set (ops img)"
    using t1 unfolding fonts by simp
  have t3': "Text (40, 180) ''Receipt Number: RCP-2025-10000'' (Named ''black'')
       (TrueType ''/usr/share/fonts/truetype/dejavu/DejaVuSans.ttf'' 14) None \<in> set (ops img)"
    using t3 unfolding fonts rn' by simp
  have t4': "Text (40, 210) ''Date: January 01, 2025'' (Named ''black'')
       (TrueType ''/usr/share/fonts/truetype/dejavu/DejaVuSans.ttf'' 14) None \<in> set (ops img)"
    using t4 unfolding fonts date first_strings by simp
  have t6': "Text (300, 425) ''$25.00'' (Named ''black'')
       (TrueType ''/usr/share/fonts/truetype/dejavu/DejaVuSans-Bold.ttf'' 24) (Some ''mt'')
       \<in> set (ops img)"
    using t6 unfolding fonts amount first_strings by simp
  show ?thesis
    using gen' t1' t3' t4' t6' by blast
qed

section \<open>Post-processing\<close>

lemma receipt_post_processing:
  "\<exists>canvas info g img g' M fname st'.
     draw_receipt E org (random_state st) = (canvas, info, g) \<and>
     list_all (\<lambda>x. \<not> is_degradation_op x) (ops canvas) \<and>
     apply_quality E (QUALITY_SETTINGS r) (add_watermark E canvas) quality g = Inr (img, g') \<and>
     generate_receipt E (QUALITY_SETTINGS r) org quality index st = Inr (fname, st') \<and>
     files st' = files st @ [(os_path_join (OUTPUT_DIR E) [''receipts'', fname], PNG img)] \<and>
     ops (add_watermark E canvas) = ops canvas @
       [Text (width canvas div 4, height canvas div 2) ''SAMPLE - FOR TESTING ONLY''
          (RGBA 200 200 200 128) (get_font E 24 False) None] \<and>
     ops img = ops (add_watermark E canvas) @ M \<and> list_all is_degradation_op M"
proof -
  obtain canvas date amount receipt_num g where
    d: "draw_receipt E org (random_state st) = (canvas, (date, amount, receipt_num), g)"
    by (metis prod_cases3 surj_pair)
  note c = draw_receipt_texts [where E = E and org = org and g = "random_state st",
      unfolded d prod.case]
  obtain img g' M where
    aq: "apply_quality E (QUALITY_SETTINGS r) (add_watermark E canvas) quality g = Inr (img, g')"
    and o: "ops img = ops (add_watermark E canvas) @ M"
    and m: "list_all is_degradation_op M"
    using apply_quality_QS [of E r "add_watermark E canvas" quality g] by blast
  show ?thesis
    using aq o m c by (simp add: d generate_receipt_def Let_def add_watermark_ops)
qed

lemma letter_post_processing:
  "\<exists>canvas info g img g' M fname st'.
     draw_acknowledgment_letter E org (random_state st) = (canvas, info, g) \<and>
     list_all (\<lambda>x. \<not> is_degradation_op x) (ops canvas) \<and>
     apply_quality E (QUALITY_SETTINGS r) (add_watermark E canvas) quality g = Inr (img, g') \<and>
     generate_acknowledgment_letter E (QUALITY_SETTINGS r) org quality index st =
       Inr (fname, st') \<and>
     files st' = files st @
       [(os_path_join (OUTPUT_DIR E) [''acknowledgment_letters'', fname], PNG img)] \<and>
     ops (add_watermark E canvas) = ops canvas @
       [Text (width canvas div 4, height canvas div 2) ''SAMPLE - FOR TESTING ONLY''
          (RGBA 200 200 200 128) (get_font E 24 False) None] \<and>
     ops img = ops (add_watermark E canvas) @ M \<and> list_all is_degradation_op M"
proof -
  obtain canvas date amount donation_date g where
    d: "draw_acknowledgment_letter E org (random_state st) =
          (canvas, (date, amount, donation_date), g)"
    by (metis prod_cases3 surj_pair)
  note c = draw_letter_texts [where E = E and org = org and g = "random_state st",
      unfolded d prod.case]
  obtain img g' M where
    aq: "apply_quality E (QUALITY_SETTINGS r) (add_watermark E canvas) quality g = Inr (img, g')"
    and o: "ops img = ops (add_watermark E canvas) @ M"
    and m: "list_all is_degradation_op M"
    using apply_quality_QS [of E r "add_watermark E canvas" quality g] by blast
  show ?thesis
    using aq o m c by (simp add: d generate_acknowledgment_letter_def Let_def add_watermark_ops)
qed

lemma statement_post_processing:
  "\<exists>canvas info g img g' M fname st'.
     draw_bank_statement E bank (random_state st) = Inr (canvas, info, g) \<and>
     list_all (\<lambda>x. \<not> is_degradation_op x) (ops canvas) \<and>
     apply_quality E (QUALITY_SETTINGS r) (add_watermark E canvas) quality g = Inr (img, g') \<and>
     generate_bank_statement E (QUALITY_SETTINGS r) bank quality index st = Inr (fname, st') \<and>
     files st' = files st @
       [(os_path_join (OUTPUT_DIR E) [''bank_statements'', fname], PNG img)] \<and>
     ops (add_watermark E canvas) = ops canvas @
       [Text (width canvas div 4, height canvas div 2) ''SAMPLE - FOR TESTING ONLY''
          (RGBA 200 200 200 128) (get_font E 24 False) None] \<and>
     ops img = ops (add_watermark E canvas) @ M \<and> list_all is_degradation_op M"
proof -
  obtain canvas acct_num start_date centries g where
    d: "draw_bank_statement E bank (random_state st) =
          Inr (canvas, (acct_num, start_date, start_date + 30, centries), g)"
    and c: "list_all (\<lambda>x. \<not> is_degradation_op x) (ops canvas)"
    using draw_bank_statement_eq [of E bank "random_state st"] by blast
  obtain img g' M where
    aq: "apply_quality E (QUALITY_SETTINGS r) (add_watermark E canvas) quality g = Inr (img, g')"
    and o: "ops img = ops (add_watermark E canvas) @ M"
    and m: "list_all is_degradation_op M"
    using apply_quality_QS [of E r "add_watermark E canvas" quality g] by blast
  show ?thesis
    using aq o m c by (simp add: d generate_bank_statement_def Let_def add_watermark_ops)
qed

text \<open>
  Claim C3. In each of the three renderers the image saved is what
  \<^verbatim>\<open>apply_quality\<close> returns on the canvas that \<^verbatim>\<open>add_watermark\<close> returned: the
  canvas holds drawing operations only, the watermark text is drawn after all of
  them, and every operation after the watermark is one of blur, noise and rotation.
  The same two functions are used, in the same order, by all three.
\<close>

theorem watermark_then_degradation:
  "(\<exists>canvas info g img g' M fname st'.
       draw_receipt E org (random_state st) = (canvas, info, g) \<and>
       list_all (\<lambda>x. \<not> is_degradation_op x) (ops canvas) \<and>
       apply_quality E (QUALITY_SETTINGS r) (add_watermark E canvas) quality g = Inr (img, g') \<and>
       generate_receipt E (QUALITY_SETTINGS r) org quality index st = Inr (fname, st') \<and>
       files st' = files st @ [(os_path_join (OUTPUT_DIR E) [''receipts'', fname], PNG img)] \<and>
       ops (add_watermark E canvas) = ops canvas @
         [Text (width canvas div 4, height canvas div 2) ''SAMPLE - FOR TESTING ONLY''
            (RGBA 200 200 200 128) (get_font E 24 False) None] \<and>
       ops img = ops (add_watermark E canvas) @ M \<and> list_all is_degradation_op M) \<and>
   (\<exists>canvas info g img g' M fname st'.
       draw_acknowledgment_letter E org (random_state st) = (canvas, info, g) \<and>
       list_all (\<lambda>x. \<not> is_degradation_op x) (ops canvas) \<and>
       apply_quality E (QUALITY_SETTINGS r) (add_watermark E canvas) quality g = Inr (img, g') \<and>
       generate_acknowledgment_letter E (QUALITY_SETTINGS r) org quality index st =
         Inr (fname, st') \<and>
       files st' = files st @
         [(os_path_join (OUTPUT_DIR E) [''acknowledgment_letters'', fname], PNG img)] \<and>
       ops (add_watermark E canvas) = ops canvas @
         [Text (width canvas div 4, height canvas div 2) ''SAMPLE - FOR TESTING ONLY''
            (RGBA 200 200 200 128) (get_font E 24 False) None] \<and>
       ops img = ops (add_watermark E canvas) @ M \<and> list_all is_degradation_op M) \<and>
   (\<exists>canvas info g img g' M fname st'.
       draw_bank_statement E bank (random_state st) = Inr (canvas, info, g) \<and>
       list_all (\<lambda>x. \<not> is_degradation_op x) (ops canvas) \<and>
       apply_quality E (QUALITY_SETTINGS r) (add_watermark E canvas) quality g = Inr (img, g') \<and>
       generate_bank_statement E (QUALITY_SETTINGS r) bank quality index st = Inr (fname, st') \<and>
       files st' = files st @
         [(os_path_join (OUTPUT_DIR E) [''bank_statements'', fname], PNG img)] \<and>
       ops (add_watermark E canvas) = ops canvas @
         [Text (width canvas div 4, height canvas div 2) ''SAMPLE - FOR TESTING ONLY''
            (RGBA 200 200 200 128) (get_font E 24 False) None] \<and>
       ops img = ops (add_watermark E canvas) @ M \<and> list_all is_degradation_op M)"
  by (intro conjI receipt_post_processing letter_post_processing statement_post_processing)

section \<open>A whole run\<close>

lemma loop_calls_enumerate:
  "loop_calls catalog (enumerate n qs) c =
     map (\<lambda>i. (catalog ! ((n + i) mod length catalog), qs ! i, c + int i + 1)) [0..<length qs]"
proof (induction qs arbitrary: n c)
  case Nil
  then show ?case by simp
next
  case (Cons q qs)
  show ?case
    by (simp add: Cons.IH map_upt_Suc del: upt_Suc) 
qed

lemma receipt_names:
  "map (\<lambda>(org, q, idx). ''receipts/'' @ ''receipt_'' @ short org @ ''_'' @ q @ ''_'' @
          format_0d 3 idx @ ''.png'')
     (loop_calls ORGANIZATIONS (enumerate 0 receipt_qualities) 0) =
   [''receipts/receipt_goodwill_high_001.png'',
    ''receipts/receipt_salvation-army_high_002.png'',
    ''receipts/receipt_redcross_high_003.png'',
    ''receipts/receipt_habitat_high_004.png'',
    ''receipts/receipt_unitedway_high_005.png'',
    ''receipts/receipt_foodbank_high_006.png'',
    ''receipts/receipt_church_high_007.png'',
    ''receipts/receipt_university_high_008.png'',
    ''receipts/receipt_goodwill_high_009.png'',
    ''receipts/receipt_salvation-army_high_010.png'',
    ''receipts/receipt_redcross_high_011.png'',
    ''receipts/receipt_habitat_high_012.png'',
    ''receipts/receipt_unitedway_medium_013.png'',
    ''receipts/receipt_foodbank_medium_014.png'',
    ''receipts/receipt_church_medium_015.png'',
    ''receipts/receipt_university_medium_016.png'',
    ''receipts/receipt_goodwill_medium_017.png'',
    ''receipts/receipt_salvation-army_medium_018.png'',
    ''receipts/receipt_redcross_medium_019.png'',
    ''receipts/receipt_habitat_medium_020.png'',
    ''receipts/receipt_unitedway_medium_021.png'',
    ''receipts/receipt_foodbank_low_022.png'',
    ''receipts/receipt_church_low_023.png'',
    ''receipts/receipt_university_low_024.png'',
    ''receipts/receipt_goodwill_low_025.png'',
    ''receipts/receipt_salvation-army_low_026.png'',
    ''receipts/receipt_redcross_low_027.png'',
    ''receipts/receipt_habitat_edge_028.png'',
    ''receipts/receipt_unitedway_edge_029.png'',
    ''receipts/receipt_foodbank_edge_030.png'']"
  by code_simp

lemma letter_names:
  "map (\<lambda>(org, q, idx). ''acknowledgment_letters/'' @ ''acknowledgment_'' @ short org @ ''_'' @ q @
          ''_'' @ format_0d 3 idx @ ''.png'')
     (loop_calls ORGANIZATIONS (enumerate 0 letter_qualities) 0) =
   [''acknowledgment_letters/acknowledgment_goodwill_high_001.png'',
    ''acknowledgment_letters/acknowledgment_salvation-army_high_002.png'',
    ''acknowledgment_letters/acknowledgment_redcross_high_003.png'',
    ''acknowledgment_letters/acknowledgment_habitat_high_004.png'',
    ''acknowledgment_letters/acknowledgment_unitedway_high_005.png'',
    ''acknowledgment_letters/acknowledgment_foodbank_high_006.png'',
    ''acknowledgment_letters/acknowledgment_church_high_007.png'',
    ''acknowledgment_letters/acknowledgment_university_high_008.png'',
    ''acknowledgment_letters/acknowledgment_goodwill_high_009.png'',
    ''acknowledgment_letters/acknowledgment_salvation-army_high_010.png'',
    ''acknowledgment_letters/acknowledgment_redcross_medium_011.png'',
    ''acknowledgment_letters/acknowledgment_habitat_medium_012.png'',
    ''acknowledgment_letters/acknowledgment_unitedway_medium_013.png'',
    ''acknowledgment_letters/acknowledgment_foodbank_medium_014.png'',
    ''acknowledgment_letters/acknowledgment_church_medium_015.png'',
    ''acknowledgment_letters/acknowledgment_university_medium_016.png'',
    ''acknowledgment_letters/acknowledgment_goodwill_low_017.png'',
    ''acknowledgment_letters/acknowledgment_salvation-army_low_018.png'',
    ''acknowledgment_letters/acknowledgment_redcross_low_019.png'',
    ''acknowledgment_letters/acknowledgment_habitat_low_020.png'']"
  by code_simp

lemma statement_names:
  "map (\<lambda>(bank, q, idx). ''bank_statements/'' @ ''bank_statement_'' @ bank_short bank @ ''_'' @ q @
          ''_'' @ format_0d 3 idx @ ''.png'')
     (loop_calls BANKS (enumerate 0 statement_qualities) 0) =
   [''bank_statements/bank_statement_chase_high_001.png'',
    ''bank_statements/bank_statement_bofa_high_002.png'',
    ''bank_statements/bank_statement_wellsfargo_high_003.png'',
    ''bank_statements/bank_statement_citi_high_004.png'',
    ''bank_statements/bank_statement_creditunion_high_005.png'',
    ''bank_statements/bank_statement_chase_high_006.png'',
    ''bank_statements/bank_statement_bofa_high_007.png'',
    ''bank_statements/bank_statement_wellsfargo_high_008.png'',
    ''bank_statements/bank_statement_citi_medium_009.png'',
    ''bank_statements/bank_statement_creditunion_medium_010.png'',
    ''bank_statements/bank_statement_chase_medium_011.png'',
    ''bank_statements/bank_statement_bofa_medium_012.png'',
    ''bank_statements/bank_statement_wellsfargo_medium_013.png'',
    ''bank_statements/bank_statement_citi_low_014.png'',
    ''bank_statements/bank_statement_creditunion_low_015.png'']"
  by code_simp

lemma names_distinct:
  "distinct
     ([''receipts/receipt_goodwill_high_001.png'',
      ''receipts/receipt_salvation-army_high_002.png'',
      ''receipts/receipt_redcross_high_003.png'',
      ''receipts/receipt_habitat_high_004.png'',
      ''receipts/receipt_unitedway_high_005.png'',
      ''receipts/receipt_foodbank_high_006.png'',
      ''receipts/receipt_church_high_007.png'',
      ''receipts/receipt_university_high_008.png'',
      ''receipts/receipt_goodwill_high_009.png'',
      ''receipts/receipt_salvation-army_high_010.png'',
      ''receipts/receipt_redcross_high_011.png'',
      ''receipts/receipt_habitat_high_012.png'',
      ''receipts/receipt_unitedway_medium_013.png'',
      ''receipts/receipt_foodbank_medium_014.png'',
      ''receipts/receipt_church_medium_015.png'',
      ''receipts/receipt_university_medium_016.png'',
      ''receipts/receipt_goodwill_medium_017.png'',
      ''receipts/receipt_salvation-army_medium_018.png'',
      ''receipts/receipt_redcross_medium_019.png'',
      ''receipts/receipt_habitat_medium_020.png'',
      ''receipts/receipt_unitedway_medium_021.png'',
      ''receipts/receipt_foodbank_low_022.png'',
      ''receipts/receipt_church_low_023.png'',
      ''receipts/receipt_university_low_024.png'',
      ''receipts/receipt_goodwill_low_025.png'',
      ''receipts/receipt_salvation-army_low_026.png'',
      ''receipts/receipt_redcross_low_027.png'',
      ''receipts/receipt_habitat_edge_028.png'',
      ''receipts/receipt_unitedway_edge_029.png'',
      ''receipts/receipt_foodbank_edge_030.png''] @
      [''acknowledgment_letters/acknowledgment_goodwill_high_001.png'',
      ''acknowledgment_letters/acknowledgment_salvation-army_high_002.png'',
      ''acknowledgment_letters/acknowledgment_redcross_high_003.png'',
      ''acknowledgment_letters/acknowledgment_habitat_high_004.png'',
      ''acknowledgment_letters/acknowledgment_unitedway_high_005.png'',
      ''acknowledgment_letters/acknowledgment_foodbank_high_006.png'',
      ''acknowledgment_letters/acknowledgment_church_high_007.png'',
      ''acknowledgment_letters/acknowledgment_university_high_008.png'',
      ''acknowledgment_letters/acknowledgment_goodwill_high_009.png'',
      ''acknowledgment_letters/acknowledgment_salvation-army_high_010.png'',
      ''acknowledgment_letters/acknowledgment_redcross_medium_011.png'',
      ''acknowledgment_letters/acknowledgment_habitat_medium_012.png'',
      ''acknowledgment_letters/acknowledgment_unitedway_medium_013.png'',
      ''acknowledgment_letters/acknowledgment_foodbank_medium_014.png'',
      ''acknowledgment_letters/acknowledgment_church_medium_015.png'',
      ''acknowledgment_letters/acknowledgment_university_medium_016.png'',
      ''acknowledgment_letters/acknowledgment_goodwill_low_017.png'',
      ''acknowledgment_letters/acknowledgment_salvation-army_low_018.png'',
      ''acknowledgment_letters/acknowledgment_redcross_low_019.png'',
      ''acknowledgment_letters/acknowledgment_habitat_low_020.png''] @
      [''bank_statements/bank_statement_chase_high_001.png'',
      ''bank_statements/bank_statement_bofa_high_002.png'',
      ''bank_statements/bank_statement_wellsfargo_high_003.png'',
      ''bank_statements/bank_statement_citi_high_004.png'',
      ''bank_statements/bank_statement_creditunion_high_005.png'',
      ''bank_statements/bank_statement_chase_high_006.png'',
      ''bank_statements/bank_statement_bofa_high_007.png'',
      ''bank_statements/bank_statement_wellsfargo_high_008.png'',
      ''bank_statements/bank_statement_citi_medium_009.png'',
      ''bank_statements/bank_statement_creditunion_medium_010.png'',
      ''bank_statements/bank_statement_chase_medium_011.png'',
      ''bank_statements/bank_statement_bofa_medium_012.png'',
      ''bank_statements/bank_statement_wellsfargo_medium_013.png'',
      ''bank_statements/bank_statement_citi_low_014.png'',
      ''bank_statements/bank_statement_creditunion_low_015.png''])"
  by code_simp


lemma list_all2_zip_rel:
  assumes "list_all2 R cs (zip es fs)" and "length es = length fs"
    and "\<And>c e f. R c (e, f) \<Longrightarrow> P e f"
  shows "list_all2 P es fs"
  using assms by (auto simp: list_all2_conv_all_nth)

lemma list_all2_zip_map:
  assumes "list_all2 R cs (zip es fs)" and "length es = length fs"
    and "\<And>c e f. R c (e, f) \<Longrightarrow> h e = k c"
  shows "map h es = map k cs"
proof (rule nth_equalityI)
  show "length (map h es) = length (map k cs)"
    using assms(1,2) by (auto simp: list_all2_conv_all_nth)
next
  fix i assume "i < length (map h es)"
  then have i: "i < length es" by simp
  then have "R (cs ! i) (es ! i, fs ! i)"
    using assms(1,2) by (auto simp: list_all2_conv_all_nth)
  then show "map h es ! i = map k cs ! i"
    using assms(1,2) i assms(3) by (auto simp: list_all2_conv_all_nth)
qed

lemma join_relative:
  assumes "d \<noteq> []" "hd d \<noteq> CHR ''/''" "last d \<noteq> CHR ''/''" "n \<noteq> []" "hd n \<noteq> CHR ''/''"
  shows "os_path_join out [d, n] = os_path_join out [d @ ''/'' @ n]"
  using assms by (simp add: os_path_join_def join2_def)

lemma document_manifest_record:
  assumes rec: "document_recorded E r T d n q k ent e f"
    and d: "d \<noteq> []" "hd d \<noteq> CHR ''/''" "last d \<noteq> CHR ''/''"
    and n: "n \<noteq> []" "hd n \<noteq> CHR ''/''"
  shows "manifest_record E r e f"
proof -
  obtain canvas g img g' where
    keys: "json_keys e = [''filename'', ''documentType'', ''quality'', ''synthetic'', ''expectedFields'']"
    and fn: "json_get ''filename'' e = Some (JStr (d @ ''/'' @ n))"
    and ql: "json_get ''quality'' e = Some (JStr q)"
    and path: "fst f = os_path_join (OUTPUT_DIR E) [d, n]"
    and png: "snd f = PNG img"
    and aq: "apply_quality E (QUALITY_SETTINGS r) (add_watermark E canvas) q g = Inr (img, g')"
    using rec unfolding document_recorded_def by blast
  have f: "f = (os_path_join (OUTPUT_DIR E) [d @ ''/'' @ n], PNG img)"
    using path png join_relative [OF d n, of "OUTPUT_DIR E"] by (cases f) simp
  show ?thesis
    unfolding manifest_record_def using keys fn ql f aq by blast
qed

lemma receipt_manifest_record:
  assumes "receipt_recorded E r c (e, f)"
  shows "manifest_record E r e f"
proof -
  obtain org q idx where c: "c = (org, q, idx)" by (cases c)
  have "document_recorded E r ''receipt'' ''receipts''
          (''receipt_'' @ short org @ ''_'' @ q @ ''_'' @ format_0d 3 idx @ ''.png'') q
          ''organization_name'' (name org) e f"
    using assms by (simp add: receipt_recorded_def c)
  then show ?thesis by (rule document_manifest_record) simp_all
qed

lemma letter_manifest_record:
  assumes "letter_recorded E r c (e, f)"
  shows "manifest_record E r e f"
proof -
  obtain org q idx where c: "c = (org, q, idx)" by (cases c)
  have "document_recorded E r ''acknowledgment_letter'' ''acknowledgment_letters''
          (''acknowledgment_'' @ short org @ ''_'' @ q @ ''_'' @ format_0d 3 idx @ ''.png'') q
          ''organization_name'' (name org) e f"
    using assms by (simp add: letter_recorded_def c)
  then show ?thesis by (rule document_manifest_record) simp_all
qed

lemma statement_manifest_record:
  assumes "statement_recorded E r c (e, f)"
  shows "manifest_record E r e f"
proof -
  obtain bank q idx where c: "c = (bank, q, idx)" by (cases c)
  have "document_recorded E r ''bank_statement'' ''bank_statements''
          (''bank_statement_'' @ bank_short bank @ ''_'' @ q @ ''_'' @ format_0d 3 idx @ ''.png'') q
          ''bank_name'' (bank_name bank) e f"
    using assms by (simp add: statement_recorded_def c)
  then show ?thesis by (rule document_manifest_record) simp_all
qed


lemma program_documents:
  "\<exists>r st m es1 fs1 es2 fs2 es3 fs3.
     program E g = Inr st \<and>
     fst (module_load g) = QUALITY_SETTINGS r \<and> r = fst (randint 5 15 g) \<and> 5 \<le> r \<and> r \<le> 15 \<and>
     manifest_entries st = es1 @ es2 @ es3 \<and>
     files st = fs1 @ fs2 @ fs3 @ [(MANIFEST_PATH E, JSON m)] \<and>
     json_get ''totalDocuments'' m = Some (JInt (int (length (es1 @ es2 @ es3)))) \<and>
     json_get ''documentCounts'' m =
       Some (JDict [(''receipts'', JInt 30), (''acknowledgment_letters'', JInt 20),
                    (''bank_statements'', JInt 15)]) \<and>
     json_get ''documents'' m = Some (JList (es1 @ es2 @ es3)) \<and>
     length es1 = length fs1 \<and> length es2 = length fs2 \<and> length es3 = length fs3 \<and>
     length es1 = 30 \<and> length es2 = 20 \<and> length es3 = 15 \<and>
     list_all2 (receipt_recorded E r)
       (loop_calls ORGANIZATIONS (enumerate 0 receipt_qualities) 0) (zip es1 fs1) \<and>
     list_all2 (letter_recorded E r)
       (loop_calls ORGANIZATIONS (enumerate 0 letter_qualities) 0) (zip es2 fs2) \<and>
     list_all2 (statement_recorded E r)
       (loop_calls BANKS (enumerate 0 statement_qualities) 0) (zip es3 fs3)"
proof -
  let ?m = "\<lambda>es. JDict
                    [(''version'', JStr ''1.0.0''),
                     (''generatedBy'', JStr ''claude-synthetic''),
                     (''generatedAt'', JStr (utcnow_isoformat E @ ''Z'')),
                     (''totalDocuments'', JInt (int (length es))),
                     (''documentCounts'', JDict
                        [(''receipts'', JInt 30),
                         (''acknowledgment_letters'', JInt 20),
                         (''bank_statements'', JInt 15)]),
                     (''documents'', JList es)]"
  obtain r es1 fs1 es2 fs2 es3 fs3 g' where
    r: "5 \<le> r" "r \<le> 15" "r = 5 + g 0 mod 11"
    and p: "program E g =
       Inr \<lparr>random_state = g',
            dirs = map (\<lambda>subdir. os_path_join (OUTPUT_DIR E) [subdir])
                   [''receipts'', ''acknowledgment_letters'', ''bank_statements'',
                    ''credit_card_statements'', ''cancelled_checks'', ''appraisals'',
                    ''form_8283'', ''other''],
            files = fs1 @ fs2 @ fs3 @ [(MANIFEST_PATH E, JSON (?m (es1 @ es2 @ es3)))],
            manifest_entries = es1 @ es2 @ es3\<rparr>"
    and l: "length es1 = length fs1" "length es2 = length fs2" "length es3 = length fs3"
    and a1: "list_all2 (receipt_recorded E r)
       (loop_calls ORGANIZATIONS (enumerate 0 receipt_qualities) 0) (zip es1 fs1)"
    and a2: "list_all2 (letter_recorded E r)
       (loop_calls ORGANIZATIONS (enumerate 0 letter_qualities) 0) (zip es2 fs2)"
    and a3: "list_all2 (statement_recorded E r)
       (loop_calls BANKS (enumerate 0 statement_qualities) 0) (zip es3 fs3)"
    using program_spec [of g E] by blast
  have ml: "fst (module_load g) = QUALITY_SETTINGS r \<and> r = fst (randint 5 15 g)"
    using r(3) by (simp add: module_load_def randint_def randbelow_def)
  have n1: "length es1 = 30"
    using list_all2_lengthD [OF a1] l(1)
    by (simp add: loop_calls_enumerate receipt_qualities_def)
  have n2: "length es2 = 20"
    using list_all2_lengthD [OF a2] l(2)
    by (simp add: loop_calls_enumerate letter_qualities_def)
  have n3: "length es3 = 15"
    using list_all2_lengthD [OF a3] l(3)
    by (simp add: loop_calls_enumerate statement_qualities_def)
  have j: "json_get ''totalDocuments'' (?m (es1 @ es2 @ es3)) =
             Some (JInt (int (length (es1 @ es2 @ es3))))"
     "json_get ''documentCounts'' (?m (es1 @ es2 @ es3)) =
       Some (JDict [(''receipts'', JInt 30), (''acknowledgment_letters'', JInt 20),
                    (''bank_statements'', JInt 15)])"
     "json_get ''documents'' (?m (es1 @ es2 @ es3)) = Some (JList (es1 @ es2 @ es3))"
    by (simp_all add: json_get_def)
  show ?thesis
    apply (rule exI [of _ r], intro exI conjI)
    apply (rule p)
    using ml r l n1 n2 n3 a1 a2 a3 j by simp_all
qed


lemma manifest_filenames:
  assumes l: "length es1 = length fs1" "length es2 = length fs2" "length es3 = length fs3"
    and a1: "list_all2 (receipt_recorded E r)
       (loop_calls ORGANIZATIONS (enumerate 0 receipt_qualities) 0) (zip es1 fs1)"
    and a2: "list_all2 (letter_recorded E r)
       (loop_calls ORGANIZATIONS (enumerate 0 letter_qualities) 0) (zip es2 fs2)"
    and a3: "list_all2 (statement_recorded E r)
       (loop_calls BANKS (enumerate 0 statement_qualities) 0) (zip es3 fs3)"
  shows "map (json_get ''filename'') (es1 @ es2 @ es3) =
     map (\<lambda>n. Some (JStr n))
       ([''receipts/receipt_goodwill_high_001.png'',
        ''receipts/receipt_salvation-army_high_002.png'',
        ''receipts/receipt_redcross_high_003.png'',
        ''receipts/receipt_habitat_high_004.png'',
        ''receipts/receipt_unitedway_high_005.png'',
        ''receipts/receipt_foodbank_high_006.png'',
        ''receipts/receipt_church_high_007.png'',
        ''receipts/receipt_university_high_008.png'',
        ''receipts/receipt_goodwill_high_009.png'',
        ''receipts/receipt_salvation-army_high_010.png'',
        ''receipts/receipt_redcross_high_011.png'',
        ''receipts/receipt_habitat_high_012.png'',
        ''receipts/receipt_unitedway_medium_013.png'',
        ''receipts/receipt_foodbank_medium_014.png'',
        ''receipts/receipt_church_medium_015.png'',
        ''receipts/receipt_university_medium_016.png'',
        ''receipts/receipt_goodwill_medium_017.png'',
        ''receipts/receipt_salvation-army_medium_018.png'',
        ''receipts/receipt_redcross_medium_019.png'',
        ''receipts/receipt_habitat_medium_020.png'',
        ''receipts/receipt_unitedway_medium_021.png'',
        ''receipts/receipt_foodbank_low_022.png'',
        ''receipts/receipt_church_low_023.png'',
        ''receipts/receipt_university_low_024.png'',
        ''receipts/receipt_goodwill_low_025.png'',
        ''receipts/receipt_salvation-army_low_026.png'',
        ''receipts/receipt_redcross_low_027.png'',
        ''receipts/receipt_habitat_edge_028.png'',
        ''receipts/receipt_unitedway_edge_029.png'',
        ''receipts/receipt_foodbank_edge_030.png''] @
        [''acknowledgment_letters/acknowledgment_goodwill_high_001.png'',
        ''acknowledgment_letters/acknowledgment_salvation-army_high_002.png'',
        ''acknowledgment_letters/acknowledgment_redcross_high_003.png'',
        ''acknowledgment_letters/acknowledgment_habitat_high_004.png'',
        ''acknowledgment_letters/acknowledgment_unitedway_high_005.png'',
        ''acknowledgment_letters/acknowledgment_foodbank_high_006.png'',
        ''acknowledgment_letters/acknowledgment_church_high_007.png'',
        ''acknowledgment_letters/acknowledgment_university_high_008.png'',
        ''acknowledgment_letters/acknowledgment_goodwill_high_009.png'',
        ''acknowledgment_letters/acknowledgment_salvation-army_high_010.png'',
        ''acknowledgment_letters/acknowledgment_redcross_medium_011.png'',
        ''acknowledgment_letters/acknowledgment_habitat_medium_012.png'',
        ''acknowledgment_letters/acknowledgment_unitedway_medium_013.png'',
        ''acknowledgment_letters/acknowledgment_foodbank_medium_014.png'',
        ''acknowledgment_letters/acknowledgment_church_medium_015.png'',
        ''acknowledgment_letters/acknowledgment_university_medium_016.png'',
        ''acknowledgment_letters/acknowledgment_goodwill_low_017.png'',
        ''acknowledgment_letters/acknowledgment_salvation-army_low_018.png'',
        ''acknowledgment_letters/acknowledgment_redcross_low_019.png'',
        ''acknowledgment_letters/acknowledgment_habitat_low_020.png''] @
        [''bank_statements/bank_statement_chase_high_001.png'',
        ''bank_statements/bank_statement_bofa_high_002.png'',
        ''bank_statements/bank_statement_wellsfargo_high_003.png'',
        ''bank_statements/bank_statement_citi_high_004.png'',
        ''bank_statements/bank_statement_creditunion_high_005.png'',
        ''bank_statements/bank_statement_chase_high_006.png'',
        ''bank_statements/bank_statement_bofa_high_007.png'',
        ''bank_statements/bank_statement_wellsfargo_high_008.png'',
        ''bank_statements/bank_statement_citi_medium_009.png'',
        ''bank_statements/bank_statement_creditunion_medium_010.png'',
        ''bank_statements/bank_statement_chase_medium_011.png'',
        ''bank_statements/bank_statement_bofa_medium_012.png'',
        ''bank_statements/bank_statement_wellsfargo_medium_013.png'',
        ''bank_statements/bank_statement_citi_low_014.png'',
        ''bank_statements/bank_statement_creditunion_low_015.png''])"
proof -
  let ?rn = "\<lambda>(org, q, idx). ''receipts/'' @ ''receipt_'' @ short org @ ''_'' @ q @ ''_'' @
          format_0d 3 idx @ ''.png''"
  let ?ln = "\<lambda>(org, q, idx). ''acknowledgment_letters/'' @ ''acknowledgment_'' @ short org @ ''_'' @ q @
          ''_'' @ format_0d 3 idx @ ''.png''"
  let ?sn = "\<lambda>(bank, q, idx). ''bank_statements/'' @ ''bank_statement_'' @ bank_short bank @ ''_'' @ q @
          ''_'' @ format_0d 3 idx @ ''.png''"
  have "map (json_get ''filename'') es1 = map (\<lambda>c. Some (JStr (?rn c))) (loop_calls ORGANIZATIONS (enumerate 0 receipt_qualities) 0)"
    by (rule list_all2_zip_map [OF a1 l(1)])
      (auto simp: receipt_recorded_def document_recorded_def)
  also have "\<dots> = map (\<lambda>n. Some (JStr n)) (map ?rn (loop_calls ORGANIZATIONS (enumerate 0 receipt_qualities) 0))"
    by (simp only: map_map o_def)
  finally have f1: "map (json_get ''filename'') es1 = map (\<lambda>n. Some (JStr n))
       [''receipts/receipt_goodwill_high_001.png'',
        ''receipts/receipt_salvation-army_high_002.png'',
        ''receipts/receipt_redcross_high_003.png'',
        ''receipts/receipt_habitat_high_004.png'',
        ''receipts/receipt_unitedway_high_005.png'',
        ''receipts/receipt_foodbank_high_006.png'',
        ''receipts/receipt_church_high_007.png'',
        ''receipts/receipt_university_high_008.png'',
        ''receipts/receipt_goodwill_high_009.png'',
        ''receipts/receipt_salvation-army_high_010.png'',
        ''receipts/receipt_redcross_high_011.png'',
        ''receipts/receipt_habitat_high_012.png'',
        ''receipts/receipt_unitedway_medium_013.png'',
        ''receipts/receipt_foodbank_medium_014.png'',
        ''receipts/receipt_church_medium_015.png'',
        ''receipts/receipt_university_medium_016.png'',
        ''receipts/receipt_goodwill_medium_017.png'',
        ''receipts/receipt_salvation-army_medium_018.png'',
        ''receipts/receipt_redcross_medium_019.png'',
        ''receipts/receipt_habitat_medium_020.png'',
        ''receipts/receipt_unitedway_medium_021.png'',
        ''receipts/receipt_foodbank_low_022.png'',
        ''receipts/receipt_church_low_023.png'',
        ''receipts/receipt_university_low_024.png'',
        ''receipts/receipt_goodwill_low_025.png'',
        ''receipts/receipt_salvation-army_low_026.png'',
        ''receipts/receipt_redcross_low_027.png'',
        ''receipts/receipt_habitat_edge_028.png'',
        ''receipts/receipt_unitedway_edge_029.png'',
        ''receipts/receipt_foodbank_edge_030.png'']"
    by (simp only: receipt_names)
  have "map (json_get ''filename'') es2 = map (\<lambda>c. Some (JStr (?ln c))) (loop_calls ORGANIZATIONS (enumerate 0 letter_qualities) 0)"
    by (rule list_all2_zip_map [OF a2 l(2)])
      (auto simp: letter_recorded_def document_recorded_def)
  also have "\<dots> = map (\<lambda>n. Some (JStr n)) (map ?ln (loop_calls ORGANIZATIONS (enumerate 0 letter_qualities) 0))"
    by (simp only: map_map o_def)
  finally have f2: "map (json_get ''filename'') es2 = map (\<lambda>n. Some (JStr n))
       [''acknowledgment_letters/acknowledgment_goodwill_high_001.png'',
        ''acknowledgment_letters/acknowledgment_salvation-army_high_002.png'',
        ''acknowledgment_letters/acknowledgment_redcross_high_003.png'',
        ''acknowledgment_letters/acknowledgment_habitat_high_004.png'',
        ''acknowledgment_letters/acknowledgment_unitedway_high_005.png'',
        ''acknowledgment_letters/acknowledgment_foodbank_high_006.png'',
        ''acknowledgment_letters/acknowledgment_church_high_007.png'',
        ''acknowledgment_letters/acknowledgment_university_high_008.png'',
        ''acknowledgment_letters/acknowledgment_goodwill_high_009.png'',
        ''acknowledgment_letters/acknowledgment_salvation-army_high_010.png'',
        ''acknowledgment_letters/acknowledgment_redcross_medium_011.png'',
        ''acknowledgment_letters/acknowledgment_habitat_medium_012.png'',
        ''acknowledgment_letters/acknowledgment_unitedway_medium_013.png'',
        ''acknowledgment_letters/acknowledgment_foodbank_medium_014.png'',
        ''acknowledgment_letters/acknowledgment_church_medium_015.png'',
        ''acknowledgment_letters/acknowledgment_university_medium_016.png'',
        ''acknowledgment_letters/acknowledgment_goodwill_low_017.png'',
        ''acknowledgment_letters/acknowledgment_salvation-army_low_018.png'',
        ''acknowledgment_letters/acknowledgment_redcross_low_019.png'',
        ''acknowledgment_letters/acknowledgment_habitat_low_020.png'']"
    by (simp only: letter_names)
  have "map (json_get ''filename'') es3 = map (\<lambda>c. Some (JStr (?sn c))) (loop_calls BANKS (enumerate 0 statement_qualities) 0)"
    by (rule list_all2_zip_map [OF a3 l(3)])
      (auto simp: statement_recorded_def document_recorded_def)
  also have "\<dots> = map (\<lambda>n. Some (JStr n)) (map ?sn (loop_calls BANKS (enumerate 0 statement_qualities) 0))"
    by (simp only: map_map o_def)
  finally have f3: "map (json_get ''filename'') es3 = map (\<lambda>n. Some (JStr n))
       [''bank_statements/bank_statement_chase_high_001.png'',
        ''bank_statements/bank_statement_bofa_high_002.png'',
        ''bank_statements/bank_statement_wellsfargo_high_003.png'',
        ''bank_statements/bank_statement_citi_high_004.png'',
        ''bank_statements/bank_statement_creditunion_high_005.png'',
        ''bank_statements/bank_statement_chase_high_006.png'',
        ''bank_statements/bank_statement_bofa_high_007.png'',
        ''bank_statements/bank_statement_wellsfargo_high_008.png'',
        ''bank_statements/bank_statement_citi_medium_009.png'',
        ''bank_statements/bank_statement_creditunion_medium_010.png'',
        ''bank_statements/bank_statement_chase_medium_011.png'',
        ''bank_statements/bank_statement_bofa_medium_012.png'',
        ''bank_statements/bank_statement_wellsfargo_medium_013.png'',
        ''bank_statements/bank_statement_citi_low_014.png'',
        ''bank_statements/bank_statement_creditunion_low_015.png'']"
    by (simp only: statement_names)
  show ?thesis
    by (simp only: map_append f1 f2 f3)
qed

lemma manifest_records:
  assumes l: "length es1 = length fs1" "length es2 = length fs2" "length es3 = length fs3"
    and a1: "list_all2 (receipt_recorded E r) cs1 (zip es1 fs1)"
    and a2: "list_all2 (letter_recorded E r) cs2 (zip es2 fs2)"
    and a3: "list_all2 (statement_recorded E r) cs3 (zip es3 fs3)"
  shows "list_all2 (manifest_record E r) (es1 @ es2 @ es3) (fs1 @ fs2 @ fs3)"
proof -
  have "list_all2 (manifest_record E r) es1 fs1"
    by (rule list_all2_zip_rel [OF a1 l(1)]) (rule receipt_manifest_record)
  moreover have "list_all2 (manifest_record E r) es2 fs2"
    by (rule list_all2_zip_rel [OF a2 l(2)]) (rule letter_manifest_record)
  moreover have "list_all2 (manifest_record E r) es3 fs3"
    by (rule list_all2_zip_rel [OF a3 l(3)]) (rule statement_manifest_record)
  ultimately show ?thesis by (intro list_all2_appendI)
qed

text \<open>
  Claim C5. A run writes 65 images and then the manifest, whose \<^verbatim>\<open>documents\<close> are
  65 records, the i-th record belonging to the i-th image: the record has exactly
  the keys \<^verbatim>\<open>filename\<close>, \<^verbatim>\<open>documentType\<close>, \<^verbatim>\<open>quality\<close>, \<^verbatim>\<open>synthetic\<close> and
  \<^verbatim>\<open>expectedFields\<close>, its \<^verbatim>\<open>filename\<close> is the path of the image relative to the
  documents directory, and its \<^verbatim>\<open>quality\<close> is the label the image was degraded
  with. The \<^verbatim>\<open>filename\<close>s of the records are pairwise distinct.
\<close>

theorem manifest_one_record_per_image:
  "\<exists>r st m es fs.
     program E g = Inr st \<and> fst (module_load g) = QUALITY_SETTINGS r \<and>
     files st = fs @ [(MANIFEST_PATH E, JSON m)] \<and>
     manifest_entries st = es \<and> json_get ''documents'' m = Some (JList es) \<and>
     length es = 65 \<and> list_all2 (manifest_record E r) es fs \<and>
     distinct (map (json_get ''filename'') es)"
proof -
  obtain r st m es1 fs1 es2 fs2 es3 fs3 where
    p: "program E g = Inr st" and ml: "fst (module_load g) = QUALITY_SETTINGS r"
    and es: "manifest_entries st = es1 @ es2 @ es3"
    and fs: "files st = fs1 @ fs2 @ fs3 @ [(MANIFEST_PATH E, JSON m)]"
    and docs: "json_get ''documents'' m = Some (JList (es1 @ es2 @ es3))"
    and l: "length es1 = length fs1" "length es2 = length fs2" "length es3 = length fs3"
    and n: "length es1 = 30" "length es2 = 20" "length es3 = 15"
    and a1: "list_all2 (receipt_recorded E r)
       (loop_calls ORGANIZATIONS (enumerate 0 receipt_qualities) 0) (zip es1 fs1)"
    and a2: "list_all2 (letter_recorded E r)
       (loop_calls ORGANIZATIONS (enumerate 0 letter_qualities) 0) (zip es2 fs2)"
    and a3: "list_all2 (statement_recorded E r)
       (loop_calls BANKS (enumerate 0 statement_qualities) 0) (zip es3 fs3)"
    using program_documents [of E g] by blast
  have recs: "list_all2 (manifest_record E r) (es1 @ es2 @ es3) (fs1 @ fs2 @ fs3)"
    by (rule manifest_records [OF l a1 a2 a3])
  have inj: "\<And>A. inj_on (\<lambda>n. Some (JStr n)) A" by (simp add: inj_on_def)
  have dist: "distinct (map (json_get ''filename'') (es1 @ es2 @ es3))"
    unfolding manifest_filenames [OF l a1 a2 a3] distinct_map
    by (rule conjI [OF names_distinct inj])
  have len: "length (es1 @ es2 @ es3) = 65" using n by simp
  show ?thesis
    apply (rule exI [of _ r], rule exI [of _ st], rule exI [of _ m],
           rule exI [of _ "es1 @ es2 @ es3"], rule exI [of _ "fs1 @ fs2 @ fs3"])
    using p ml fs es docs len recs dist by simp
qed


lemma receipt_calls:
  "loop_calls ORGANIZATIONS (enumerate 0 receipt_qualities) 0 =
     map (\<lambda>i. (ORGANIZATIONS ! (i mod 8),
                (replicate 12 ''high'' @ replicate 9 ''medium'' @ replicate 6 ''low'' @
                 replicate 3 ''edge'') ! i, int i + 1)) [0..<30]"
proof -
  have "length ORGANIZATIONS = 8" by (simp add: ORGANIZATIONS_def)
  moreover have "length receipt_qualities = 30" by (simp add: receipt_qualities_def)
  ultimately show ?thesis
    unfolding loop_calls_enumerate by (simp add: receipt_qualities_def)
qed

lemma letter_calls:
  "loop_calls ORGANIZATIONS (enumerate 0 letter_qualities) 0 =
     map (\<lambda>i. (ORGANIZATIONS ! (i mod 8),
                (replicate 10 ''high'' @ replicate 6 ''medium'' @ replicate 4 ''low'') ! i,
                int i + 1)) [0..<20]"
proof -
  have "length ORGANIZATIONS = 8" by (simp add: ORGANIZATIONS_def)
  moreover have "length letter_qualities = 20" by (simp add: letter_qualities_def)
  ultimately show ?thesis
    unfolding loop_calls_enumerate by (simp add: letter_qualities_def)
qed

lemma statement_calls:
  "loop_calls BANKS (enumerate 0 statement_qualities) 0 =
     map (\<lambda>i. (BANKS ! (i mod 5),
                (replicate 8 ''high'' @ replicate 5 ''medium'' @ replicate 2 ''low'') ! i,
                int i + 1)) [0..<15]"
proof -
  have "length BANKS = 5" by (simp add: BANKS_def)
  moreover have "length statement_qualities = 15" by (simp add: statement_qualities_def)
  ultimately show ?thesis
    unfolding loop_calls_enumerate by (simp add: statement_qualities_def)
qed

lemma list_all2_right: "list_all2 (\<lambda>e f. P f) es fs \<Longrightarrow> list_all P fs"
  by (induction rule: list_all2_induct) simp_all

lemma document_is_image: "document_recorded E r T d n q k ent e f \<Longrightarrow> \<exists>img. snd f = PNG img"
  unfolding document_recorded_def by blast

lemma written_images:
  assumes l: "length es1 = length fs1" "length es2 = length fs2" "length es3 = length fs3"
    and a1: "list_all2 (receipt_recorded E r) cs1 (zip es1 fs1)"
    and a2: "list_all2 (letter_recorded E r) cs2 (zip es2 fs2)"
    and a3: "list_all2 (statement_recorded E r) cs3 (zip es3 fs3)"
  shows "list_all (\<lambda>f. \<exists>img. snd f = PNG img) (fs1 @ fs2 @ fs3)"
proof -
  have "list_all2 (\<lambda>e f. \<exists>img. snd f = PNG img) es1 fs1"
    by (rule list_all2_zip_rel [OF a1 l(1)])
      (auto simp: receipt_recorded_def dest: document_is_image)
  moreover have "list_all2 (\<lambda>e f. \<exists>img. snd f = PNG img) es2 fs2"
    by (rule list_all2_zip_rel [OF a2 l(2)])
      (auto simp: letter_recorded_def dest: document_is_image)
  moreover have "list_all2 (\<lambda>e f. \<exists>img. snd f = PNG img) es3 fs3"
    by (rule list_all2_zip_rel [OF a3 l(3)])
      (auto simp: statement_recorded_def dest: document_is_image)
  ultimately show ?thesis
    by (simp add: list_all2_right)
qed

text \<open>
  Claim C6. A run makes, in this order, 30 receipts, 20 acknowledgment letters
  and 15 bank statements, one call of the matching renderer per scheduled
  document and one record and one image per call: the i-th receipt (from 0) is for
  organization \<open>i mod 8\<close> of the catalog, has the i-th label of 12 times high, 9
  times medium, 6 times low and 3 times edge, and the index \<open>i + 1\<close>; the letters
  have 10 times high, 6 times medium and 4 times low; the statements go through
  the 5 banks with 8 times high, 5 times medium and 2 times low. The last file
  written, and the only one that is not an image, is the manifest: its
  \<^verbatim>\<open>documents\<close> are the 65 records, its \<^verbatim>\<open>totalDocuments\<close> is 65 and its
  \<^verbatim>\<open>documentCounts\<close> are 30, 20 and 15.
\<close>

theorem driver_schedule:
  "\<exists>r st m es1 fs1 es2 fs2 es3 fs3.
     program E g = Inr st \<and> fst (module_load g) = QUALITY_SETTINGS r \<and>
     manifest_entries st = es1 @ es2 @ es3 \<and>
     files st = fs1 @ fs2 @ fs3 @ [(MANIFEST_PATH E, JSON m)] \<and>
     list_all (\<lambda>f. \<exists>img. snd f = PNG img) (fs1 @ fs2 @ fs3) \<and>
     length fs1 = 30 \<and> length fs2 = 20 \<and> length fs3 = 15 \<and>
     length es1 = 30 \<and> length es2 = 20 \<and> length es3 = 15 \<and>
     length ORGANIZATIONS = 8 \<and> length BANKS = 5 \<and>
     list_all2 (receipt_recorded E r)
       (map (\<lambda>i. (ORGANIZATIONS ! (i mod 8),
                (replicate 12 ''high'' @ replicate 9 ''medium'' @ replicate 6 ''low'' @
                 replicate 3 ''edge'') ! i, int i + 1)) [0..<30])
       (zip es1 fs1) \<and>
     list_all2 (letter_recorded E r)
       (map (\<lambda>i. (ORGANIZATIONS ! (i mod 8),
                (replicate 10 ''high'' @ replicate 6 ''medium'' @ replicate 4 ''low'') ! i,
                int i + 1)) [0..<20])
       (zip es2 fs2) \<and>
     list_all2 (statement_recorded E r)
       (map (\<lambda>i. (BANKS ! (i mod 5),
                (replicate 8 ''high'' @ replicate 5 ''medium'' @ replicate 2 ''low'') ! i,
                int i + 1)) [0..<15])
       (zip es3 fs3) \<and>
     json_get ''documents'' m = Some (JList (es1 @ es2 @ es3)) \<and>
     length (es1 @ es2 @ es3) = 65 \<and>
     json_get ''totalDocuments'' m = Some (JInt 65) \<and>
     json_get ''documentCounts'' m =
       Some (JDict [(''receipts'', JInt 30), (''acknowledgment_letters'', JInt 20),
                    (''bank_statements'', JInt 15)])"
proof -
  obtain r st m es1 fs1 es2 fs2 es3 fs3 where
    p: "program E g = Inr st" and ml: "fst (module_load g) = QUALITY_SETTINGS r"
    and es: "manifest_entries st = es1 @ es2 @ es3"
    and fs: "files st = fs1 @ fs2 @ fs3 @ [(MANIFEST_PATH E, JSON m)]"
    and tot: "json_get ''totalDocuments'' m = Some (JInt (int (length (es1 @ es2 @ es3))))"
    and cnt: "json_get ''documentCounts'' m =
       Some (JDict [(''receipts'', JInt 30), (''acknowledgment_letters'', JInt 20),
                    (''bank_statements'', JInt 15)])"
    and docs: "json_get ''documents'' m = Some (JList (es1 @ es2 @ es3))"
    and l: "length es1 = length fs1" "length es2 = length fs2" "length es3 = length fs3"
    and n: "length es1 = 30" "length es2 = 20" "length es3 = 15"
    and a1: "list_all2 (receipt_recorded E r)
       (loop_calls ORGANIZATIONS (enumerate 0 receipt_qualities) 0) (zip es1 fs1)"
    and a2: "list_all2 (letter_recorded E r)
       (loop_calls ORGANIZATIONS (enumerate 0 letter_qualities) 0) (zip es2 fs2)"
    and a3: "list_all2 (statement_recorded E r)
       (loop_calls BANKS (enumerate 0 statement_qualities) 0) (zip es3 fs3)"
    using program_documents [of E g] by blast
  note imgs = written_images [OF l a1 a2 a3]
  have lo: "length ORGANIZATIONS = 8" by (simp add: ORGANIZATIONS_def)
  have lb: "length BANKS = 5" by (simp add: BANKS_def)
  have len: "length (es1 @ es2 @ es3) = 65" using n by simp
  have tot': "json_get ''totalDocuments'' m = Some (JInt 65)"
    unfolding tot len by simp
  have fl: "length fs1 = 30" "length fs2 = 20" "length fs3 = 15" using l n by simp_all
  show ?thesis
    apply (rule exI [of _ r], rule exI [of _ st], rule exI [of _ m],
           rule exI [of _ es1], rule exI [of _ fs1], rule exI [of _ es2], rule exI [of _ fs2],
           rule exI [of _ es3], rule exI [of _ fs3])
    apply (intro conjI)
    subgoal by (rule p)
    subgoal by (rule ml)
    subgoal by (rule es)
    subgoal by (rule fs)
    subgoal by (rule imgs)
    subgoal by (rule fl)
    subgoal by (rule fl)
    subgoal by (rule fl)
    subgoal by (rule n)
    subgoal by (rule n)
    subgoal by (rule n)
    subgoal by (rule lo)
    subgoal by (rule lb)
    subgoal using a1 unfolding receipt_calls .
    subgoal using a2 unfolding letter_calls .
    subgoal using a3 unfolding statement_calls .
    subgoal by (rule docs)
    subgoal by (rule len)
    subgoal by (rule tot')
    subgoal by (rule cnt)
    done
qed

section \<open>The rotation of the edge preset\<close>

lemma apply_quality_edge:
  assumes r: "0 < r"
  shows "\<exists>img' g' N sign.
     apply_quality E (QUALITY_SETTINGS r) img ''edge'' g = Inr (img', g') \<and>
     ops img' = ops img @ [GaussianBlur (4 / 5)] @ N @
                [Rotate (sign * r) (RGB 255 255 255) True] \<and>
     (sign = 1 \<or> sign = - 1) \<and>
     list_all (is_noise_op (img_load E (img\<lparr>ops := ops img @ [GaussianBlur (4 / 5)]\<rparr>)) 15
                 (width img) (height img)) N"
proof -
  define s where "s = \<lparr>blur = 4 / 5, noise = 15, rotation = r\<rparr>"
  have s: "s = (case map_of (QUALITY_SETTINGS r) ''edge'' of Some s \<Rightarrow> s
                | None \<Rightarrow> \<lparr>blur = 0, noise = 0, rotation = 0\<rparr>)"
    by (simp add: s_def QUALITY_SETTINGS_lookup)
  have n: "0 \<le> noise s" by (simp add: s_def)
  obtain N sign g' where
    aq: "apply_quality E (QUALITY_SETTINGS r) img ''edge'' g =
             Inr (if 0 < rotation s then
                    img_rotate E
                      (img\<lparr>ops := ops img @ (if 0 < blur s then [GaussianBlur (blur s)] else []) @ N\<rparr>)
                      (sign * rotation s) (RGB 255 255 255) True
                  else img\<lparr>ops := ops img @ (if 0 < blur s then [GaussianBlur (blur s)] else []) @ N\<rparr>,
                  g')"
    and sg: "sign = 1 \<or> sign = - 1"
    and nn: "if 0 < noise s then
              list_all (is_noise_op
                 (img_load E (img\<lparr>ops := ops img @ (if 0 < blur s then [GaussianBlur (blur s)] else [])\<rparr>))
                 (noise s) (width img) (height img)) N
            else N = [] \<and> (rotation s \<le> 0 \<longrightarrow> g' = g)"
    using apply_quality_settings [OF QUALITY_SETTINGS_lookup(1) s n, of E img g] by blast
  let ?img' = "img_rotate E (img\<lparr>ops := ops img @ [GaussianBlur (4 / 5)] @ N\<rparr>)
                 (sign * r) (RGB 255 255 255) True"
  have "apply_quality E (QUALITY_SETTINGS r) img ''edge'' g = Inr (?img', g')"
    using aq r by (simp add: s_def)
  moreover have "ops ?img' = ops img @ [GaussianBlur (4 / 5)] @ N @
                [Rotate (sign * r) (RGB 255 255 255) True]"
    by (simp add: img_rotate_def Let_def)
  moreover have "list_all (is_noise_op (img_load E (img\<lparr>ops := ops img @ [GaussianBlur (4 / 5)]\<rparr>)) 15
                 (width img) (height img)) N"
    using nn by (simp add: s_def)
  ultimately show ?thesis using sg by blast
qed

lemma rotation_angles_append:
  "rotation_angles (xs @ ys) = rotation_angles xs @ rotation_angles ys"
  by (induction xs) simp_all

lemma rotation_angles_drawn:
  "list_all (\<lambda>x. \<not> is_degradation_op x) xs \<Longrightarrow> rotation_angles xs = []"
  by (induction xs) (auto simp: is_degradation_op_def split: op.splits)

lemma rotation_angles_noise:
  "list_all (is_noise_op px a w h) N \<Longrightarrow> rotation_angles N = []"
  by (induction N) (auto simp: is_noise_op_def split: op.splits)

lemma edge_document_rotation:
  assumes rec: "document_recorded E r T d n ''edge'' k ent e f" and r: "0 < r"
  shows "\<exists>img. snd f = PNG img \<and>
           (rotation_angles (ops img) = [r] \<or> rotation_angles (ops img) = [- r])"
proof -
  obtain canvas g img g' where png: "snd f = PNG img"
    and c: "list_all (\<lambda>x. \<not> is_degradation_op x) (ops canvas)"
    and aq: "apply_quality E (QUALITY_SETTINGS r) (add_watermark E canvas) ''edge'' g = Inr (img, g')"
    using rec unfolding document_recorded_def by blast
  obtain img' g'' N sign where
    aq': "apply_quality E (QUALITY_SETTINGS r) (add_watermark E canvas) ''edge'' g = Inr (img', g'')"
    and o: "ops img' = ops (add_watermark E canvas) @ [GaussianBlur (4 / 5)] @ N @
                [Rotate (sign * r) (RGB 255 255 255) True]"
    and sg: "sign = 1 \<or> sign = - 1"
    and nn: "list_all (is_noise_op
                 (img_load E ((add_watermark E canvas)
                    \<lparr>ops := ops (add_watermark E canvas) @ [GaussianBlur (4 / 5)]\<rparr>)) 15
                 (width (add_watermark E canvas)) (height (add_watermark E canvas))) N"
    using apply_quality_edge [OF r, of E "add_watermark E canvas" g] by blast
  have "img' = img" using aq aq' by simp
  then have "rotation_angles (ops img) = [sign * r]"
    using o rotation_angles_drawn [OF c] rotation_angles_noise [OF nn]
    by (simp add: rotation_angles_append add_watermark_ops)
  then show ?thesis using png sg by auto
qed


lemma loop_calls_qualities:
  "map (\<lambda>c. fst (snd c)) (loop_calls catalog (enumerate n qs) c) = qs"
  by (simp add: loop_calls_enumerate o_def map_nth)

lemma length_filter_zip:
  "length es = length fs \<Longrightarrow>
     length (filter (\<lambda>ef. p (fst ef)) (zip es fs)) = length (filter p es)"
  by (induction es fs rule: list_induct2) simp_all

lemma length_filter_map:
  "length (filter (\<lambda>x. h x = v) es) = length (filter (\<lambda>y. y = v) (map h es))"
  by (simp add: filter_map o_def)

lemma manifest_qualities:
  assumes l: "length es1 = length fs1" "length es2 = length fs2" "length es3 = length fs3"
    and a1: "list_all2 (receipt_recorded E r)
       (loop_calls ORGANIZATIONS (enumerate 0 receipt_qualities) 0) (zip es1 fs1)"
    and a2: "list_all2 (letter_recorded E r)
       (loop_calls ORGANIZATIONS (enumerate 0 letter_qualities) 0) (zip es2 fs2)"
    and a3: "list_all2 (statement_recorded E r)
       (loop_calls BANKS (enumerate 0 statement_qualities) 0) (zip es3 fs3)"
  shows "map (json_get ''quality'') (es1 @ es2 @ es3) =
     map (\<lambda>q. Some (JStr q)) (receipt_qualities @ letter_qualities @ statement_qualities)"
proof -
  have "map (json_get ''quality'') es1 =
          map (\<lambda>c. Some (JStr (fst (snd c)))) (loop_calls ORGANIZATIONS (enumerate 0 receipt_qualities) 0)"
    by (rule list_all2_zip_map [OF a1 l(1)])
      (auto simp: receipt_recorded_def document_recorded_def)
  also have "\<dots> = map (\<lambda>q. Some (JStr q))
       (map (\<lambda>c. fst (snd c)) (loop_calls ORGANIZATIONS (enumerate 0 receipt_qualities) 0))"
    by (simp only: map_map o_def)
  finally have q1: "map (json_get ''quality'') es1 = map (\<lambda>q. Some (JStr q)) receipt_qualities"
    by (simp only: loop_calls_qualities)
  have "map (json_get ''quality'') es2 =
          map (\<lambda>c. Some (JStr (fst (snd c)))) (loop_calls ORGANIZATIONS (enumerate 0 letter_qualities) 0)"
    by (rule list_all2_zip_map [OF a2 l(2)])
      (auto simp: letter_recorded_def document_recorded_def)
  also have "\<dots> = map (\<lambda>q. Some (JStr q))
       (map (\<lambda>c. fst (snd c)) (loop_calls ORGANIZATIONS (enumerate 0 letter_qualities) 0))"
    by (simp only: map_map o_def)
  finally have q2: "map (json_get ''quality'') es2 = map (\<lambda>q. Some (JStr q)) letter_qualities"
    by (simp only: loop_calls_qualities)
  have "map (json_get ''quality'') es3 =
          map (\<lambda>c. Some (JStr (fst (snd c)))) (loop_calls BANKS (enumerate 0 statement_qualities) 0)"
    by (rule list_all2_zip_map [OF a3 l(3)])
      (auto simp: statement_recorded_def document_recorded_def)
  also have "\<dots> = map (\<lambda>q. Some (JStr q))
       (map (\<lambda>c. fst (snd c)) (loop_calls BANKS (enumerate 0 statement_qualities) 0))"
    by (simp only: map_map o_def)
  finally have q3: "map (json_get ''quality'') es3 = map (\<lambda>q. Some (JStr q)) statement_qualities"
    by (simp only: loop_calls_qualities)
  show ?thesis by (simp only: map_append q1 q2 q3)
qed

lemma edge_documents_count:
  assumes len: "length es = length fs"
    and q: "map (json_get ''quality'') es =
      map (\<lambda>q. Some (JStr q)) (receipt_qualities @ letter_qualities @ statement_qualities)"
  shows "length (edge_documents es fs) = 3"
proof -
  have "length (edge_documents es fs) =
          length (filter (\<lambda>e. json_get ''quality'' e = Some (JStr ''edge'')) es)"
    unfolding edge_documents_def by (rule length_filter_zip [OF len])
  also have "\<dots> = length (filter (\<lambda>y. y = Some (JStr ''edge'')) (map (json_get ''quality'') es))"
    by (rule length_filter_map)
  also have "\<dots> = 3"
    unfolding q by (simp add: receipt_qualities_def letter_qualities_def statement_qualities_def)
  finally show ?thesis .
qed

lemma edge_documents_rotated:
  assumes r: "0 < r"
    and l: "length es1 = length fs1" "length es2 = length fs2" "length es3 = length fs3"
    and a1: "list_all2 (receipt_recorded E r) cs1 (zip es1 fs1)"
    and a2: "list_all2 (letter_recorded E r) cs2 (zip es2 fs2)"
    and a3: "list_all2 (statement_recorded E r) cs3 (zip es3 fs3)"
  shows "list_all
     (\<lambda>(e, path, c). \<exists>img. c = PNG img \<and>
         (rotation_angles (ops img) = [r] \<or> rotation_angles (ops img) = [- r]))
     (edge_documents (es1 @ es2 @ es3) (fs1 @ fs2 @ fs3))"
proof -
  let ?P = "\<lambda>e f. json_get ''quality'' e = Some (JStr ''edge'') \<longrightarrow>
     (\<exists>img. snd f = PNG img \<and>
        (rotation_angles (ops img) = [r] \<or> rotation_angles (ops img) = [- r]))"
  have doc: "?P e f" if "document_recorded E r T d n q k ent e f" for T d n q k ent e f
  proof
    assume "json_get ''quality'' e = Some (JStr ''edge'')"
    moreover have "json_get ''quality'' e = Some (JStr q)"
      using that unfolding document_recorded_def by blast
    ultimately have "q = ''edge''" by simp
    then show "\<exists>img. snd f = PNG img \<and>
        (rotation_angles (ops img) = [r] \<or> rotation_angles (ops img) = [- r])"
      using edge_document_rotation [OF _ r] that by blast
  qed
  have "list_all2 ?P es1 fs1"
  proof (rule list_all2_zip_rel [OF a1 l(1)])
    fix c e f assume rec: "receipt_recorded E r c (e, f)"
    obtain x q idx where c: "c = (x, q, idx)" by (cases c)
    show "?P e f"
      using rec unfolding receipt_recorded_def c prod.case fst_conv snd_conv by (rule doc)
  qed
  moreover have "list_all2 ?P es2 fs2"
  proof (rule list_all2_zip_rel [OF a2 l(2)])
    fix c e f assume rec: "letter_recorded E r c (e, f)"
    obtain x q idx where c: "c = (x, q, idx)" by (cases c)
    show "?P e f"
      using rec unfolding letter_recorded_def c prod.case fst_conv snd_conv by (rule doc)
  qed
  moreover have "list_all2 ?P es3 fs3"
  proof (rule list_all2_zip_rel [OF a3 l(3)])
    fix c e f assume rec: "statement_recorded E r c (e, f)"
    obtain x q idx where c: "c = (x, q, idx)" by (cases c)
    show "?P e f"
      using rec unfolding statement_recorded_def c prod.case fst_conv snd_conv by (rule doc)
  qed
  ultimately have "list_all2 ?P (es1 @ es2 @ es3) (fs1 @ fs2 @ fs3)"
    by (intro list_all2_appendI)
  then have "\<forall>(e, f) \<in> set (zip (es1 @ es2 @ es3) (fs1 @ fs2 @ fs3)). ?P e f"
    unfolding list_all2_iff by blast
  then show ?thesis
    unfolding edge_documents_def list_all_iff by auto
qed

text \<open>
  Claim C7. Loading the module draws the rotation of the \<^verbatim>\<open>"edge"\<close> preset once,
  with \<^verbatim>\<open>randint(5, 15)\<close> on the state the generator starts in, and the run that
  follows uses that preset for every image: it makes three \<^verbatim>\<open>"edge"\<close> documents,
  and the image of each of them has exactly one rotation, by that magnitude, to the
  left or to the right. The sign is drawn in each call of \<^verbatim>\<open>apply_quality\<close>, with
  \<^verbatim>\<open>random.choice([-1, 1])\<close> on the generator the noise step leaves.
\<close>

theorem edge_rotation_sampled_once:
  "\<exists>r st m es fs.
     r = fst (randint 5 15 g) \<and> 5 \<le> r \<and> r \<le> 15 \<and>
     map_of (fst (module_load g)) ''edge'' = Some \<lparr>blur = 4 / 5, noise = 15, rotation = r\<rparr> \<and>
     program E g = Inr st \<and> manifest_entries st = es \<and>
     files st = fs @ [(MANIFEST_PATH E, JSON m)] \<and> length es = length fs \<and>
     length (edge_documents es fs) = 3 \<and>
     list_all
       (\<lambda>(e, path, c). \<exists>img. c = PNG img \<and>
           (rotation_angles (ops img) = [r] \<or> rotation_angles (ops img) = [- r]))
       (edge_documents es fs) \<and>
     (\<exists>N g1 sign g'.
        noise_ops (img_load E (img\<lparr>ops := ops img @ [GaussianBlur (4 / 5)]\<rparr>)) 15
          (pixel_order (width img) (height img)) g2 = (N, g1) \<and>
        choice (- 1) [1] g1 = (sign, g') \<and> (sign = 1 \<or> sign = - 1) \<and>
        apply_quality E (fst (module_load g)) img ''edge'' g2 =
          Inr (img_rotate E (img\<lparr>ops := ops img @ [GaussianBlur (4 / 5)] @ N\<rparr>)
                 (sign * r) (RGB 255 255 255) True, g'))"
proof -
  obtain r st m es1 fs1 es2 fs2 es3 fs3 where
    p: "program E g = Inr st" and ml: "fst (module_load g) = QUALITY_SETTINGS r"
    and rr: "r = fst (randint 5 15 g)" and r: "5 \<le> r" "r \<le> 15"
    and es: "manifest_entries st = es1 @ es2 @ es3"
    and fs: "files st = fs1 @ fs2 @ fs3 @ [(MANIFEST_PATH E, JSON m)]"
    and l: "length es1 = length fs1" "length es2 = length fs2" "length es3 = length fs3"
    and a1: "list_all2 (receipt_recorded E r)
       (loop_calls ORGANIZATIONS (enumerate 0 receipt_qualities) 0) (zip es1 fs1)"
    and a2: "list_all2 (letter_recorded E r)
       (loop_calls ORGANIZATIONS (enumerate 0 letter_qualities) 0) (zip es2 fs2)"
    and a3: "list_all2 (statement_recorded E r)
       (loop_calls BANKS (enumerate 0 statement_qualities) 0) (zip es3 fs3)"
    using program_documents [of E g] by blast
  have pos: "0 < r" using r by simp
  have len: "length (es1 @ es2 @ es3) = length (fs1 @ fs2 @ fs3)" using l by simp
  have edge: "map_of (fst (module_load g)) ''edge'' = Some \<lparr>blur = 4 / 5, noise = 15, rotation = r\<rparr>"
    unfolding ml by (rule QUALITY_SETTINGS_lookup)
  note cnt = edge_documents_count [OF len manifest_qualities [OF l a1 a2 a3]]
  note rot = edge_documents_rotated [OF pos l a1 a2 a3]
  have call: "\<exists>N g1 sign g'.
        noise_ops (img_load E (img\<lparr>ops := ops img @ [GaussianBlur (4 / 5)]\<rparr>)) 15
          (pixel_order (width img) (height img)) g2 = (N, g1) \<and>
        choice (- 1) [1] g1 = (sign, g') \<and> (sign = 1 \<or> sign = - 1) \<and>
        apply_quality E (fst (module_load g)) img ''edge'' g2 =
          Inr (img_rotate E (img\<lparr>ops := ops img @ [GaussianBlur (4 / 5)] @ N\<rparr>)
                 (sign * r) (RGB 255 255 255) True, g')"
  proof -
    obtain N g1 where n: "noise_ops (img_load E (img\<lparr>ops := ops img @ [GaussianBlur (4 / 5)]\<rparr>)) 15
          (pixel_order (width img) (height img)) g2 = (N, g1)" by fastforce
    obtain sign g' where c: "choice (- 1 :: int) [1] g1 = (sign, g')" by fastforce
    have "sign = 1 \<or> sign = - 1" using choice_sign [of g1] c by simp
    then show ?thesis
      using n c apply_quality_edge_noise [OF pos n c] unfolding ml by blast
  qed
  show ?thesis
    apply (rule exI [of _ r], rule exI [of _ st], rule exI [of _ m],
           rule exI [of _ "es1 @ es2 @ es3"], rule exI [of _ "fs1 @ fs2 @ fs3"])
    apply (intro conjI)
    subgoal by (rule rr)
    subgoal by (rule r)
    subgoal by (rule r)
    subgoal by (rule edge)
    subgoal by (rule p)
    subgoal by (rule es)
    subgoal using fs by simp
    subgoal by (rule len)
    subgoal by (rule cnt)
    subgoal by (rule rot)
    subgoal by (rule call)
    done
qed

section \<open>Two runs\<close>

lemma generate_all_entries:
  assumes cat: "catalog \<noteq> []"
    and render: "\<And>c q idx st. \<exists>fname e f g'.
        render c q idx st =
          Inr (fname, st\<lparr>random_state := g', files := files st @ [f],
                         manifest_entries := manifest_entries st @ [e]\<rparr>) \<and>
        R (c, q, idx) (e, f)"
  shows "\<exists>c' st' es. generate_all render catalog sched (count, st) = Inr (c', st') \<and>
           manifest_entries st' = manifest_entries st @ es"
proof -
  obtain es fs g' where
    "generate_all render catalog sched (count, st) =
       Inr (count + int (length sched),
            st\<lparr>random_state := g', files := files st @ fs,
               manifest_entries := manifest_entries st @ es\<rparr>)"
    using generate_all_spec [of catalog render R sched count st, OF cat render] by blast
  then show ?thesis by simp
qed

lemma generate_all_head:
  assumes cat: "catalog \<noteq> []"
    and render: "\<And>c q idx st. \<exists>fname e f g'.
        render c q idx st =
          Inr (fname, st\<lparr>random_state := g', files := files st @ [f],
                         manifest_entries := manifest_entries st @ [e]\<rparr>) \<and>
        R (c, q, idx) (e, f)"
    and first: "render (catalog ! (i mod length catalog)) q (count + 1) st = Inr (fname, st1)"
  shows "\<exists>c' st' es. generate_all render catalog ((i, q) # rest) (count, st) = Inr (c', st') \<and>
           manifest_entries st' = manifest_entries st1 @ es"
proof -
  obtain c' st' es where "generate_all render catalog rest (count + 1, st1) = Inr (c', st')"
    and "manifest_entries st' = manifest_entries st1 @ es"
    using generate_all_entries [where catalog = catalog and render = render and R = R
        and sched = rest and count = "count + 1" and st = st1, OF cat render] by blast
  then show ?thesis using cat first by simp
qed

lemma program_first_record:
  "\<exists>st rest date amount receipt_num g1.
     program E g = Inr st \<and> random_date (\<lambda>i. g (Suc i)) = (date, g1) \<and>
     manifest_entries st =
       JDict
         [(''filename'', JStr ''receipts/receipt_goodwill_high_001.png''),
          (''documentType'', JStr ''receipt''),
          (''quality'', JStr ''high''),
          (''synthetic'', JBool True),
          (''expectedFields'', JDict
             [(''organization_name'', JStr ''Goodwill Industries''),
              (''ein'', JStr ''53-0196517''),
              (''amount'', JFloat amount),
              (''date'', JStr (strftime date ''%Y-%m-%d'')),
              (''donor_name'', JStr ''Test Donor''),
              (''receipt_number'', JStr receipt_num)])] # rest"
proof -
  obtain r where r: "module_load g = (QUALITY_SETTINGS r, (\<lambda>i. g (Suc i)))"
    using module_load_eq [of g] by blast
  let ?ds = "map (\<lambda>subdir. os_path_join (OUTPUT_DIR E) [subdir])
                   [''receipts'', ''acknowledgment_letters'', ''bank_statements'',
                    ''credit_card_statements'', ''cancelled_checks'', ''appraisals'',
                    ''form_8283'', ''other'']"
  let ?init = "\<lparr>random_state = (\<lambda>i. g (Suc i)), dirs = [], files = [], manifest_entries = []\<rparr>"
  let ?st0 = "?init\<lparr>dirs := dirs ?init @ ?ds, manifest_entries := []\<rparr>"
  let ?org = "\<lparr>name = ''Goodwill Industries'', ein = ''53-0196517'', short = ''goodwill''\<rparr>"
  have orgs: "ORGANIZATIONS \<noteq> []" by (simp add: ORGANIZATIONS_def)
  have banks: "BANKS \<noteq> []" by (simp add: BANKS_def)
  have org0: "ORGANIZATIONS ! (0 mod length ORGANIZATIONS) = ?org" by (simp add: ORGANIZATIONS_def)
  define sched where "sched = enumerate (Suc 0)
     (replicate 11 ''high'' @ replicate 9 ''medium'' @ replicate 6 ''low'' @ replicate 3 ''edge'')"
  have "replicate 12 ''high'' = ''high'' # replicate 11 ''high''"
    using replicate_Suc [of 11 "''high''"] by simp
  then have sched: "enumerate 0 receipt_qualities = (0, ''high'') # sched"
    by (simp add: receipt_qualities_def sched_def)
  obtain img date amount receipt_num g' num g1 g2 g3 where
    gen: "generate_receipt E (QUALITY_SETTINGS r) ?org ''high'' 1 ?st0 =
       Inr (''receipt_'' @ short ?org @ ''_'' @ ''high'' @ ''_'' @ format_0d 3 1 @ ''.png'',
         ?st0\<lparr>random_state := g',
            files := files ?st0 @
              [(os_path_join (OUTPUT_DIR E)
                  [''receipts'',
                   ''receipt_'' @ short ?org @ ''_'' @ ''high'' @ ''_'' @ format_0d 3 1 @ ''.png''],
                PNG img)],
            manifest_entries := manifest_entries ?st0 @
              [JDict
                 [(''filename'', JStr (''receipts/'' @ ''receipt_'' @ short ?org @ ''_'' @ ''high'' @
                     ''_'' @ format_0d 3 1 @ ''.png'')),
                  (''documentType'', JStr ''receipt''),
                  (''quality'', JStr ''high''),
                  (''synthetic'', JBool True),
                  (''expectedFields'', JDict
                     [(''organization_name'', JStr (name ?org)),
                      (''ein'', JStr (ein ?org)),
                      (''amount'', JFloat amount),
                      (''date'', JStr (strftime date ''%Y-%m-%d'')),
                      (''donor_name'', JStr ''Test Donor''),
                      (''receipt_number'', JStr receipt_num)])]]\<rparr>)"
    and d1: "random_date (random_state ?st0) = (date, g1)"
    using receipt_fields [of E r ?org "''high''" 1 ?st0] by blast
  let ?e = "JDict
         [(''filename'', JStr ''receipts/receipt_goodwill_high_001.png''),
          (''documentType'', JStr ''receipt''),
          (''quality'', JStr ''high''),
          (''synthetic'', JBool True),
          (''expectedFields'', JDict
             [(''organization_name'', JStr ''Goodwill Industries''),
              (''ein'', JStr ''53-0196517''),
              (''amount'', JFloat amount),
              (''date'', JStr (strftime date ''%Y-%m-%d'')),
              (''donor_name'', JStr ''Test Donor''),
              (''receipt_number'', JStr receipt_num)])]"
  obtain fname st1 where
    first: "generate_receipt E (QUALITY_SETTINGS r) (ORGANIZATIONS ! (0 mod length ORGANIZATIONS))
              ''high'' (0 + 1) ?st0 = Inr (fname, st1)"
    and m1: "manifest_entries st1 = [?e]"
    unfolding org0 using gen by (simp add: first_strings)
  obtain c1 st2 es1 where
    l1: "generate_all (generate_receipt E (QUALITY_SETTINGS r)) ORGANIZATIONS
           (enumerate 0 receipt_qualities) (0, ?st0) = Inr (c1, st2)"
    and m2: "manifest_entries st2 = manifest_entries st1 @ es1"
    unfolding sched
    using generate_all_head [where catalog = ORGANIZATIONS
        and render = "generate_receipt E (QUALITY_SETTINGS r)" and R = "receipt_recorded E r"
        and rest = sched, OF orgs receipt_call_recorded first] by blast
  obtain c2 st3 es2 where
    l2: "generate_all (generate_acknowledgment_letter E (QUALITY_SETTINGS r)) ORGANIZATIONS
           (enumerate 0 letter_qualities) (0, st2) = Inr (c2, st3)"
    and m3: "manifest_entries st3 = manifest_entries st2 @ es2"
    using generate_all_entries [where catalog = ORGANIZATIONS
        and render = "generate_acknowledgment_letter E (QUALITY_SETTINGS r)"
        and R = "letter_recorded E r" and sched = "enumerate 0 letter_qualities" and count = 0
        and st = st2, OF orgs letter_call_recorded]
    by blast
  obtain c3 st4 es3 where
    l3: "generate_all (generate_bank_statement E (QUALITY_SETTINGS r)) BANKS
           (enumerate 0 statement_qualities) (0, st3) = Inr (c3, st4)"
    and m4: "manifest_entries st4 = manifest_entries st3 @ es3"
    using generate_all_entries [where catalog = BANKS
        and render = "generate_bank_statement E (QUALITY_SETTINGS r)"
        and R = "statement_recorded E r" and sched = "enumerate 0 statement_qualities"
        and count = 0 and st = st3, OF banks statement_call_recorded]
    by blast
  have "\<exists>st. main E (QUALITY_SETTINGS r) ?init = Inr st \<and> manifest_entries st = manifest_entries st4"
    using l1 l2 l3 by (simp add: main_def Let_def)
  then obtain st where p: "program E g = Inr st" and m: "manifest_entries st = manifest_entries st4"
    unfolding program_def r by auto
  have "manifest_entries st = ?e # (es1 @ es2 @ es3)"
    unfolding m m4 m3 m2 m1 by simp
  then show ?thesis using p d1 by auto
qed


lemma list_all2_zip_map_snd:
  assumes "list_all2 R cs (zip es fs)" and "length es = length fs"
    and "\<And>c e f. R c (e, f) \<Longrightarrow> h f = k c"
  shows "map h fs = map k cs"
proof (rule nth_equalityI)
  show "length (map h fs) = length (map k cs)"
    using assms(1,2) by (auto simp: list_all2_conv_all_nth)
next
  fix i assume "i < length (map h fs)"
  then have i: "i < length fs" by simp
  then have "R (cs ! i) (es ! i, fs ! i)"
    using assms(1,2) by (auto simp: list_all2_conv_all_nth)
  then show "map h fs ! i = map k cs ! i"
    using assms(1,2) i assms(3) by (auto simp: list_all2_conv_all_nth)
qed

lemma program_edge_image:
  "\<exists>r st img.
     program E g = Inr st \<and> r = fst (randint 5 15 g) \<and>
     files st ! 27 =
       (os_path_join (OUTPUT_DIR E) [''receipts'', ''receipt_habitat_edge_028.png''], PNG img) \<and>
     (rotation_angles (ops img) = [r] \<or> rotation_angles (ops img) = [- r])"
proof -
  obtain r st m es1 fs1 es2 fs2 es3 fs3 where
    p: "program E g = Inr st" and rr: "r = fst (randint 5 15 g)" and r: "5 \<le> r"
    and fs: "files st = fs1 @ fs2 @ fs3 @ [(MANIFEST_PATH E, JSON m)]"
    and l: "length es1 = length fs1" and n: "length es1 = 30"
    and a1: "list_all2 (receipt_recorded E r)
       (loop_calls ORGANIZATIONS (enumerate 0 receipt_qualities) 0) (zip es1 fs1)"
    using program_documents [of E g] by blast
  let ?org = "\<lparr>name = ''Habitat for Humanity'', ein = ''91-1914868'', short = ''habitat''\<rparr>"
  have c: "loop_calls ORGANIZATIONS (enumerate 0 receipt_qualities) 0 ! 27 = (?org, ''edge'', 28)"
    unfolding receipt_calls by (simp add: ORGANIZATIONS_def nth_append)
  have len: "27 < length (loop_calls ORGANIZATIONS (enumerate 0 receipt_qualities) 0)"
    unfolding receipt_calls by simp
  have z: "zip es1 fs1 ! 27 = (es1 ! 27, fs1 ! 27)" using l n by simp
  have "receipt_recorded E r (?org, ''edge'', 28) (es1 ! 27, fs1 ! 27)"
    using list_all2_nthD [OF a1 len] unfolding c z .
  then have doc: "document_recorded E r ''receipt'' ''receipts''
          (''receipt_'' @ short ?org @ ''_'' @ ''edge'' @ ''_'' @ format_0d 3 28 @ ''.png'') ''edge''
          ''organization_name'' (name ?org) (es1 ! 27) (fs1 ! 27)"
    by (simp add: receipt_recorded_def)
  have pos: "0 < r" using r by simp
  obtain img where png: "snd (fs1 ! 27) = PNG img"
    and rot: "rotation_angles (ops img) = [r] \<or> rotation_angles (ops img) = [- r]"
    using edge_document_rotation [OF doc pos] by blast
  have f28: "format_0d 3 28 = ''028''" by code_simp
  have path: "fst (fs1 ! 27) =
      os_path_join (OUTPUT_DIR E) [''receipts'', ''receipt_habitat_edge_028.png'']"
    using doc unfolding document_recorded_def f28 by simp
  have "files st ! 27 = fs1 ! 27" unfolding fs using l n by (simp add: nth_append)
  then have "files st ! 27 =
       (os_path_join (OUTPUT_DIR E) [''receipts'', ''receipt_habitat_edge_028.png''], PNG img)"
    using png path by (simp add: prod_eq_iff)
  then show ?thesis using p rr rot by blast
qed

lemma second_run_draws:
  "fst (randint 5 15 (\<lambda>i. 0)) = 5"
  "fst (randint 5 15 (\<lambda>i. 1)) = 6"
  "fst (random_date (\<lambda>i. 1)) = 739253"
  "strftime 739253 ''%Y-%m-%d'' = ''2025-01-02''"
  by code_simp+


lemma record_headers:
  assumes l: "length es1 = length fs1" "length es2 = length fs2" "length es3 = length fs3"
    and a1: "list_all2 (receipt_recorded E r) cs1 (zip es1 fs1)"
    and a2: "list_all2 (letter_recorded E r) cs2 (zip es2 fs2)"
    and a3: "list_all2 (statement_recorded E r) cs3 (zip es3 fs3)"
  shows "map record_header (es1 @ es2 @ es3) =
     map (\<lambda>(org, q, idx).
            ([''filename'', ''documentType'', ''quality'', ''synthetic'', ''expectedFields''],
             Some (JStr (''receipts'' @ ''/'' @ ''receipt_'' @ short org @ ''_'' @ q @ ''_'' @
                         format_0d 3 idx @ ''.png'')),
             Some (JStr ''receipt''), Some (JStr q), Some (JBool True))) cs1 @
     map (\<lambda>(org, q, idx).
            ([''filename'', ''documentType'', ''quality'', ''synthetic'', ''expectedFields''],
             Some (JStr (''acknowledgment_letters'' @ ''/'' @ ''acknowledgment_'' @ short org @ ''_'' @
                         q @ ''_'' @ format_0d 3 idx @ ''.png'')),
             Some (JStr ''acknowledgment_letter''), Some (JStr q), Some (JBool True))) cs2 @
     map (\<lambda>(bank, q, idx).
            ([''filename'', ''documentType'', ''quality'', ''synthetic'', ''expectedFields''],
             Some (JStr (''bank_statements'' @ ''/'' @ ''bank_statement_'' @ bank_short bank @ ''_'' @
                         q @ ''_'' @ format_0d 3 idx @ ''.png'')),
             Some (JStr ''bank_statement''), Some (JStr q), Some (JBool True))) cs3"
proof -
  have "map record_header es1 = map (\<lambda>(org, q, idx).
            ([''filename'', ''documentType'', ''quality'', ''synthetic'', ''expectedFields''],
             Some (JStr (''receipts'' @ ''/'' @ ''receipt_'' @ short org @ ''_'' @ q @ ''_'' @
                         format_0d 3 idx @ ''.png'')),
             Some (JStr ''receipt''), Some (JStr q), Some (JBool True))) cs1"
    by (rule list_all2_zip_map [OF a1 l(1)])
      (auto simp: receipt_recorded_def document_recorded_def record_header_def)
  moreover have "map record_header es2 = map (\<lambda>(org, q, idx).
            ([''filename'', ''documentType'', ''quality'', ''synthetic'', ''expectedFields''],
             Some (JStr (''acknowledgment_letters'' @ ''/'' @ ''acknowledgment_'' @ short org @ ''_'' @
                         q @ ''_'' @ format_0d 3 idx @ ''.png'')),
             Some (JStr ''acknowledgment_letter''), Some (JStr q), Some (JBool True))) cs2"
    by (rule list_all2_zip_map [OF a2 l(2)])
      (auto simp: letter_recorded_def document_recorded_def record_header_def)
  moreover have "map record_header es3 = map (\<lambda>(bank, q, idx).
            ([''filename'', ''documentType'', ''quality'', ''synthetic'', ''expectedFields''],
             Some (JStr (''bank_statements'' @ ''/'' @ ''bank_statement_'' @ bank_short bank @ ''_'' @
                         q @ ''_'' @ format_0d 3 idx @ ''.png'')),
             Some (JStr ''bank_statement''), Some (JStr q), Some (JBool True))) cs3"
    by (rule list_all2_zip_map [OF a3 l(3)])
      (auto simp: statement_recorded_def document_recorded_def record_header_def)
  ultimately show ?thesis by (simp only: map_append)
qed

lemma image_paths:
  assumes l: "length es1 = length fs1" "length es2 = length fs2" "length es3 = length fs3"
    and a1: "list_all2 (receipt_recorded E r) cs1 (zip es1 fs1)"
    and a2: "list_all2 (letter_recorded E r) cs2 (zip es2 fs2)"
    and a3: "list_all2 (statement_recorded E r) cs3 (zip es3 fs3)"
  shows "map fst (fs1 @ fs2 @ fs3) =
     map (\<lambda>(org, q, idx). os_path_join (OUTPUT_DIR E)
            [''receipts'', ''receipt_'' @ short org @ ''_'' @ q @ ''_'' @ format_0d 3 idx @ ''.png''])
       cs1 @
     map (\<lambda>(org, q, idx). os_path_join (OUTPUT_DIR E)
            [''acknowledgment_letters'',
             ''acknowledgment_'' @ short org @ ''_'' @ q @ ''_'' @ format_0d 3 idx @ ''.png''])
       cs2 @
     map (\<lambda>(bank, q, idx). os_path_join (OUTPUT_DIR E)
            [''bank_statements'',
             ''bank_statement_'' @ bank_short bank @ ''_'' @ q @ ''_'' @ format_0d 3 idx @ ''.png''])
       cs3"
proof -
  have "map fst fs1 = map (\<lambda>(org, q, idx). os_path_join (OUTPUT_DIR E)
            [''receipts'', ''receipt_'' @ short org @ ''_'' @ q @ ''_'' @ format_0d 3 idx @ ''.png''])
       cs1"
    by (rule list_all2_zip_map_snd [OF a1 l(1)])
      (auto simp: receipt_recorded_def document_recorded_def)
  moreover have "map fst fs2 = map (\<lambda>(org, q, idx). os_path_join (OUTPUT_DIR E)
            [''acknowledgment_letters'',
             ''acknowledgment_'' @ short org @ ''_'' @ q @ ''_'' @ format_0d 3 idx @ ''.png''])
       cs2"
    by (rule list_all2_zip_map_snd [OF a2 l(2)])
      (auto simp: letter_recorded_def document_recorded_def)
  moreover have "map fst fs3 = map (\<lambda>(bank, q, idx). os_path_join (OUTPUT_DIR E)
            [''bank_statements'',
             ''bank_statement_'' @ bank_short bank @ ''_'' @ q @ ''_'' @ format_0d 3 idx @ ''.png''])
       cs3"
    by (rule list_all2_zip_map_snd [OF a3 l(3)])
      (auto simp: statement_recorded_def document_recorded_def)
  ultimately show ?thesis by (simp only: map_append)
qed

text \<open>
  Claim C2, as the code has it. The script never seeds \<^verbatim>\<open>random\<close>, so a run
  starts in whatever state the generator is in, and the sampled content (dates,
  amounts, numbers, noise, rotation) follows that state. What two runs, from any
  two states of the generator, have in common is the schedule: the directories,
  the paths of the 65 images and of the manifest in the order written, and for
  each of the 65 records its keys and its \<^verbatim>\<open>filename\<close>, \<^verbatim>\<open>documentType\<close>,
  \<^verbatim>\<open>quality\<close> and \<^verbatim>\<open>synthetic\<close>.
\<close>

theorem runs_agree_on_schedule_only:
  "\<exists>st1 st2.
     program E g1 = Inr st1 \<and> program E g2 = Inr st2 \<and>
     dirs st1 = dirs st2 \<and>
     map fst (files st1) = map fst (files st2) \<and>
     length (manifest_entries st1) = 65 \<and> length (manifest_entries st2) = 65 \<and>
     map record_header (manifest_entries st1) = map record_header (manifest_entries st2)"
proof -
  let ?D = "map (\<lambda>subdir. os_path_join (OUTPUT_DIR E) [subdir])
                   [''receipts'', ''acknowledgment_letters'', ''bank_statements'',
                    ''credit_card_statements'', ''cancelled_checks'', ''appraisals'',
                    ''form_8283'', ''other'']"
  let ?P = "(map (\<lambda>(org, q, idx). os_path_join (OUTPUT_DIR E)
            [''receipts'', ''receipt_'' @ short org @ ''_'' @ q @ ''_'' @ format_0d 3 idx @ ''.png''])
          (loop_calls ORGANIZATIONS (enumerate 0 receipt_qualities) 0) @
        map (\<lambda>(org, q, idx). os_path_join (OUTPUT_DIR E)
            [''acknowledgment_letters'',
             ''acknowledgment_'' @ short org @ ''_'' @ q @ ''_'' @ format_0d 3 idx @ ''.png''])
          (loop_calls ORGANIZATIONS (enumerate 0 letter_qualities) 0) @
        map (\<lambda>(bank, q, idx). os_path_join (OUTPUT_DIR E)
            [''bank_statements'',
             ''bank_statement_'' @ bank_short bank @ ''_'' @ q @ ''_'' @ format_0d 3 idx @ ''.png''])
          (loop_calls BANKS (enumerate 0 statement_qualities) 0)) @ [MANIFEST_PATH E]"
  let ?H = "map (\<lambda>(org, q, idx).
            ([''filename'', ''documentType'', ''quality'', ''synthetic'', ''expectedFields''],
             Some (JStr (''receipts'' @ ''/'' @ ''receipt_'' @ short org @ ''_'' @ q @ ''_'' @
                         format_0d 3 idx @ ''.png'')),
             Some (JStr ''receipt''), Some (JStr q), Some (JBool True)))
          (loop_calls ORGANIZATIONS (enumerate 0 receipt_qualities) 0) @
       map (\<lambda>(org, q, idx).
            ([''filename'', ''documentType'', ''quality'', ''synthetic'', ''expectedFields''],
             Some (JStr (''acknowledgment_letters'' @ ''/'' @ ''acknowledgment_'' @ short org @ ''_'' @
                         q @ ''_'' @ format_0d 3 idx @ ''.png'')),
             Some (JStr ''acknowledgment_letter''), Some (JStr q), Some (JBool True)))
          (loop_calls ORGANIZATIONS (enumerate 0 letter_qualities) 0) @
       map (\<lambda>(bank, q, idx).
            ([''filename'', ''documentType'', ''quality'', ''synthetic'', ''expectedFields''],
             Some (JStr (''bank_statements'' @ ''/'' @ ''bank_statement_'' @ bank_short bank @ ''_'' @
                         q @ ''_'' @ format_0d 3 idx @ ''.png'')),
             Some (JStr ''bank_statement''), Some (JStr q), Some (JBool True)))
          (loop_calls BANKS (enumerate 0 statement_qualities) 0)"
  have run: "\<exists>st. program E g = Inr st \<and> dirs st = ?D \<and> length (manifest_entries st) = 65 \<and>
     map fst (files st) = ?P \<and> map record_header (manifest_entries st) = ?H" for g
  proof -
    obtain r es1 fs1 es2 fs2 es3 fs3 g' m where
      p: "program E g =
         Inr \<lparr>random_state = g', dirs = ?D,
              files = fs1 @ fs2 @ fs3 @ [(MANIFEST_PATH E, JSON m)],
              manifest_entries = es1 @ es2 @ es3\<rparr>"
      and l: "length es1 = length fs1" "length es2 = length fs2" "length es3 = length fs3"
      and a1: "list_all2 (receipt_recorded E r)
         (loop_calls ORGANIZATIONS (enumerate 0 receipt_qualities) 0) (zip es1 fs1)"
      and a2: "list_all2 (letter_recorded E r)
         (loop_calls ORGANIZATIONS (enumerate 0 letter_qualities) 0) (zip es2 fs2)"
      and a3: "list_all2 (statement_recorded E r)
         (loop_calls BANKS (enumerate 0 statement_qualities) 0) (zip es3 fs3)"
      using program_spec [of g E] by blast
    define st where "st = \<lparr>random_state = g', dirs = ?D,
              files = fs1 @ fs2 @ fs3 @ [(MANIFEST_PATH E, JSON m)],
              manifest_entries = es1 @ es2 @ es3\<rparr>"
    have p': "program E g = Inr st" unfolding st_def by (rule p)
    have sd: "dirs st = ?D" and sf: "files st = (fs1 @ fs2 @ fs3) @ [(MANIFEST_PATH E, JSON m)]"
      and sm: "manifest_entries st = es1 @ es2 @ es3"
      by (simp_all add: st_def)
    have n1: "length es1 = 30"
      using list_all2_lengthD [OF a1] l(1)
      by (simp add: loop_calls_enumerate receipt_qualities_def)
    have n2: "length es2 = 20"
      using list_all2_lengthD [OF a2] l(2)
      by (simp add: loop_calls_enumerate letter_qualities_def)
    have n3: "length es3 = 15"
      using list_all2_lengthD [OF a3] l(3)
      by (simp add: loop_calls_enumerate statement_qualities_def)
    have len: "length (manifest_entries st) = 65" unfolding sm using n1 n2 n3 by simp
    have h: "map record_header (manifest_entries st) = ?H"
      unfolding sm by (rule record_headers [OF l a1 a2 a3])
    have "map fst (files st) = map fst (fs1 @ fs2 @ fs3) @ [MANIFEST_PATH E]"
      unfolding sf by simp
    then have ip: "map fst (files st) = ?P"
      by (simp only: image_paths [OF l a1 a2 a3])
    show ?thesis
      using p' sd len ip h by (intro exI [of _ st] conjI)
  qed
  obtain st1 where p1: "program E g1 = Inr st1" and d1: "dirs st1 = ?D"
    and n1: "length (manifest_entries st1) = 65" and f1: "map fst (files st1) = ?P"
    and h1: "map record_header (manifest_entries st1) = ?H"
    using run [of g1] by (elim exE conjE)
  obtain st2 where p2: "program E g2 = Inr st2" and d2: "dirs st2 = ?D"
    and n2: "length (manifest_entries st2) = 65" and f2: "map fst (files st2) = ?P"
    and h2: "map record_header (manifest_entries st2) = ?H"
    using run [of g2] by (elim exE conjE)
  show ?thesis
    apply (rule exI [of _ st1], rule exI [of _ st2])
    apply (intro conjI)
    subgoal by (rule p1)
    subgoal by (rule p2)
    subgoal by (simp only: d1 d2)
    subgoal by (simp only: f1 f2)
    subgoal by (rule n1)
    subgoal by (rule n2)
    subgoal by (simp only: h1 h2)
    done
qed

text \<open>
  Two runs, one with a generator whose every draw is 0 and one whose every draw
  is 1: the image \<^verbatim>\<open>receipt_habitat_edge_028.png\<close> is rotated by 5 degrees in
  the first and by 6 in the second, and the first record of the manifest, for
  \<^verbatim>\<open>receipt_goodwill_high_001.png\<close>, has the date 2025-01-01 in the first and
  2025-01-02 in the second.
\<close>

theorem two_runs_differ:
  "\<exists>st1 st2 img1 img2 x1 x2.
     program
       \<lparr>img_load = (\<lambda>_ _ _. (255, 255, 255)), rotated_size = (\<lambda>_ s. s), dejavu_installed = True,
        base_dir = ''/repo'', utcnow_isoformat = ''2026-01-29T12:00:00''\<rparr>
       (\<lambda>i. 0) = Inr st1 \<and>
     program
       \<lparr>img_load = (\<lambda>_ _ _. (255, 255, 255)), rotated_size = (\<lambda>_ s. s), dejavu_installed = True,
        base_dir = ''/repo'', utcnow_isoformat = ''2026-01-29T12:00:00''\<rparr>
       (\<lambda>i. 1) = Inr st2 \<and>
     files st1 ! 27 = (''/repo/documents/receipts/receipt_habitat_edge_028.png'', PNG img1) \<and>
     files st2 ! 27 = (''/repo/documents/receipts/receipt_habitat_edge_028.png'', PNG img2) \<and>
     (rotation_angles (ops img1) = [5] \<or> rotation_angles (ops img1) = [- 5]) \<and>
     (rotation_angles (ops img2) = [6] \<or> rotation_angles (ops img2) = [- 6]) \<and>
     img1 \<noteq> img2 \<and>
     json_get ''filename'' (hd (manifest_entries st1)) =
       Some (JStr ''receipts/receipt_goodwill_high_001.png'') \<and>
     json_get ''filename'' (hd (manifest_entries st2)) =
       Some (JStr ''receipts/receipt_goodwill_high_001.png'') \<and>
     json_get ''expectedFields'' (hd (manifest_entries st1)) = Some x1 \<and>
     json_get ''date'' x1 = Some (JStr ''2025-01-01'') \<and>
     json_get ''expectedFields'' (hd (manifest_entries st2)) = Some x2 \<and>
     json_get ''date'' x2 = Some (JStr ''2025-01-02'') \<and>
     files st1 \<noteq> files st2 \<and> manifest_entries st1 \<noteq> manifest_entries st2"
proof -
  let ?E = "\<lparr>img_load = (\<lambda>_ _ _. (255, 255, 255)), rotated_size = (\<lambda>_ s. s), dejavu_installed = True,
        base_dir = ''/repo'', utcnow_isoformat = ''2026-01-29T12:00:00''\<rparr>"
  have path: "os_path_join (OUTPUT_DIR ?E) [''receipts'', ''receipt_habitat_edge_028.png''] =
      ''/repo/documents/receipts/receipt_habitat_edge_028.png''"
    by (simp add: OUTPUT_DIR_def os_path_join_def join2_def)
  obtain st1 img1 where p1: "program ?E (\<lambda>i. 0) = Inr st1"
    and f1: "files st1 ! 27 = (''/repo/documents/receipts/receipt_habitat_edge_028.png'', PNG img1)"
    and r1: "rotation_angles (ops img1) = [5] \<or> rotation_angles (ops img1) = [- 5]"
    using program_edge_image [of ?E "\<lambda>i. 0"] unfolding path second_run_draws by auto
  obtain st2 img2 where p2: "program ?E (\<lambda>i. 1) = Inr st2"
    and f2: "files st2 ! 27 = (''/repo/documents/receipts/receipt_habitat_edge_028.png'', PNG img2)"
    and r2: "rotation_angles (ops img2) = [6] \<or> rotation_angles (ops img2) = [- 6]"
    using program_edge_image [of ?E "\<lambda>i. 1"] unfolding path second_run_draws by auto
  have di: "img1 \<noteq> img2" using r1 r2 by auto
  then have df: "files st1 \<noteq> files st2" using f1 f2 by auto
  obtain st1' rest1 date1 amount1 num1 ga where p1': "program ?E (\<lambda>i. 0) = Inr st1'"
    and d1: "random_date (\<lambda>i. (\<lambda>i. 0 :: int) (Suc i)) = (date1, ga)"
    and m1: "manifest_entries st1' =
       JDict
         [(''filename'', JStr ''receipts/receipt_goodwill_high_001.png''),
          (''documentType'', JStr ''receipt''),
          (''quality'', JStr ''high''),
          (''synthetic'', JBool True),
          (''expectedFields'', JDict
             [(''organization_name'', JStr ''Goodwill Industries''),
              (''ein'', JStr ''53-0196517''),
              (''amount'', JFloat amount1),
              (''date'', JStr (strftime date1 ''%Y-%m-%d'')),
              (''donor_name'', JStr ''Test Donor''),
              (''receipt_number'', JStr num1)])] # rest1"
    using program_first_record [of ?E "\<lambda>i. 0"] by blast
  obtain st2' rest2 date2 amount2 num2 gb where p2': "program ?E (\<lambda>i. 1) = Inr st2'"
    and d2: "random_date (\<lambda>i. (\<lambda>i. 1 :: int) (Suc i)) = (date2, gb)"
    and m2: "manifest_entries st2' =
       JDict
         [(''filename'', JStr ''receipts/receipt_goodwill_high_001.png''),
          (''documentType'', JStr ''receipt''),
          (''quality'', JStr ''high''),
          (''synthetic'', JBool True),
          (''expectedFields'', JDict
             [(''organization_name'', JStr ''Goodwill Industries''),
              (''ein'', JStr ''53-0196517''),
              (''amount'', JFloat amount2),
              (''date'', JStr (strftime date2 ''%Y-%m-%d'')),
              (''donor_name'', JStr ''Test Donor''),
              (''receipt_number'', JStr num2)])] # rest2"
    using program_first_record [of ?E "\<lambda>i. 1"] by blast
  have s1: "st1' = st1" using p1 p1' by simp
  have s2: "st2' = st2" using p2 p2' by simp
  have date1: "date1 = 739252" using d1 first_draws(1) by (simp add: prod_eq_iff)
  have date2: "date2 = 739253" using d2 second_run_draws(3) by (simp add: prod_eq_iff)
  let ?x1 = "JDict
             [(''organization_name'', JStr ''Goodwill Industries''),
              (''ein'', JStr ''53-0196517''),
              (''amount'', JFloat amount1),
              (''date'', JStr ''2025-01-01''),
              (''donor_name'', JStr ''Test Donor''),
              (''receipt_number'', JStr num1)]"
  let ?x2 = "JDict
             [(''organization_name'', JStr ''Goodwill Industries''),
              (''ein'', JStr ''53-0196517''),
              (''amount'', JFloat amount2),
              (''date'', JStr ''2025-01-02''),
              (''donor_name'', JStr ''Test Donor''),
              (''receipt_number'', JStr num2)]"
  have h1: "hd (manifest_entries st1) =
       JDict
         [(''filename'', JStr ''receipts/receipt_goodwill_high_001.png''),
          (''documentType'', JStr ''receipt''),
          (''quality'', JStr ''high''),
          (''synthetic'', JBool True),
          (''expectedFields'', ?x1)]"
    using m1 unfolding s1 date1 first_strings by simp
  have h2: "hd (manifest_entries st2) =
       JDict
         [(''filename'', JStr ''receipts/receipt_goodwill_high_001.png''),
          (''documentType'', JStr ''receipt''),
          (''quality'', JStr ''high''),
          (''synthetic'', JBool True),
          (''expectedFields'', ?x2)]"
    using m2 unfolding s2 date2 second_run_draws by simp
  have fn1: "json_get ''filename'' (hd (manifest_entries st1)) =
       Some (JStr ''receipts/receipt_goodwill_high_001.png'')"
    unfolding h1 by (simp add: json_get_def)
  have fn2: "json_get ''filename'' (hd (manifest_entries st2)) =
       Some (JStr ''receipts/receipt_goodwill_high_001.png'')"
    unfolding h2 by (simp add: json_get_def)
  have e1: "json_get ''expectedFields'' (hd (manifest_entries st1)) = Some ?x1"
    unfolding h1 by (simp add: json_get_def)
  have e2: "json_get ''expectedFields'' (hd (manifest_entries st2)) = Some ?x2"
    unfolding h2 by (simp add: json_get_def)
  have x1: "json_get ''date'' ?x1 = Some (JStr ''2025-01-01'')" by (simp add: json_get_def)
  have x2: "json_get ''date'' ?x2 = Some (JStr ''2025-01-02'')" by (simp add: json_get_def)
  have "hd (manifest_entries st1) \<noteq> hd (manifest_entries st2)"
    unfolding h1 h2 by simp
  then have dm: "manifest_entries st1 \<noteq> manifest_entries st2" by auto
  show ?thesis
    apply (rule exI [of _ st1], rule exI [of _ st2], rule exI [of _ img1], rule exI [of _ img2],
           rule exI [of _ ?x1], rule exI [of _ ?x2])
    apply (intro conjI)
    subgoal by (rule p1)
    subgoal by (rule p2)
    subgoal by (rule f1)
    subgoal by (rule f2)
    subgoal by (rule r1)
    subgoal by (rule r2)
    subgoal by (rule di)
    subgoal by (rule fn1)
    subgoal by (rule fn2)
    subgoal by (rule e1)
    subgoal by (rule x1)
    subgoal by (rule e2)
    subgoal by (rule x2)
    subgoal by (rule df)
    subgoal by (rule dm)
    done
qed

end
